theory Spec2Isabelle
  imports Main "HOL-Library.Word"
begin

section \<open>Go strings and the library functions the pipeline calls\<close>

text \<open>
  A Go string is a byte sequence, modelled as \<^typ>\<open>string\<close>; a rune outside ASCII is its
  UTF-8 bytes. A \<open>nil\<close>-able Go map is an optional association list (\<open>None\<close> is \<open>nil\<close>,
  \<open>len m = 0\<close> is the empty list); Go's \<open>int\<close> is \<^typ>\<open>int\<close>, except in the one loop
  that multiplies (the percent parser), which is a 64-bit word.
\<close>

text \<open>
  White space is what \<open>unicode.IsSpace\<close> accepts: tab, newline, vertical tab, form feed,
  carriage return and space, U+0085, U+00A0, U+1680, U+2000 to U+200A, U+2028, U+2029, U+202F,
  U+205F and U+3000, here in UTF-8. No encoding is a prefix of another, and none starts with
  a continuation byte, so a match at a byte position is a white-space rune at that position.
\<close>

definition spaceRunes :: "string list" where
  "spaceRunes =
     [[CHR 0x09], [CHR 0x0A], [CHR 0x0B], [CHR 0x0C], [CHR 0x0D], [CHR 0x20],
      [CHR 0xC2, CHR 0x85], [CHR 0xC2, CHR 0xA0], [CHR 0xE1, CHR 0x9A, CHR 0x80],
      [CHR 0xE2, CHR 0x80, CHR 0x80], [CHR 0xE2, CHR 0x80, CHR 0x81], [CHR 0xE2, CHR 0x80, CHR 0x82],
      [CHR 0xE2, CHR 0x80, CHR 0x83], [CHR 0xE2, CHR 0x80, CHR 0x84], [CHR 0xE2, CHR 0x80, CHR 0x85],
      [CHR 0xE2, CHR 0x80, CHR 0x86], [CHR 0xE2, CHR 0x80, CHR 0x87], [CHR 0xE2, CHR 0x80, CHR 0x88],
      [CHR 0xE2, CHR 0x80, CHR 0x89], [CHR 0xE2, CHR 0x80, CHR 0x8A], [CHR 0xE2, CHR 0x80, CHR 0xA8],
      [CHR 0xE2, CHR 0x80, CHR 0xA9], [CHR 0xE2, CHR 0x80, CHR 0xAF], [CHR 0xE2, CHR 0x81, CHR 0x9F],
      [CHR 0xE3, CHR 0x80, CHR 0x80]]"

text \<open>The length of the pattern of \<open>ps\<close> the string starts with, \<open>0\<close> when there is none.\<close>

definition leadLen :: "string list \<Rightarrow> string \<Rightarrow> nat" where
  "leadLen ps s = (case filter (\<lambda>p. take (length p) s = p) ps of [] \<Rightarrow> 0 | p # _ \<Rightarrow> length p)"

fun stripLeading :: "string list \<Rightarrow> string \<Rightarrow> string" where
  "stripLeading ps [] = []"
| "stripLeading ps (c # s) =
     (if leadLen ps (c # s) = 0 then c # s else stripLeading ps (drop (leadLen ps (c # s) - 1) s))"

text \<open>
  \<open>strings.TrimSpace\<close>: the white-space runes at the front go, then those at the back (the
  back is read as the front of the reversed string, against the reversed encodings).
\<close>

definition TrimSpace :: "string \<Rightarrow> string" where
  "TrimSpace s = rev (stripLeading (map rev spaceRunes) (rev (stripLeading spaceRunes s)))"

definition isUpper :: "char \<Rightarrow> bool" where
  "isUpper c \<longleftrightarrow> 65 \<le> (of_char c :: nat) \<and> (of_char c :: nat) \<le> 90"

definition isLower :: "char \<Rightarrow> bool" where
  "isLower c \<longleftrightarrow> 97 \<le> (of_char c :: nat) \<and> (of_char c :: nat) \<le> 122"

definition isDigit :: "char \<Rightarrow> bool" where
  "isDigit c \<longleftrightarrow> 48 \<le> (of_char c :: nat) \<and> (of_char c :: nat) \<le> 57"

definition toLowerChar :: "char \<Rightarrow> char" where
  "toLowerChar c = (if isUpper c then ''abcdefghijklmnopqrstuvwxyz'' ! ((of_char c :: nat) - 65) else c)"

text \<open>
  \<open>strings.ToLower\<close>: the letters \<open>A\<close> to \<open>Z\<close>, and the two runes outside ASCII whose
  lower case is an ASCII letter, U+212A (\<open>k\<close>) and U+0130 (\<open>i\<close>). Every other byte is kept:
  Go maps an upper-case letter outside ASCII to its lower case and an invalid byte to U+FFFD,
  which are again outside ASCII, and the callers here only compare the result with ASCII
  words and replace the runs outside \<open>[a-z0-9_-]\<close>.
\<close>

fun ToLower :: "string \<Rightarrow> string" where
  "ToLower [] = []"
| "ToLower (c # s) =
     (if c = CHR 0xE2 \<and> take 2 s = [CHR 0x84, CHR 0xAA] then CHR ''k'' # ToLower (drop 2 s)
      else if c = CHR 0xC4 \<and> take 1 s = [CHR 0xB0] then CHR ''i'' # ToLower (drop 1 s)
      else toLowerChar c # ToLower s)"

definition HasPrefix :: "string \<Rightarrow> string \<Rightarrow> bool" where
  "HasPrefix s p \<longleftrightarrow> take (length p) s = p"

definition HasSuffix :: "string \<Rightarrow> string \<Rightarrow> bool" where
  "HasSuffix s p \<longleftrightarrow> length p \<le> length s \<and> drop (length s - length p) s = p"

definition TrimPrefix :: "string \<Rightarrow> string \<Rightarrow> string" where
  "TrimPrefix s p = (if HasPrefix s p then drop (length p) s else s)"

definition TrimSuffix :: "string \<Rightarrow> string \<Rightarrow> string" where
  "TrimSuffix s p = (if HasSuffix s p then take (length s - length p) s else s)"

definition TrimRight :: "string \<Rightarrow> string \<Rightarrow> string" where
  "TrimRight s cutset = rev (dropWhile (\<lambda>c. c \<in> set cutset) (rev s))"

definition Trim :: "string \<Rightarrow> string \<Rightarrow> string" where
  "Trim s cutset = rev (dropWhile (\<lambda>c. c \<in> set cutset) (rev (dropWhile (\<lambda>c. c \<in> set cutset) s)))"

definition Contains :: "string \<Rightarrow> char \<Rightarrow> bool" where
  "Contains s c \<longleftrightarrow> c \<in> set s"

text \<open>\<open>strings.ReplaceAll s [c] new\<close> for a one-byte pattern.\<close>

definition ReplaceAll :: "string \<Rightarrow> char \<Rightarrow> string \<Rightarrow> string" where
  "ReplaceAll s c new = concat (map (\<lambda>x. if x = c then new else [x]) s)"

text \<open>\<open>strings.ReplaceAll s "\r\n" "\n"\<close>.\<close>

fun ReplaceCRLF :: "string \<Rightarrow> string" where
  "ReplaceCRLF [] = []"
| "ReplaceCRLF [c] = [c]"
| "ReplaceCRLF (c # d # s) =
     (if c = CHR 0x0D \<and> d = CHR 0x0A then CHR 0x0A # ReplaceCRLF s else c # ReplaceCRLF (d # s))"

fun Join :: "string list \<Rightarrow> string \<Rightarrow> string" where
  "Join [] sep = []"
| "Join [x] sep = x"
| "Join (x # y # xs) sep = x @ sep @ Join (y # xs) sep"

text \<open>\<open>strings.Split s [c]\<close>: the pieces between the occurrences of \<open>c\<close>.\<close>

fun Split :: "string \<Rightarrow> char \<Rightarrow> string list" where
  "Split [] c = [[]]"
| "Split (x # xs) c =
     (if x = c then [] # Split xs c
      else (case Split xs c of [] \<Rightarrow> [[x]] | p # ps \<Rightarrow> (x # p) # ps))"

text \<open>
  \<open>strings.Fields\<close>: the maximal runs of bytes between white-space runes. \<open>k\<close> counts
  the bytes of the white-space rune still to skip, \<open>cur\<close> holds the bytes of the field
  being read, last byte first.
\<close>

fun fieldsFrom :: "nat \<Rightarrow> string \<Rightarrow> string \<Rightarrow> string list" where
  "fieldsFrom k cur [] = (if cur = [] then [] else [rev cur])"
| "fieldsFrom k cur (c # s) =
     (if 0 < k then fieldsFrom (k - 1) cur s
      else if 0 < leadLen spaceRunes (c # s)
      then (if cur = [] then [] else [rev cur]) @ fieldsFrom (leadLen spaceRunes (c # s) - 1) [] s
      else fieldsFrom 0 (c # cur) s)"

definition Fields :: "string \<Rightarrow> string list" where
  "Fields s = fieldsFrom 0 [] s"

definition digitChar :: "nat \<Rightarrow> char" where
  "digitChar d = ''0123456789'' ! d"

function natDigits :: "nat \<Rightarrow> string" where
  "natDigits n = (if n < 10 then [digitChar n] else natDigits (n div 10) @ [digitChar (n mod 10)])"
  by pat_completeness auto
termination
  by (relation "measure (\<lambda>n. n)") auto

declare natDigits.simps [simp del]

text \<open>\<open>fmt.Sprintf "%d"\<close>.\<close>

definition itoa :: "int \<Rightarrow> string" where
  "itoa i = (if i < 0 then CHR ''-'' # natDigits (nat (- i)) else natDigits (nat i))"

text \<open>
  \<open>fmt.Sprintf "%.3f" (float64 ms / 1000.0)\<close> for \<open>0 \<le> ms\<close>, in exact arithmetic. The
  conversion to \<open>float64\<close> and the division each give the nearest number with a mantissa
  of 53 bits, ties to the even mantissa; the three decimals are that number rounded to
  thousandths, ties to even. A \<open>float64\<close> is a mantissa \<open>m\<close> and an exponent \<open>k\<close>, for
  \<open>m * 2 ^ k\<close>.
\<close>

definition roundTie :: "int \<Rightarrow> int \<Rightarrow> int \<Rightarrow> int" where
  "roundTie den q r = (if 2 * r > den \<or> (2 * r = den \<and> odd q) then q + 1 else q)"

definition roundHalfEven :: "int \<Rightarrow> int \<Rightarrow> int" where
  "roundHalfEven num den = roundTie den (num div den) (num mod den)"

function bitLength :: "int \<Rightarrow> nat" where
  "bitLength n = (if n \<le> 0 then 0 else Suc (bitLength (n div 2)))"
  by pat_completeness auto
termination
  by (relation "measure (\<lambda>n. nat n)") auto

declare bitLength.simps [simp del]

text \<open>
  The \<open>float64\<close> nearest to \<open>num / den\<close>, both positive: with \<open>t\<close> the difference of the bit
  lengths, the quotient lies between \<open>2 ^ (t - 1)\<close> and \<open>2 ^ (t + 1)\<close>, so its binary
  exponent is \<open>t\<close> or \<open>t - 1\<close>; the mantissa has that exponent less 52.
\<close>

definition binaryExponent :: "int \<Rightarrow> int \<Rightarrow> int \<Rightarrow> int" where
  "binaryExponent num den t = (if den * 2 ^ nat t \<le> num * 2 ^ nat (- t) then t else t - 1)"

definition mantissa :: "int \<Rightarrow> int \<Rightarrow> int \<Rightarrow> int \<times> int" where
  "mantissa num den k = (roundHalfEven (num * 2 ^ nat (- k)) (den * 2 ^ nat k), k)"

definition nearestFloat :: "int \<Rightarrow> int \<Rightarrow> int \<times> int" where
  "nearestFloat num den =
     mantissa num den (binaryExponent num den (int (bitLength num) - int (bitLength den)) - 52)"

definition divThousand :: "int \<times> int \<Rightarrow> int \<times> int" where
  "divThousand f = (case f of (m, k) \<Rightarrow> nearestFloat (m * 2 ^ nat k) (1000 * 2 ^ nat (- k)))"

definition thousandths :: "int \<times> int \<Rightarrow> int" where
  "thousandths f = (case f of (m, k) \<Rightarrow> roundHalfEven (m * 2 ^ nat k * 1000) (2 ^ nat (- k)))"

definition threeDigits :: "nat \<Rightarrow> string" where
  "threeDigits r = [digitChar (r div 100), digitChar ((r div 10) mod 10), digitChar (r mod 10)]"

definition fmtMillis :: "int \<Rightarrow> string" where
  "fmtMillis ms =
     (if ms \<le> 0 then ''0.000''
      else itoa (thousandths (divThousand (nearestFloat ms 1)) div 1000) @ ''.''
           @ threeDigits (nat (thousandths (divThousand (nearestFloat ms 1)) mod 1000)))"

subsection \<open>Maps\<close>

type_synonym boolmap = "(string \<times> bool) list"
type_synonym strmap = "(string \<times> string) list"

text \<open>\<open>m[k]\<close> on a \<open>map[string]bool\<close>: \<open>false\<close> for a missing key and for a \<open>nil\<close> map.\<close>

definition mapGet :: "boolmap \<Rightarrow> string \<Rightarrow> bool" where
  "mapGet m k = (case map_of m k of Some b \<Rightarrow> b | None \<Rightarrow> False)"

definition nilGet :: "boolmap option \<Rightarrow> string \<Rightarrow> bool" where
  "nilGet m k = (case m of None \<Rightarrow> False | Some l \<Rightarrow> mapGet l k)"

definition mapLen0 :: "('k \<times> 'v) list option \<Rightarrow> bool" where
  "mapLen0 m \<longleftrightarrow> (case m of None \<Rightarrow> True | Some l \<Rightarrow> l = [])"

text \<open>The set a \<open>map[string]bool\<close> stands for: the keys bound to \<open>true\<close>.\<close>

definition trueKeys :: "boolmap \<Rightarrow> string set" where
  "trueKeys m = {k. mapGet m k}"

subsection \<open>The process: environment and working directory\<close>

record world =
  environ :: strmap
  getwd :: "string option"

definition Getenv :: "world \<Rightarrow> string \<Rightarrow> string" where
  "Getenv w k = (case map_of (environ w) k of Some v \<Rightarrow> v | None \<Rightarrow> [])"

text \<open>\<open>os.UserHomeDir\<close> on Unix: \<open>$HOME\<close>, an error when it is empty.\<close>

definition UserHomeDir :: "world \<Rightarrow> string option" where
  "UserHomeDir w = (if Getenv w ''HOME'' = [] then None else Some (Getenv w ''HOME''))"

subsection \<open>path/filepath on Unix\<close>

definition Base :: "string \<Rightarrow> string" where
  "Base path =
     (if path = [] then ''.''
      else let p = rev (dropWhile (\<lambda>c. c = CHR ''/'') (rev path)) in
        if p = [] then ''/'' else rev (takeWhile (\<lambda>c. c \<noteq> CHR ''/'') (rev p)))"

text \<open>\<open>filepath.Clean\<close>: the stack holds the elements kept so far, the last one first.\<close>

definition cleanStep :: "bool \<Rightarrow> string list \<Rightarrow> string \<Rightarrow> string list" where
  "cleanStep rooted st e =
     (if e = [] \<or> e = ''.'' then st
      else if e = ''..'' then
        (case st of
           t # ts \<Rightarrow> if t = ''..'' then e # st else ts
         | [] \<Rightarrow> if rooted then [] else [e])
      else e # st)"

definition Clean :: "string \<Rightarrow> string" where
  "Clean path =
     (if path = [] then ''.''
      else let rooted = (hd path = CHR ''/'');
               st = foldl (cleanStep rooted) [] (Split path CHR ''/'');
               out = (if rooted then ''/'' else []) @ Join (rev st) ''/''
           in if out = [] then ''.'' else out)"

text \<open>\<open>filepath.Join [a, b]\<close>.\<close>

definition JoinPath :: "string \<Rightarrow> string \<Rightarrow> string" where
  "JoinPath a b =
     (if a \<noteq> [] then Clean (a @ ''/'' @ b) else if b \<noteq> [] then Clean b else [])"

text \<open>\<open>filepath.Abs\<close>: \<open>None\<close> when the working directory cannot be read.\<close>

definition Abs :: "world \<Rightarrow> string \<Rightarrow> string option" where
  "Abs w path =
     (if HasPrefix path ''/'' then Some (Clean path)
      else (case getwd w of None \<Rightarrow> None | Some wd \<Rightarrow> Some (JoinPath wd path)))"

section \<open>Package spec: the project-local session specification\<close>

text \<open>
  Go errors are values: \<open>Err\<close> carries the message (printf verbs left unexpanded),
  \<open>Wrap\<close> the context a caller adds with \<open>%w\<close>. A function returning only \<open>error\<close>
  returns \<^typ>\<open>'e option\<close> (\<open>None\<close> is \<open>nil\<close>); one returning a value and an error returns
  a sum, the error on the left. \<open>Panic\<close> is a run-time panic: the function does not
  return, and no caller here recovers, so a panic passes every caller as it is.
\<close>

datatype error = Err string | Wrap string error | Panic string

text \<open>What a caller that wraps the error of a call ends with: a panic is not wrapped.\<close>

definition wrapped :: "string \<Rightarrow> error \<Rightarrow> error" where
  "wrapped ctx e = (case e of Panic m \<Rightarrow> Panic m | _ \<Rightarrow> Wrap ctx e)"

definition wrapE :: "string \<Rightarrow> error + 'a \<Rightarrow> error + 'a" where
  "wrapE ctx r = (case r of Inl e \<Rightarrow> Inl (Wrap ctx e) | Inr x \<Rightarrow> Inr x)"

text \<open>A loop that transforms each element and returns at the first error.\<close>

fun mapE :: "('a \<Rightarrow> error + 'b) \<Rightarrow> 'a list \<Rightarrow> error + 'b list" where
  "mapE f [] = Inr []"
| "mapE f (x # xs) =
     (case f x of
        Inl e \<Rightarrow> Inl e
      | Inr y \<Rightarrow> (case mapE f xs of Inl e \<Rightarrow> Inl e | Inr ys \<Rightarrow> Inr (y # ys)))"

text \<open>A loop that checks each element and returns the first error.\<close>

fun firstErr :: "('a \<Rightarrow> error option) \<Rightarrow> 'a list \<Rightarrow> error option" where
  "firstErr f [] = None"
| "firstErr f (x # xs) = (case f x of Some e \<Rightarrow> Some e | None \<Rightarrow> firstErr f xs)"

record Target =
  t_Session :: string
  t_Window :: string
  t_Pane :: string

record TmuxAction =
  tmux_Name :: string
  tmux_Args :: "string list"

record RunAction =
  run_Program :: string
  run_Args :: "string list"
  run_Enter :: "bool option"

record SendKeysAction =
  sk_Keys :: "string list"
  sk_Enter :: bool

record ShellAction =
  sh_Cmd :: string
  sh_Shell :: string

record SleepAction =
  sl_Milliseconds :: int

record WatchAction =
  wa_IntervalSeconds :: int
  wa_Command :: string

record WaitForPromptAction =
  wfp_TimeoutMS :: int
  wfp_MinQuietMS :: int
  wfp_SettleMS :: int
  wfp_PromptRegex :: string
  wfp_MaxLines :: int

record SshManagerConnectAction =
  ssh_Host :: string
  ssh_User :: string
  ssh_Port :: int
  ssh_LoginMode :: string
  ssh_ConnectTimeoutMS :: int

record spec_Action =
  a_Type :: string
  a_Target :: Target
  a_Tmux :: "TmuxAction option"
  a_Run :: "RunAction option"
  a_SendKeys :: "SendKeysAction option"
  a_Shell :: "ShellAction option"
  a_Sleep :: "SleepAction option"
  a_Watch :: "WatchAction option"
  a_WaitForPrompt :: "WaitForPromptAction option"
  a_SshManagerConnect :: "SshManagerConnectAction option"
  a_IgnoreError :: bool
  a_Comment :: string

record Pane =
  p_Name :: string
  p_Root :: string
  p_Focus :: bool
  p_Actions :: "spec_Action list"
  p_Command :: string

record PanePlanPane =
  pp_Name :: string
  pp_Root :: string
  pp_Focus :: bool
  pp_Actions :: "spec_Action list"
  pp_Command :: string

record PanePlanSplit =
  ps_Direction :: string
  ps_Size :: string

record PanePlanStep =
  st_Pane :: "PanePlanPane option"
  st_Split :: "PanePlanSplit option"

record Window =
  w_Name :: string
  w_Root :: string
  w_Layout :: string
  w_Focus :: bool
  w_FocusPane :: string
  w_Panes :: "Pane list"
  w_PanePlan :: "PanePlanStep list"
  w_Actions :: "spec_Action list"

record Session =
  s_Name :: string
  s_Prefix :: string
  s_Root :: string
  s_Attach :: "bool option"
  s_SwitchClient :: "bool option"
  s_BaseIndex :: "int option"
  s_PaneBaseIndex :: "int option"
  s_FocusWindow :: string

record spec_Spec =
  sp_Version :: int
  sp_Name :: string
  sp_Description :: string
  sp_Session :: Session
  sp_Env :: "strmap option"
  sp_Windows :: "Window list"
  sp_Actions :: "spec_Action list"
  sp_Meta :: "strmap option"

record spec_Policy =
  pol_AllowShell :: bool
  pol_AllowTmuxPassthrough :: bool
  pol_AllowedTmuxCommands :: "boolmap option"

definition CurrentVersion :: int where
  "CurrentVersion = 1"

definition spec_DefaultPolicy :: spec_Policy where
  "spec_DefaultPolicy =
     \<lparr> pol_AllowShell = False,
       pol_AllowTmuxPassthrough = False,
       pol_AllowedTmuxCommands = Some
         [(''new-session'', True), (''new-window'', True), (''split-window'', True),
          (''rename-window'', True), (''rename-session'', True), (''select-layout'', True),
          (''select-window'', True), (''select-pane'', True), (''kill-window'', True),
          (''kill-pane'', True), (''kill-session'', True),
          (''send-keys'', True), (''set-option'', True), (''set-window-option'', True),
          (''list-windows'', True), (''list-panes'', True), (''display-message'', True)] \<rparr>"

definition validateAction :: "spec_Action \<Rightarrow> error + spec_Action" where
  "validateAction a0 =
     (let a = a0\<lparr>a_Type := TrimSpace (ToLower (a_Type a0))\<rparr> in
      if a_Type a = [] then Inl (Err ''missing type'')
      else if a_Type a = ''tmux'' then
        (case a_Tmux a of
           None \<Rightarrow> Inl (Err ''tmux action missing tmux{}'')
         | Some t \<Rightarrow>
             if TrimSpace (tmux_Name t) = [] then Inl (Err ''tmux.name is required'')
             else Inr (a\<lparr>a_Tmux := Some (t\<lparr>tmux_Name := TrimSpace (tmux_Name t)\<rparr>)\<rparr>))
      else if a_Type a = ''run'' then
        (case a_Run a of
           None \<Rightarrow> Inl (Err ''run action missing run{}'')
         | Some r \<Rightarrow>
             if TrimSpace (run_Program r) = [] then Inl (Err ''run.program is required'')
             else Inr (a\<lparr>a_Run := Some (r\<lparr>run_Program := TrimSpace (run_Program r)\<rparr>)\<rparr>))
      else if a_Type a = ''send_keys'' then
        (case a_SendKeys a of
           None \<Rightarrow> Inl (Err ''send_keys action missing send_keys{}'')
         | Some k \<Rightarrow>
             if sk_Keys k = [] then Inl (Err ''send_keys.keys is required'') else Inr a)
      else if a_Type a = ''shell'' then
        (case a_Shell a of
           None \<Rightarrow> Inl (Err ''shell action missing shell{}'')
         | Some c \<Rightarrow>
             if TrimSpace (sh_Cmd c) = [] then Inl (Err ''shell.cmd is required'')
             else Inr (a\<lparr>a_Shell := Some (c\<lparr>sh_Cmd := TrimSpace (sh_Cmd c)\<rparr>)\<rparr>))
      else if a_Type a = ''sleep'' then
        (case a_Sleep a of
           None \<Rightarrow> Inl (Err ''sleep action missing sleep{}'')
         | Some z \<Rightarrow>
             if sl_Milliseconds z < 0 then Inl (Err ''sleep.ms must be >= 0'') else Inr a)
      else if a_Type a = ''watch'' then
        (case a_Watch a of
           None \<Rightarrow> Inl (Err ''watch action missing watch{}'')
         | Some x \<Rightarrow>
             if wa_IntervalSeconds x < 0 then Inl (Err ''watch.interval_s must be >= 0'')
             else if TrimSpace (wa_Command x) = [] then Inl (Err ''watch.command is required'')
             else Inr (a\<lparr>a_Watch := Some (x\<lparr>wa_Command := TrimSpace (wa_Command x)\<rparr>)\<rparr>))
      else if a_Type a = ''wait_for_prompt'' then
        (case a_WaitForPrompt a of
           None \<Rightarrow> Inl (Err ''wait_for_prompt action missing wait_for_prompt{}'')
         | Some x \<Rightarrow>
             if wfp_TimeoutMS x < 0 then Inl (Err ''wait_for_prompt.timeout_ms must be >= 0'')
             else if wfp_MinQuietMS x < 0 then Inl (Err ''wait_for_prompt.min_quiet_ms must be >= 0'')
             else if wfp_SettleMS x < 0 then Inl (Err ''wait_for_prompt.settle_ms must be >= 0'')
             else if wfp_MaxLines x < 0 then Inl (Err ''wait_for_prompt.max_lines must be >= 0'')
             else Inr (a\<lparr>a_WaitForPrompt := Some (x\<lparr>wfp_PromptRegex := TrimSpace (wfp_PromptRegex x)\<rparr>)\<rparr>))
      else if a_Type a = ''ssh_manager_connect'' then
        (case a_SshManagerConnect a of
           None \<Rightarrow> Inl (Err ''ssh_manager_connect action missing ssh_manager_connect{}'')
         | Some x \<Rightarrow>
             if TrimSpace (ssh_Host x) = [] then Inl (Err ''ssh_manager_connect.host is required'')
             else if ssh_Port x < 0 then Inl (Err ''ssh_manager_connect.port must be >= 0'')
             else
               (let lm0 = TrimSpace (ToLower (ssh_LoginMode x));
                    lm = (if lm0 = [] then ''askpass'' else lm0)
                in if lm \<noteq> ''askpass'' \<and> lm \<noteq> ''manual'' \<and> lm \<noteq> ''key''
                   then Inl (Err ''ssh_manager_connect.login_mode must be askpass|manual|key'')
                   else if ssh_ConnectTimeoutMS x < 0
                   then Inl (Err ''ssh_manager_connect.connect_timeout_ms must be >= 0'')
                   else Inr (a\<lparr>a_SshManagerConnect := Some (x\<lparr>ssh_Host := TrimSpace (ssh_Host x),
                          ssh_User := TrimSpace (ssh_User x), ssh_LoginMode := lm\<rparr>)\<rparr>)))
      else Inl (Err ''unknown action type''))"

definition validateStep :: "PanePlanStep \<Rightarrow> error option" where
  "validateStep step =
     (if (st_Pane step \<noteq> None) = (st_Split step \<noteq> None)
      then Some (Err ''step must have exactly one of pane or split'')
      else (case st_Split step of
              Some sp \<Rightarrow>
                (let dir = ToLower (TrimSpace (ps_Direction sp)) in
                 if dir \<noteq> ''h'' \<and> dir \<noteq> ''v''
                 then Some (Err ''step.split.direction must be h or v'') else None)
            | None \<Rightarrow> None))"

definition validatePanePlan :: "PanePlanStep list \<Rightarrow> error option" where
  "validatePanePlan steps =
     (case steps of
        [] \<Rightarrow> None
      | s0 # _ \<Rightarrow>
          if st_Pane s0 = None \<or> st_Split s0 \<noteq> None then Some (Err ''first step must be pane'')
          else (case firstErr validateStep steps of
                  Some e \<Rightarrow> Some e
                | None \<Rightarrow>
                    if st_Split (last steps) \<noteq> None
                    then Some (Err ''last step must be pane (cannot end with split)'')
                    else None))"

definition shorthandAction :: "string \<Rightarrow> spec_Action" where
  "shorthandAction cmd =
     \<lparr> a_Type = ''shell'', a_Target = \<lparr>t_Session = [], t_Window = [], t_Pane = []\<rparr>,
       a_Tmux = None, a_Run = None, a_SendKeys = None,
       a_Shell = Some \<lparr>sh_Cmd = cmd, sh_Shell = []\<rparr>,
       a_Sleep = None, a_Watch = None, a_WaitForPrompt = None, a_SshManagerConnect = None,
       a_IgnoreError = False, a_Comment = [] \<rparr>"

definition validatePlanStepActions :: "PanePlanStep \<Rightarrow> error + PanePlanStep" where
  "validatePlanStepActions step =
     (case st_Pane step of
        None \<Rightarrow> Inr step
      | Some p \<Rightarrow>
          (let acts = (if pp_Command p \<noteq> [] \<and> pp_Actions p = []
                       then [shorthandAction (pp_Command p)] else pp_Actions p)
           in case mapE validateAction acts of
                Inl e \<Rightarrow> Inl (Wrap ''pane_plan[].pane.actions[]'' e)
              | Inr acts' \<Rightarrow> Inr (step\<lparr>st_Pane := Some (p\<lparr>pp_Actions := acts'\<rparr>)\<rparr>)))"

definition validatePaneActions :: "Pane \<Rightarrow> error + Pane" where
  "validatePaneActions p =
     (let acts = (if p_Command p \<noteq> [] \<and> p_Actions p = []
                  then [shorthandAction (p_Command p)] else p_Actions p)
      in case mapE validateAction acts of
           Inl e \<Rightarrow> Inl (Wrap ''panes[].actions[]'' e)
         | Inr acts' \<Rightarrow> Inr (p\<lparr>p_Actions := acts'\<rparr>))"

definition validateWindow :: "Window \<Rightarrow> error + Window" where
  "validateWindow w0 =
     (if TrimSpace (w_Name w0) = [] then Inl (Err ''windows[].name is required'')
      else
        (let w = w0\<lparr>w_FocusPane := TrimSpace (ToLower (w_FocusPane w0))\<rparr> in
         if w_FocusPane w \<noteq> [] \<and> w_FocusPane w \<noteq> ''active'' \<and> \<not> list_all isDigit (w_FocusPane w)
         then Inl (Err ''windows[].focus_pane must be active or a numeric string'')
         else
           (case (if w_PanePlan w \<noteq> [] then validatePanePlan (w_PanePlan w) else None) of
              Some e \<Rightarrow> Inl (Wrap ''windows[].pane_plan'' e)
            | None \<Rightarrow>
                (case mapE validatePlanStepActions (w_PanePlan w) of
                   Inl e \<Rightarrow> Inl (Wrap ''windows[]'' e)
                 | Inr plan \<Rightarrow>
                     (case mapE validatePaneActions (w_Panes w) of
                        Inl e \<Rightarrow> Inl (Wrap ''windows[]'' e)
                      | Inr panes \<Rightarrow>
                          (case mapE validateAction (w_Actions w) of
                             Inl e \<Rightarrow> Inl (Wrap ''windows[].actions[]'' e)
                           | Inr acts \<Rightarrow>
                               Inr (w\<lparr>w_PanePlan := plan, w_Panes := panes, w_Actions := acts\<rparr>)))))))"

definition isNameChar :: "char \<Rightarrow> bool" where
  "isNameChar c \<longleftrightarrow> isLower c \<or> isUpper c \<or> isDigit c \<or> c = CHR ''_'' \<or> c = CHR ''-''"

definition ValidateTmuxName :: "string \<Rightarrow> error option" where
  "ValidateTmuxName name =
     (if TrimSpace name = [] then Some (Err ''empty name'')
      else if \<not> list_all isNameChar (TrimSpace name) then Some (Err ''invalid name'')
      else None)"

definition Validate :: "spec_Spec \<Rightarrow> error + spec_Spec" where
  "Validate s0 =
     (let s = (if sp_Version s0 = 0 then s0\<lparr>sp_Version := CurrentVersion\<rparr> else s0) in
      if sp_Version s \<noteq> CurrentVersion then Inl (Err ''unsupported spec version'')
      else if sp_Actions s = [] \<and> sp_Windows s = []
      then Inl (Err ''spec must define either windows[] or actions[]'')
      else
        (case mapE validateWindow (sp_Windows s) of
           Inl e \<Rightarrow> Inl e
         | Inr ws \<Rightarrow>
             (case mapE validateAction (sp_Actions s) of
                Inl e \<Rightarrow> Inl (Wrap ''actions[]'' e)
              | Inr acts \<Rightarrow>
                  (case (if s_Name (sp_Session s) \<noteq> [] then ValidateTmuxName (s_Name (sp_Session s))
                         else None) of
                     Some e \<Rightarrow> Inl (Wrap ''session.name'' e)
                   | None \<Rightarrow>
                       (let fw = TrimSpace (s_FocusWindow (sp_Session s)) in
                        if fw = [] then
                          Inr (s\<lparr>sp_Windows := ws, sp_Actions := acts,
                                 sp_Session := (sp_Session s)\<lparr>s_FocusWindow := fw\<rparr>\<rparr>)
                        else if ToLower fw = ''active'' then
                          Inr (s\<lparr>sp_Windows := ws, sp_Actions := acts,
                                 sp_Session := (sp_Session s)\<lparr>s_FocusWindow := ''active''\<rparr>\<rparr>)
                        else if list_all isDigit fw then
                          Inr (s\<lparr>sp_Windows := ws, sp_Actions := acts,
                                 sp_Session := (sp_Session s)\<lparr>s_FocusWindow := fw\<rparr>\<rparr>)
                        else
                          (case ValidateTmuxName fw of
                             Some e \<Rightarrow> Inl (Wrap ''session.focus_window'' e)
                           | None \<Rightarrow>
                               Inr (s\<lparr>sp_Windows := ws, sp_Actions := acts,
                                      sp_Session := (sp_Session s)\<lparr>s_FocusWindow := fw\<rparr>\<rparr>)))))))"

text \<open>The closure \<open>check\<close> of \<open>ValidatePolicy\<close>, with the policy it captures.\<close>

definition policyCheck :: "spec_Policy \<Rightarrow> spec_Action \<Rightarrow> error option" where
  "policyCheck pol a =
     (if a_Type a = ''shell'' then
        (if \<not> pol_AllowShell pol then Some (Err ''shell actions are disabled by policy'') else None)
      else if a_Type a = ''tmux'' then
        (case a_Tmux a of
           None \<Rightarrow> Some (Err ''tmux action missing tmux{}'')
         | Some t \<Rightarrow>
             if TrimSpace (tmux_Name t) = [] then Some (Err ''tmux.name is required'')
             else if \<not> pol_AllowTmuxPassthrough pol
                     \<and> \<not> nilGet (pol_AllowedTmuxCommands pol) (TrimSpace (tmux_Name t))
             then Some (Err ''tmux command not allowed by policy'')
             else None)
      else None)"

definition policyCheckWindow :: "spec_Policy \<Rightarrow> Window \<Rightarrow> error option" where
  "policyCheckWindow pol w =
     (case firstErr (policyCheck pol) (w_Actions w) of
        Some e \<Rightarrow> Some (Wrap ''window'' e)
      | None \<Rightarrow>
          (case firstErr (\<lambda>p. firstErr (policyCheck pol) (p_Actions p)) (w_Panes w) of
             Some e \<Rightarrow> Some (Wrap ''window pane'' e)
           | None \<Rightarrow> None))"

definition ValidatePolicy :: "spec_Spec \<Rightarrow> spec_Policy \<Rightarrow> error option" where
  "ValidatePolicy s pol0 =
     (let pol = (if pol_AllowedTmuxCommands pol0 = None
                 then pol0\<lparr>pol_AllowedTmuxCommands := pol_AllowedTmuxCommands spec_DefaultPolicy\<rparr>
                 else pol0)
      in case firstErr (policyCheck pol) (sp_Actions s) of
           Some e \<Rightarrow> Some e
         | None \<Rightarrow> firstErr (policyCheckWindow pol) (sp_Windows s))"

subsection \<open>Derived session names\<close>

definition isSafeChar :: "char \<Rightarrow> bool" where
  "isSafeChar c \<longleftrightarrow> isLower c \<or> isDigit c \<or> c = CHR ''_'' \<or> c = CHR ''-''"

text \<open>\<open>regexp [^a-z0-9_-]+\<close>, \<open>ReplaceAllString s "-"\<close>: each maximal run becomes one dash.\<close>

fun replaceUnsafeFrom :: "bool \<Rightarrow> string \<Rightarrow> string" where
  "replaceUnsafeFrom inRun [] = []"
| "replaceUnsafeFrom inRun (c # s) =
     (if isSafeChar c then c # replaceUnsafeFrom False s
      else if inRun then replaceUnsafeFrom True s
      else CHR ''-'' # replaceUnsafeFrom True s)"

definition replaceUnsafeRuns :: "string \<Rightarrow> string" where
  "replaceUnsafeRuns s = replaceUnsafeFrom False s"

fun collapseFrom :: "char \<Rightarrow> char \<Rightarrow> string \<Rightarrow> string" where
  "collapseFrom ch prev [] = []"
| "collapseFrom ch prev (r # s) =
     (if r = ch \<and> prev = ch then collapseFrom ch prev s else r # collapseFrom ch r s)"

definition collapseRepeats :: "string \<Rightarrow> char \<Rightarrow> string" where
  "collapseRepeats s ch = (case s of [] \<Rightarrow> [] | r # rs \<Rightarrow> r # collapseFrom ch r rs)"

definition sanitizeName :: "string \<Rightarrow> string" where
  "sanitizeName s0 =
     (let s = ToLower (TrimSpace s0) in
      if s = [] then []
      else
        (let s1 = ReplaceAll s CHR '' '' ''-'';
             s2 = ReplaceAll s1 CHR ''/'' ''-'';
             s3 = replaceUnsafeRuns s2;
             s4 = Trim s3 ''-_'';
             s5 = collapseRepeats s4 CHR ''-'';
             s6 = collapseRepeats s5 CHR ''_''
         in if s6 = [] then ''session'' else s6))"

definition DeriveSessionName :: "string \<Rightarrow> string \<Rightarrow> string" where
  "DeriveSessionName prefix projectPath =
     (let base = sanitizeName (Base (TrimRight projectPath ''/'')) in
      if prefix \<noteq> [] \<and> sanitizeName prefix \<noteq> [] then sanitizeName prefix @ ''-'' @ base
      else base)"

section \<open>Package templates: the engine\<close>

record Policy =
  AllowShell :: bool
  AllowTmuxPassthrough :: bool
  AllowedTmuxCommands :: "boolmap option"
  DisallowTmuxCommands :: "boolmap option"
  MaxActions :: int
  MaxCommandLen :: int

definition defaultAllowedTmuxCommands :: boolmap where
  "defaultAllowedTmuxCommands =
     map (\<lambda>c. (c, True))
       [''new-session'', ''kill-session'', ''rename-session'', ''switch-client'', ''select-session'',
        ''new-window'', ''kill-window'', ''rename-window'', ''select-window'', ''move-window'',
        ''swap-window'', ''list-windows'', ''list-sessions'',
        ''split-window'', ''kill-pane'', ''select-pane'', ''resize-pane'', ''select-layout'',
        ''send-keys'', ''display-message'', ''set-option'', ''set-buffer'']"

definition DefaultPolicy :: Policy where
  "DefaultPolicy =
     \<lparr> AllowShell = False,
       AllowTmuxPassthrough = False,
       AllowedTmuxCommands = Some defaultAllowedTmuxCommands,
       DisallowTmuxCommands = Some
         [(''run-shell'', True), (''if-shell'', True), (''pipe-pane'', True), (''respawn-pane'', True)],
       MaxActions = 200,
       MaxCommandLen = 4096 \<rparr>"

record Context =
  ProjectName :: string
  ProjectPath :: string
  SessionName :: string
  WorkingDir :: string
  Env :: "strmap option"
  TmuxSocket :: string

text \<open>\<open>ActionKind\<close> is a string type; its constants are the strings below.\<close>

abbreviation (input) "ActionEnsureSession \<equiv> ''ensure_session''"
abbreviation (input) "ActionNewWindow \<equiv> ''new_window''"
abbreviation (input) "ActionSplitWindow \<equiv> ''split_window''"
abbreviation (input) "ActionSelectWindow \<equiv> ''select_window''"
abbreviation (input) "ActionSelectPane \<equiv> ''select_pane''"
abbreviation (input) "ActionSelectLayout \<equiv> ''select_layout''"
abbreviation (input) "ActionSendKeys \<equiv> ''send_keys''"
abbreviation (input) "ActionSetOption \<equiv> ''set_option''"
abbreviation (input) "ActionDisplay \<equiv> ''display_message''"
abbreviation (input) "ActionRenameWindow \<equiv> ''rename_window''"
abbreviation (input) "ActionWaitForPrompt \<equiv> ''wait_for_prompt''"
abbreviation (input) "ActionSshManagerConnect \<equiv> ''ssh_manager_connect''"
abbreviation (input) "ActionShell \<equiv> ''shell''"
abbreviation (input) "ActionTmux \<equiv> ''tmux''"

record Action =
  act_Kind :: string
  act_Session :: string
  act_Window :: string
  act_Pane :: string
  act_Cwd :: string
  act_Name :: string
  act_From :: string
  act_Direction :: string
  act_Percent :: int
  act_Layout :: string
  act_Command :: string
  act_Keys :: "string list"
  act_Enter :: bool
  act_TimeoutMS :: int
  act_MinQuietMS :: int
  act_SettleMS :: int
  act_PromptRe :: string
  act_MaxLines :: int
  act_Host :: string
  act_User :: string
  act_Port :: int
  act_LoginMode :: string
  act_ConnectTimeoutMS :: int
  act_Option :: string
  act_Value :: string
  act_Global :: bool
  act_Message :: string
  act_DurationMS :: int
  act_Shell :: string
  act_TmuxArgs :: "string list"

text \<open>The zero value of \<open>Action\<close>: what a composite literal leaves in the fields it omits.\<close>

definition Action0 :: Action where
  "Action0 =
     \<lparr> act_Kind = [], act_Session = [], act_Window = [], act_Pane = [], act_Cwd = [],
       act_Name = [], act_From = [], act_Direction = [], act_Percent = 0, act_Layout = [],
       act_Command = [], act_Keys = [], act_Enter = False, act_TimeoutMS = 0,
       act_MinQuietMS = 0, act_SettleMS = 0, act_PromptRe = [], act_MaxLines = 0,
       act_Host = [], act_User = [], act_Port = 0, act_LoginMode = [],
       act_ConnectTimeoutMS = 0, act_Option = [], act_Value = [], act_Global = False,
       act_Message = [], act_DurationMS = 0, act_Shell = [], act_TmuxArgs = [] \<rparr>"

record Spec =
  tpl_Version :: int
  tpl_ID :: string
  tpl_Name :: string
  tpl_Actions :: "Action list"
  tpl_Unsafe :: bool

record Command =
  Args :: "string list"
  Explanation :: string
  Unsafe :: bool

record Compiled =
  Commands :: "Command list"
  UnsafeUsed :: bool
  Warnings :: "string list"

definition Compiled0 :: Compiled where
  "Compiled0 = \<lparr> Commands = [], UnsafeUsed = False, Warnings = [] \<rparr>"

subsection \<open>Substitution\<close>

definition isIdentStart :: "char \<Rightarrow> bool" where
  "isIdentStart c \<longleftrightarrow> isUpper c \<or> isLower c \<or> c = CHR ''_''"

definition isIdentChar :: "char \<Rightarrow> bool" where
  "isIdentChar c \<longleftrightarrow> isUpper c \<or> isLower c \<or> isDigit c \<or> c = CHR ''_''"

definition isDefaultChar :: "char \<Rightarrow> bool" where
  "isDefaultChar c \<longleftrightarrow> c \<noteq> CHR ''}'' \<and> c \<noteq> CHR 0x0A"

text \<open>
  The match of \<open>reVar\<close> at the start of a string: the key, the default (empty when the
  group \<open>:-...\<close> does not take part) and the text after the match. The key is the longest
  run of identifier bytes (what follows it must be \<open>:\<close> or \<open>}\<close>, neither an identifier
  byte); the lazy \<open>.*?\<close> stops at the first \<open>}\<close> and does not cross a newline.
\<close>

definition reVarDefault :: "string \<Rightarrow> string \<Rightarrow> (string \<times> string \<times> string) option" where
  "reVarDefault key r =
     (case dropWhile isDefaultChar r of
        [] \<Rightarrow> None
      | z # rest \<Rightarrow> if z = CHR ''}'' then Some (key, takeWhile isDefaultChar r, rest) else None)"

definition reVarTail :: "string \<Rightarrow> string \<Rightarrow> (string \<times> string \<times> string) option" where
  "reVarTail key r =
     (case r of
        [] \<Rightarrow> None
      | x # r1 \<Rightarrow>
          if x = CHR ''}'' then Some (key, [], r1)
          else if x = CHR '':'' then
            (case r1 of
               [] \<Rightarrow> None
             | y # r2 \<Rightarrow> if y = CHR ''-'' then reVarDefault key r2 else None)
          else None)"

definition reVarMatch :: "string \<Rightarrow> (string \<times> string \<times> string) option" where
  "reVarMatch s =
     (case s of
        c1 # c2 # k # r \<Rightarrow>
          if c1 = CHR ''$'' \<and> c2 = CHR ''{'' \<and> isIdentStart k
          then reVarTail (k # takeWhile isIdentChar r) (dropWhile isIdentChar r)
          else None
      | _ \<Rightarrow> None)"

lemma reVarDefault_shorter: "reVarDefault key r = Some (k, d, rest) \<Longrightarrow> length rest < length r"
proof -
  assume a: "reVarDefault key r = Some (k, d, rest)"
  have "length (dropWhile isDefaultChar r) \<le> length r"
    by (rule length_dropWhile_le)
  with a show ?thesis
    by (auto simp: reVarDefault_def split: list.splits if_splits)
qed

lemma reVarTail_shorter: "reVarTail key r = Some (k, d, rest) \<Longrightarrow> length rest < length r"
  by (auto simp: reVarTail_def split: list.splits if_splits dest!: reVarDefault_shorter)

lemma reVarMatch_shorter: "reVarMatch s = Some (k, d, rest) \<Longrightarrow> length rest < length s"
proof -
  assume a: "reVarMatch s = Some (k, d, rest)"
  then obtain c1 c2 k0 r where s: "s = c1 # c2 # k0 # r"
    and t: "reVarTail (k0 # takeWhile isIdentChar r) (dropWhile isIdentChar r) = Some (k, d, rest)"
    by (auto simp: reVarMatch_def split: list.splits if_splits)
  from t have "length rest < length (dropWhile isIdentChar r)"
    by (rule reVarTail_shorter)
  moreover have "length (dropWhile isIdentChar r) \<le> length r"
    by (rule length_dropWhile_le)
  ultimately show ?thesis using s by simp
qed

text \<open>\<open>reVar.ReplaceAllStringFunc\<close>: the leftmost match, then on after it.\<close>

function expandVars :: "string \<Rightarrow> (string \<Rightarrow> string \<Rightarrow> string) \<Rightarrow> string" where
  "expandVars s lookup =
     (case s of
        [] \<Rightarrow> []
      | c # cs \<Rightarrow>
          (case reVarMatch s of
             Some (key, def, rest) \<Rightarrow> lookup key def @ expandVars rest lookup
           | None \<Rightarrow> c # expandVars cs lookup))"
  by pat_completeness auto
termination
  by (relation "measure (\<lambda>(s, lookup). length s)") (auto dest: reVarMatch_shorter)

declare expandVars.simps [simp del]

text \<open>The closure \<open>subst\<close> passes to \<open>expandVars\<close>.\<close>

definition substLookup :: "world \<Rightarrow> Context \<Rightarrow> string \<Rightarrow> string \<Rightarrow> string" where
  "substLookup w ctx key def =
     (if key = ''PROJECT_NAME'' \<and> ProjectName ctx \<noteq> [] then ProjectName ctx
      else if key = ''PROJECT_PATH'' \<and> ProjectPath ctx \<noteq> [] then ProjectPath ctx
      else if key = ''SESSION_NAME'' \<and> SessionName ctx \<noteq> [] then SessionName ctx
      else if key = ''TMUX_SOCK'' \<and> TmuxSocket ctx \<noteq> [] then TmuxSocket ctx
      else
        (case (case Env ctx of None \<Rightarrow> None | Some m \<Rightarrow> map_of m key) of
           Some v \<Rightarrow> if v \<noteq> [] then v else if Getenv w key \<noteq> [] then Getenv w key else def
         | None \<Rightarrow> if Getenv w key \<noteq> [] then Getenv w key else def))"

definition subst :: "world \<Rightarrow> Context \<Rightarrow> string \<Rightarrow> string" where
  "subst w ctx s = expandVars s (substLookup w ctx)"

definition expandUser :: "world \<Rightarrow> string \<Rightarrow> string" where
  "expandUser w p0 =
     (let p = TrimSpace p0 in
      if p = [] then p
      else if p = ''~'' \<or> HasPrefix p ''~/'' then
        (case UserHomeDir w of
           None \<Rightarrow> p
         | Some home \<Rightarrow> if p = ''~'' then home else JoinPath home (drop 2 p))
      else p)"

subsection \<open>Shell quoting\<close>

definition shellSpecial :: "char \<Rightarrow> bool" where
  "shellSpecial r \<longleftrightarrow> r \<in> set ('' $&|;<>(){}*?!~#'' @ [CHR 0x09, CHR 0x0A, CHR 0x22, CHR 0x27,
     CHR 0x5C, CHR 0x60])"

definition shellQuote :: "string \<Rightarrow> string" where
  "shellQuote s =
     (if s = [] then [CHR 0x27, CHR 0x27]
      else if \<not> list_ex shellSpecial s then s
      else [CHR 0x27]
           @ ReplaceAll s (CHR 0x27) [CHR 0x27, CHR 0x5C, CHR 0x22, CHR 0x27, CHR 0x5C, CHR 0x22, CHR 0x27]
           @ [CHR 0x27])"

definition shellJoin :: "string list \<Rightarrow> string" where
  "shellJoin args = Join (map shellQuote args) '' ''"

subsection \<open>Stage B: one action to commands\<close>

type_synonym compiled_action = "Command list \<times> bool \<times> string list"

definition cmd :: "string list \<Rightarrow> string \<Rightarrow> Command" where
  "cmd args expl = \<lparr> Args = args, Explanation = expl, Unsafe = False \<rparr>"

text \<open>
  The target of \<open>send_keys\<close>, \<open>wait_for_prompt\<close> and \<open>ssh_manager_connect\<close> (the source
  repeats these lines in each of the three cases).
\<close>

definition paneTarget :: "string \<Rightarrow> Action \<Rightarrow> string" where
  "paneTarget session a =
     (let target = (if TrimSpace (act_Window a) \<noteq> [] then session @ '':'' @ TrimSpace (act_Window a)
                    else session)
      in if TrimSpace (act_Pane a) \<noteq> [] then
           (if HasPrefix (TrimSpace (act_Pane a)) ''%'' then TrimSpace (act_Pane a)
            else target @ ''.'' @ TrimSpace (act_Pane a))
         else target)"

definition windowTarget :: "string \<Rightarrow> Action \<Rightarrow> string" where
  "windowTarget session a =
     (if TrimSpace (act_Window a) \<noteq> [] then session @ '':'' @ TrimSpace (act_Window a) else session)"

definition withCommand :: "world \<Rightarrow> Context \<Rightarrow> Action \<Rightarrow> string list \<Rightarrow> string list" where
  "withCommand w ctx a args =
     (if TrimSpace (act_Command a) \<noteq> [] then args @ [''--'', ''bash'', ''-lc'', subst w ctx (act_Command a)]
      else args)"

definition compileEnsureSession :: "string \<Rightarrow> string \<Rightarrow> error + compiled_action" where
  "compileEnsureSession session cwd =
     Inr ([cmd [''new-session'', ''-d'', ''-s'', session, ''-c'', cwd]
             ''create detached session if missing (may fail if exists)''],
          False,
          [''ensure_session is non-atomic in pure tmux command lists; consider pre-checking in code''])"

definition compileNewWindow ::
  "world \<Rightarrow> Context \<Rightarrow> Action \<Rightarrow> string \<Rightarrow> string \<Rightarrow> error + compiled_action" where
  "compileNewWindow w ctx a session cwd =
     (let name = TrimSpace (act_Name a) in
      if name = [] then Inl (Err ''new_window: missing Name'')
      else Inr ([cmd (withCommand w ctx a [''new-window'', ''-t'', session, ''-n'', name, ''-c'', cwd])
                   (''create window '' @ name)], False, []))"

definition compileSplitWindow ::
  "world \<Rightarrow> Context \<Rightarrow> Action \<Rightarrow> string \<Rightarrow> string \<Rightarrow> error + compiled_action" where
  "compileSplitWindow w ctx a session cwd =
     (let dir = ToLower (TrimSpace (act_Direction a)) in
      if dir \<noteq> ''h'' \<and> dir \<noteq> ''v'' then Inl (Err ''split_window: Direction must be h or v'')
      else
        (let flag = (if dir = ''h'' then ''-h'' else ''-v'');
             args = [''split-window'', flag, ''-t'', windowTarget session a, ''-c'', cwd]
         in if act_Percent a > 0 \<and> (act_Percent a < 1 \<or> act_Percent a > 99)
            then Inl (Err ''split_window: Percent must be 1-99'')
            else Inr ([cmd (withCommand w ctx a
                             (if act_Percent a > 0 then args @ [''-p'', itoa (act_Percent a)] else args))
                         (''split window ('' @ dir @ '')'')], False, [])))"

definition compileRenameWindow :: "Action \<Rightarrow> string \<Rightarrow> error + compiled_action" where
  "compileRenameWindow a session =
     (let newName = TrimSpace (act_Name a) in
      if newName = [] then Inl (Err ''rename_window: missing Name (new window name)'')
      else
        (let from = (if TrimSpace (act_From a) \<noteq> [] then TrimSpace (act_From a)
                     else if TrimSpace (act_Window a) \<noteq> [] then TrimSpace (act_Window a)
                     else ''0'');
             target = session @ '':'' @ from
         in Inr ([cmd [''rename-window'', ''-t'', target, newName]
                    (''rename window '' @ target @ '' -> '' @ newName)], False, [])))"

definition compileSelectWindow :: "Action \<Rightarrow> string \<Rightarrow> error + compiled_action" where
  "compileSelectWindow a session =
     (if TrimSpace (act_Window a) = [] then Inl (Err ''select_window: missing Window'')
      else
        (let target = session @ '':'' @ TrimSpace (act_Window a) in
         Inr ([cmd [''select-window'', ''-t'', target] (''select window '' @ target)], False, [])))"

definition compileSelectPane :: "Action \<Rightarrow> string \<Rightarrow> error + compiled_action" where
  "compileSelectPane a session =
     (if TrimSpace (act_Pane a) = [] then Inl (Err ''select_pane: missing Pane'')
      else
        (let t0 = TrimSpace (act_Pane a);
             target = (if \<not> HasPrefix t0 ''%'' \<and> \<not> Contains t0 CHR '':'' then session @ '':.'' @ t0 else t0)
         in Inr ([cmd [''select-pane'', ''-t'', target] (''select pane '' @ target)], False, [])))"

definition compileSelectLayout :: "Action \<Rightarrow> string \<Rightarrow> error + compiled_action" where
  "compileSelectLayout a session =
     (let layout = TrimSpace (act_Layout a) in
      if layout = [] then Inl (Err ''select_layout: missing Layout'')
      else Inr ([cmd [''select-layout'', ''-t'', windowTarget session a, layout]
                   (''select layout '' @ layout)], False, []))"

definition compileSendKeys :: "world \<Rightarrow> Context \<Rightarrow> Action \<Rightarrow> string \<Rightarrow> error + compiled_action" where
  "compileSendKeys w ctx a session =
     (let target = paneTarget session a in
      if act_Keys a = [] \<and> TrimSpace (act_Command a) = [] then Inl (Err ''send_keys: missing Keys or Command'')
      else
        (let keys = (if act_Keys a \<noteq> []
                     then filter (\<lambda>ks. ks \<noteq> []) (map (\<lambda>k. TrimSpace (subst w ctx k)) (act_Keys a))
                     else [subst w ctx (act_Command a)]);
             args = [''send-keys'', ''-t'', target] @ keys
         in Inr ([cmd (if act_Enter a then args @ [''C-m''] else args) (''send keys to '' @ target)],
                 False, [])))"

definition compileWaitForPrompt :: "Action \<Rightarrow> string \<Rightarrow> error + compiled_action" where
  "compileWaitForPrompt a session =
     (let target = paneTarget session a;
          timeoutMS = (if act_TimeoutMS a \<le> 0 then 15000 else act_TimeoutMS a);
          minQuietMS = (if act_MinQuietMS a \<le> 0 then 500 else act_MinQuietMS a);
          settleMS = (if act_SettleMS a \<le> 0 then 250 else act_SettleMS a);
          maxLines = (if act_MaxLines a \<le> 0 then 200 else act_MaxLines a)
      in Inr ([cmd [''__wait_for_prompt__'', target, itoa timeoutMS, itoa minQuietMS, itoa settleMS,
                    itoa maxLines, TrimSpace (act_PromptRe a)]
                 (''wait for prompt (best-effort) in '' @ target)], False, []))"

definition compileSshManagerConnect :: "Action \<Rightarrow> string \<Rightarrow> error + compiled_action" where
  "compileSshManagerConnect a session =
     (let target = paneTarget session a;
          host = TrimSpace (act_Host a)
      in if host = [] then Inl (Err ''ssh_manager_connect: missing Host'')
         else
           (let login0 = TrimSpace (ToLower (act_LoginMode a));
                login = (if login0 = [] then ''askpass'' else login0);
                port = (if act_Port a < 0 then 0 else act_Port a);
                cto = (if act_ConnectTimeoutMS a < 0 then 0 else act_ConnectTimeoutMS a)
            in Inr ([cmd [''__ssh_manager_connect__'', target, host, TrimSpace (act_User a), itoa port,
                          login, itoa cto]
                       (''ssh_manager_connect '' @ host @ '' in '' @ target)], False, [])))"

definition compileSetOption :: "world \<Rightarrow> Context \<Rightarrow> Action \<Rightarrow> string \<Rightarrow> error + compiled_action" where
  "compileSetOption w ctx a session =
     (if TrimSpace (act_Option a) = [] then Inl (Err ''set_option: missing Option'')
      else
        (let opt = TrimSpace (act_Option a);
             val = subst w ctx (act_Value a);
             args = (if act_Global a then [''set-option'', ''-g''] else [''set-option'', ''-t'', session])
         in Inr ([cmd (args @ [opt, val]) (''set option '' @ opt)], False, [])))"

definition compileDisplay :: "world \<Rightarrow> Context \<Rightarrow> Action \<Rightarrow> error + compiled_action" where
  "compileDisplay w ctx a =
     (let msg = subst w ctx (act_Message a) in
      if TrimSpace msg = [] then Inl (Err ''display_message: missing Message'')
      else
        (let d = (if act_DurationMS a \<le> 0 then 1500 else act_DurationMS a) in
         Inr ([cmd [''display-message'', ''-d'', itoa d, msg] ''display message''], False, [])))"

definition compileShell ::
  "world \<Rightarrow> Policy \<Rightarrow> Context \<Rightarrow> Action \<Rightarrow> string \<Rightarrow> string \<Rightarrow> error + compiled_action" where
  "compileShell w pol ctx a session cwd =
     (if \<not> AllowShell pol then Inl (Err ''shell action disabled by policy'')
      else
        (let sh = (if TrimSpace (act_Shell a) = [] then TrimSpace (act_Command a)
                   else TrimSpace (act_Shell a))
         in if sh = [] then Inl (Err ''shell: missing Shell/Command'')
            else
              (let name = (if TrimSpace (act_Name a) = [] then ''shell'' else TrimSpace (act_Name a)) in
               Inr ([\<lparr> Args = [''new-window'', ''-t'', session, ''-n'', name, ''-c'', cwd, ''--'', ''bash'',
                               ''-lc'', subst w ctx sh],
                       Explanation = ''unsafe shell window '' @ name, Unsafe = True \<rparr>], True, []))))"

text \<open>\<open>allow\<close>, replaced by the default allowlist when \<open>len allow = 0\<close>.\<close>

definition orDefaultAllowed :: "boolmap option \<Rightarrow> boolmap" where
  "orDefaultAllowed m = (case m of None \<Rightarrow> defaultAllowedTmuxCommands
     | Some l \<Rightarrow> if l = [] then defaultAllowedTmuxCommands else l)"

definition compileTmux :: "world \<Rightarrow> Policy \<Rightarrow> Context \<Rightarrow> Action \<Rightarrow> error + compiled_action" where
  "compileTmux w pol ctx a =
     (if \<not> AllowTmuxPassthrough pol then Inl (Err ''tmux passthrough disabled by policy'')
      else if act_TmuxArgs a = [] then Inl (Err ''tmux: missing TmuxArgs'')
      else
        (let args = map (subst w ctx) (act_TmuxArgs a) in
         case Fields (TrimPrefix (TrimSpace (hd args)) ''tmux '') of
           [] \<Rightarrow> Inl (Panic ''index out of range [0] with length 0'')
         | sub # _ \<Rightarrow>
             if sub = [] then Inl (Err ''tmux: empty subcommand'')
             else if nilGet (DisallowTmuxCommands pol) sub then Inl (Err ''tmux: subcommand is disallowed'')
             else if \<not> mapGet (orDefaultAllowed (AllowedTmuxCommands pol)) sub
             then Inl (Err ''tmux: subcommand not in allowlist'')
             else Inr ([\<lparr> Args = args, Explanation = ''unsafe tmux passthrough'', Unsafe = True \<rparr>],
                       True, [])))"

definition compileAction :: "world \<Rightarrow> Policy \<Rightarrow> Context \<Rightarrow> Action \<Rightarrow> error + compiled_action" where
  "compileAction w pol ctx a =
     (let session = (if TrimSpace (act_Session a) = [] then SessionName ctx else TrimSpace (act_Session a));
          cwd = (if TrimSpace (act_Cwd a) = [] then WorkingDir ctx
                 else expandUser w (subst w ctx (TrimSpace (act_Cwd a))))
      in if act_Kind a = ActionEnsureSession then compileEnsureSession session cwd
         else if act_Kind a = ActionNewWindow then compileNewWindow w ctx a session cwd
         else if act_Kind a = ActionSplitWindow then compileSplitWindow w ctx a session cwd
         else if act_Kind a = ActionRenameWindow then compileRenameWindow a session
         else if act_Kind a = ActionSelectWindow then compileSelectWindow a session
         else if act_Kind a = ActionSelectPane then compileSelectPane a session
         else if act_Kind a = ActionSelectLayout then compileSelectLayout a session
         else if act_Kind a = ActionSendKeys then compileSendKeys w ctx a session
         else if act_Kind a = ActionWaitForPrompt then compileWaitForPrompt a session
         else if act_Kind a = ActionSshManagerConnect then compileSshManagerConnect a session
         else if act_Kind a = ActionSetOption then compileSetOption w ctx a session
         else if act_Kind a = ActionDisplay then compileDisplay w ctx a
         else if act_Kind a = ActionShell then compileShell w pol ctx a session cwd
         else if act_Kind a = ActionTmux then compileTmux w pol ctx a
         else Inl (Err ''unknown action kind''))"

subsection \<open>Stage B: Compile\<close>

text \<open>The emission loop of \<open>Compile\<close>: \<open>out\<close> grows action by action; the first error ends it.\<close>

fun compileActions :: "world \<Rightarrow> Policy \<Rightarrow> Context \<Rightarrow> Action list \<Rightarrow> Compiled \<Rightarrow> error + Compiled" where
  "compileActions w pol ctx [] out = Inr out"
| "compileActions w pol ctx (a # as) out =
     (case compileAction w pol ctx a of
        Inl e \<Rightarrow> Inl (wrapped ''spec action[]'' e)
      | Inr (cmds, unsafeUsed, warns) \<Rightarrow>
          compileActions w pol ctx as
            \<lparr> Commands = Commands out @ cmds,
              UnsafeUsed = (UnsafeUsed out \<or> unsafeUsed),
              Warnings = Warnings out @ warns \<rparr>)"

text \<open>\<open>total\<close> of the size loop: each argument counts its bytes and one more.\<close>

definition cmdTotal :: "Command \<Rightarrow> int" where
  "cmdTotal c = sum_list (map (\<lambda>a. int (length a) + 1) (Args c))"

definition effMaxActions :: "Policy \<Rightarrow> int" where
  "effMaxActions p = (if MaxActions p \<le> 0 then 200 else MaxActions p)"

definition effMaxCommandLen :: "Policy \<Rightarrow> int" where
  "effMaxCommandLen p = (if MaxCommandLen p \<le> 0 then 4096 else MaxCommandLen p)"

text \<open>The context \<open>Compile\<close> works with, after it has filled in the defaults.\<close>

definition compileContext :: "world \<Rightarrow> Context \<Rightarrow> Context" where
  "compileContext w ctx0 =
     (let p1 = expandUser w (ProjectPath ctx0);
          p2 = (case Abs w p1 of Some a \<Rightarrow> a | None \<Rightarrow> p1);
          ctx1 = ctx0\<lparr>ProjectPath := p2\<rparr>;
          ctx2 = (if ProjectName ctx1 = [] then ctx1\<lparr>ProjectName := Base p2\<rparr> else ctx1)
      in if WorkingDir ctx2 = [] then ctx2\<lparr>WorkingDir := p2\<rparr> else ctx2)"

definition Compile :: "world \<Rightarrow> Policy \<Rightarrow> Context \<Rightarrow> Spec \<Rightarrow> error + Compiled" where
  "Compile w pol ctx0 spec =
     (if SessionName ctx0 = [] then Inl (Err ''context: missing SessionName'')
      else if ProjectPath ctx0 = [] then Inl (Err ''context: missing ProjectPath'')
      else if tpl_Actions spec = [] then Inl (Err ''spec: no actions'')
      else if int (length (tpl_Actions spec)) > effMaxActions pol then Inl (Err ''spec: too many actions'')
      else
        (case compileActions w pol (compileContext w ctx0) (tpl_Actions spec) Compiled0 of
           Inl e \<Rightarrow> Inl e
         | Inr out \<Rightarrow>
             if list_ex (\<lambda>c. cmdTotal c > effMaxCommandLen pol) (Commands out)
             then Inl (Err ''compiled command[] too long'')
             else Inr out))"

subsection \<open>Dry run\<close>

definition dryRunCommand :: "Command \<Rightarrow> string list" where
  "dryRunCommand c =
     (let prefix = (if Unsafe c then ''tmux (unsafe) '' else ''tmux '') in
      (if Explanation c \<noteq> [] then [prefix @ ''# '' @ Explanation c] else [])
      @ [prefix @ shellJoin (Args c)])"

definition DryRunLines :: "Compiled \<Rightarrow> string list" where
  "DryRunLines compiled =
     (if UnsafeUsed compiled then [''WARNING: unsafe actions present (shell and/or tmux passthrough)'']
      else [])
     @ map (\<lambda>w. ''WARN: '' @ w) (Warnings compiled)
     @ concat (map dryRunCommand (Commands compiled))"

definition RenderDryRun :: "Compiled \<Rightarrow> string" where
  "RenderDryRun compiled = Join (DryRunLines compiled) [CHR 0x0A]"

section \<open>Stage A: from the spec to the action list\<close>

record BuildOptions =
  opt_ProjectRoot :: string
  opt_ProjectName :: string
  opt_SessionName :: string
  opt_PreferWindows :: bool
  opt_IncludeEnsureSession :: bool
  opt_AllowShell :: bool
  opt_AllowTmuxPassthrough :: bool
  opt_AllowedTmuxCommands :: "boolmap option"
  opt_DisallowTmuxCommands :: "boolmap option"

definition cloneStringMap :: "strmap option \<Rightarrow> strmap option" where
  "cloneStringMap m = (if mapLen0 m then None else m)"

definition firstNonEmpty :: "string \<Rightarrow> string \<Rightarrow> string" where
  "firstNonEmpty a b = (if TrimSpace a \<noteq> [] then TrimSpace a else TrimSpace b)"

fun sanitizeFrom :: "bool \<Rightarrow> string \<Rightarrow> string" where
  "sanitizeFrom lastUnderscore [] = []"
| "sanitizeFrom lastUnderscore (r # s) =
     (if isLower r then r # sanitizeFrom False s
      else if isUpper r then toLowerChar r # sanitizeFrom False s
      else if isDigit r then r # sanitizeFrom False s
      else if r = CHR ''-'' \<or> r = CHR ''_'' then CHR ''_'' # sanitizeFrom True s
      else if \<not> lastUnderscore then CHR ''_'' # sanitizeFrom True s
      else sanitizeFrom True s)"

definition sanitizeSessionName :: "string \<Rightarrow> string" where
  "sanitizeSessionName name =
     (if TrimSpace name = [] then [] else Trim (sanitizeFrom False (TrimSpace name)) ''_'')"

definition targeted :: "string \<Rightarrow> string \<Rightarrow> Target \<Rightarrow> Action" where
  "targeted kind sess t =
     Action0\<lparr>act_Kind := kind, act_Session := sess, act_Window := TrimSpace (t_Window t),
             act_Pane := TrimSpace (t_Pane t)\<rparr>"

definition convertSingleAction ::
  "Context \<Rightarrow> string \<Rightarrow> spec_Action \<Rightarrow> spec_Policy \<Rightarrow> boolmap option \<Rightarrow> error + (Action list \<times> bool)" where
  "convertSingleAction ctx defaultSession a pol disallowed =
     (let sess = (if TrimSpace (t_Session (a_Target a)) = [] then defaultSession
                  else TrimSpace (t_Session (a_Target a)))
      in
      if a_Type a = ''send_keys'' then
        (case a_SendKeys a of
           None \<Rightarrow> Inl (Err ''missing send_keys{}'')
         | Some k \<Rightarrow>
             Inr ([(targeted ActionSendKeys sess (a_Target a))
                     \<lparr>act_Keys := sk_Keys k, act_Enter := sk_Enter k\<rparr>], False))
      else if a_Type a = ''run'' then
        (case a_Run a of
           None \<Rightarrow> Inl (Err ''missing run{}'')
         | Some r \<Rightarrow>
             Inr ([(targeted ActionSendKeys sess (a_Target a))
                     \<lparr>act_Command := shellJoin (run_Program r # run_Args r),
                      act_Enter := (case run_Enter r of None \<Rightarrow> True | Some b \<Rightarrow> b)\<rparr>], False))
      else if a_Type a = ''ssh_manager_connect'' then
        (case a_SshManagerConnect a of
           None \<Rightarrow> Inl (Err ''missing ssh_manager_connect{}'')
         | Some c \<Rightarrow>
             Inr ([(targeted ActionSshManagerConnect sess (a_Target a))
                     \<lparr>act_Host := TrimSpace (ssh_Host c), act_User := TrimSpace (ssh_User c),
                      act_Port := ssh_Port c, act_LoginMode := TrimSpace (ToLower (ssh_LoginMode c)),
                      act_ConnectTimeoutMS := ssh_ConnectTimeoutMS c\<rparr>], False))
      else if a_Type a = ''wait_for_prompt'' then
        (case a_WaitForPrompt a of
           None \<Rightarrow> Inl (Err ''missing wait_for_prompt{}'')
         | Some p \<Rightarrow>
             Inr ([(targeted ActionWaitForPrompt sess (a_Target a))
                     \<lparr>act_TimeoutMS := wfp_TimeoutMS p, act_MinQuietMS := wfp_MinQuietMS p,
                      act_SettleMS := wfp_SettleMS p, act_PromptRe := TrimSpace (wfp_PromptRegex p),
                      act_MaxLines := wfp_MaxLines p\<rparr>], False))
      else if a_Type a = ''watch'' then
        (case a_Watch a of
           None \<Rightarrow> Inl (Err ''missing watch{}'')
         | Some x \<Rightarrow>
             if TrimSpace (wa_Command x) = [] then Inl (Err ''watch.command empty'')
             else
               Inr ([(targeted ActionSendKeys sess (a_Target a))
                       \<lparr>act_Command := ''watch -n ''
                            @ itoa (if wa_IntervalSeconds x \<le> 0 then 2 else wa_IntervalSeconds x)
                            @ '' -t -- '' @ TrimSpace (wa_Command x),
                        act_Enter := True\<rparr>], False))
      else if a_Type a = ''shell'' then
        (case a_Shell a of
           None \<Rightarrow> Inl (Err ''missing shell{}'')
         | Some c \<Rightarrow>
             if \<not> pol_AllowShell pol then Inl (Err ''shell actions disabled by policy'')
             else if TrimSpace (sh_Cmd c) = [] then Inl (Err ''shell.cmd empty'')
             else Inr ([(targeted ActionShell sess (a_Target a))\<lparr>act_Shell := TrimSpace (sh_Cmd c)\<rparr>],
                       True))
      else if a_Type a = ''tmux'' then
        (case a_Tmux a of
           None \<Rightarrow> Inl (Err ''missing tmux{}'')
         | Some t \<Rightarrow>
             if \<not> pol_AllowTmuxPassthrough pol then Inl (Err ''tmux passthrough disabled by policy'')
             else if TrimSpace (tmux_Name t) = [] then Inl (Err ''tmux.name empty'')
             else if nilGet disallowed (TrimSpace (tmux_Name t))
             then Inl (Err ''tmux subcommand is disallowed'')
             else if pol_AllowedTmuxCommands pol \<noteq> None
                     \<and> \<not> nilGet (pol_AllowedTmuxCommands pol) (TrimSpace (tmux_Name t))
             then Inl (Err ''tmux subcommand not in allowlist'')
             else Inr ([(targeted ActionTmux sess (a_Target a))
                          \<lparr>act_TmuxArgs := TrimSpace (tmux_Name t) # tmux_Args t\<rparr>], True))
      else if a_Type a = ''sleep'' then
        (case a_Sleep a of
           None \<Rightarrow> Inl (Err ''missing sleep{}'')
         | Some z \<Rightarrow>
             if \<not> pol_AllowShell pol then Inl (Err ''sleep requires shell enabled (policy)'')
             else if sl_Milliseconds z < 0 then Inl (Err ''sleep.ms must be >= 0'')
             else Inr ([(targeted ActionShell sess (a_Target a))
                          \<lparr>act_Shell := ''sleep '' @ fmtMillis (sl_Milliseconds z)\<rparr>], True))
      else Inl (Err ''unknown action type''))"

fun convertActions ::
  "Context \<Rightarrow> string \<Rightarrow> spec_Action list \<Rightarrow> spec_Policy \<Rightarrow> boolmap option \<Rightarrow> error + (Action list \<times> bool)" where
  "convertActions ctx sessionName [] pol disallowed = Inr ([], False)"
| "convertActions ctx sessionName (a # as) pol disallowed =
     (case convertSingleAction ctx sessionName a pol disallowed of
        Inl e \<Rightarrow> Inl (Wrap ''actions[]'' e)
      | Inr (act, usedUnsafe) \<Rightarrow>
          (case convertActions ctx sessionName as pol disallowed of
             Inl e \<Rightarrow> Inl e
           | Inr (out, unsafeUsed) \<Rightarrow> Inr (act @ out, usedUnsafe \<or> unsafeUsed)))"

definition containsKind :: "Action list \<Rightarrow> string \<Rightarrow> bool" where
  "containsKind actions kind = list_ex (\<lambda>a. act_Kind a = kind) actions"

text \<open>The two loops that default the window and the session of converted actions.\<close>

definition defaultWindowActs :: "string \<Rightarrow> string \<Rightarrow> Action list \<Rightarrow> Action list" where
  "defaultWindowActs sessionName wname acts =
     map (\<lambda>a. let a1 = (if act_Window a = [] then a\<lparr>act_Window := wname\<rparr> else a)
              in if act_Session a1 = [] then a1\<lparr>act_Session := sessionName\<rparr> else a1) acts"

definition defaultPaneActs :: "string \<Rightarrow> string \<Rightarrow> Action list \<Rightarrow> Action list" where
  "defaultPaneActs sessionName wname acts =
     map (\<lambda>a. let a1 = (if TrimSpace (act_Session a) = [] then a\<lparr>act_Session := sessionName\<rparr> else a)
              in if TrimSpace (act_Window a1) = [] then a1\<lparr>act_Window := wname\<rparr> else a1) acts"

definition selectWindowAct :: "string \<Rightarrow> string \<Rightarrow> Action" where
  "selectWindowAct sessionName wname =
     Action0\<lparr>act_Kind := ActionSelectWindow, act_Session := sessionName, act_Window := wname\<rparr>"

definition cdAct :: "string \<Rightarrow> string \<Rightarrow> string \<Rightarrow> Action" where
  "cdAct sessionName wname paneRoot =
     Action0\<lparr>act_Kind := ActionSendKeys, act_Session := sessionName, act_Window := wname,
             act_Command := ''cd '' @ shellQuote paneRoot, act_Enter := True\<rparr>"

definition paneRootOf :: "world \<Rightarrow> Context \<Rightarrow> string \<Rightarrow> string \<Rightarrow> string" where
  "paneRootOf w ctx root winRoot =
     expandUser w (subst w ctx (if TrimSpace root = [] then winRoot else TrimSpace root))"

text \<open>The digits loop of the split size: \<open>pv\<close> is a Go \<open>int\<close> and wraps at 64 bits.\<close>

fun parsePercent :: "string \<Rightarrow> 64 word \<Rightarrow> 64 word" where
  "parsePercent [] pv = pv"
| "parsePercent (r # rs) pv =
     (if \<not> isDigit r then 0 else parsePercent rs (pv * 10 + of_nat ((of_char r :: nat) - 48)))"

definition splitPercent :: "string \<Rightarrow> int" where
  "splitPercent size0 =
     (let size = TrimSpace size0 in
      if size \<noteq> [] \<and> HasSuffix size ''%'' then
        (let pv = parsePercent (TrimSuffix size ''%'') 0 in
         if 0 < sint pv \<and> sint pv < 100 then sint pv else 0)
      else 0)"

text \<open>One step of the plan, given its index (only the first pane may send a \<open>cd\<close>).\<close>

definition convertPlanStep ::
  "world \<Rightarrow> Context \<Rightarrow> string \<Rightarrow> Window \<Rightarrow> string \<Rightarrow> spec_Policy \<Rightarrow> boolmap option \<Rightarrow> nat \<Rightarrow> PanePlanStep
     \<Rightarrow> error + (Action list \<times> bool)" where
  "convertPlanStep w ctx sessionName win winRoot pol disallowed i step =
     (case st_Pane step of
        Some p \<Rightarrow>
          (let paneRoot = paneRootOf w ctx (pp_Root p) winRoot;
               cd = (if i = 0 \<and> paneRoot \<noteq> [] \<and> paneRoot \<noteq> winRoot
                     then [cdAct sessionName (w_Name win) paneRoot] else []);
               focus = (if pp_Focus p then [selectWindowAct sessionName (w_Name win)] else [])
           in if pp_Actions p \<noteq> [] then
                (case convertActions ctx sessionName (pp_Actions p) pol disallowed of
                   Inl e \<Rightarrow> Inl (Wrap ''window pane_plan[].pane actions'' e)
                 | Inr (acts, usedUnsafe) \<Rightarrow>
                     Inr (cd @ defaultPaneActs sessionName (w_Name win) acts @ focus, usedUnsafe))
              else Inr (cd @ focus, False))
      | None \<Rightarrow>
          (case st_Split step of
             Some sp \<Rightarrow>
               (let dir = ToLower (TrimSpace (ps_Direction sp)) in
                if dir \<noteq> ''h'' \<and> dir \<noteq> ''v''
                then Inl (Err ''window pane_plan[].split.direction must be h or v'')
                else Inr ([Action0\<lparr>act_Kind := ActionSplitWindow, act_Session := sessionName,
                                   act_Window := w_Name win, act_Direction := dir, act_Cwd := winRoot,
                                   act_Percent := splitPercent (ps_Size sp)\<rparr>], False))
           | None \<Rightarrow> Inl (Err ''window pane_plan[]: invalid step (expected pane or split)'')))"

fun convertPlanFrom ::
  "world \<Rightarrow> Context \<Rightarrow> string \<Rightarrow> Window \<Rightarrow> string \<Rightarrow> spec_Policy \<Rightarrow> boolmap option \<Rightarrow> nat
     \<Rightarrow> PanePlanStep list \<Rightarrow> error + (Action list \<times> bool)" where
  "convertPlanFrom w ctx sessionName win winRoot pol disallowed i [] = Inr ([], False)"
| "convertPlanFrom w ctx sessionName win winRoot pol disallowed i (step # steps) =
     (case convertPlanStep w ctx sessionName win winRoot pol disallowed i step of
        Inl e \<Rightarrow> Inl e
      | Inr (acts, u) \<Rightarrow>
          (case convertPlanFrom w ctx sessionName win winRoot pol disallowed (Suc i) steps of
             Inl e \<Rightarrow> Inl e
           | Inr (out, unsafeUsed) \<Rightarrow> Inr (acts @ out, u \<or> unsafeUsed)))"

definition convertPanePlan ::
  "world \<Rightarrow> Context \<Rightarrow> string \<Rightarrow> Window \<Rightarrow> string \<Rightarrow> spec_Policy \<Rightarrow> boolmap option
     \<Rightarrow> error + (Action list \<times> bool)" where
  "convertPanePlan w ctx sessionName win winRoot pol disallowed =
     convertPlanFrom w ctx sessionName win winRoot pol disallowed 0 (w_PanePlan win)"

text \<open>The legacy \<open>panes[]\<close> loop of \<open>convertWindows\<close>: one pane, given its index.\<close>

definition convertPane ::
  "world \<Rightarrow> Context \<Rightarrow> string \<Rightarrow> Window \<Rightarrow> string \<Rightarrow> spec_Policy \<Rightarrow> boolmap option \<Rightarrow> nat \<Rightarrow> Pane
     \<Rightarrow> error + (Action list \<times> bool)" where
  "convertPane w ctx sessionName win winRoot pol disallowed i p =
     (let paneRoot = paneRootOf w ctx (p_Root p) winRoot;
          first = (if i = 0 then
                     (if paneRoot \<noteq> [] \<and> paneRoot \<noteq> winRoot
                      then [cdAct sessionName (w_Name win) paneRoot] else [])
                   else [Action0\<lparr>act_Kind := ActionSplitWindow, act_Session := sessionName,
                                 act_Window := w_Name win, act_Direction := ''h'', act_Cwd := paneRoot\<rparr>]);
          focus = (if p_Focus p then [selectWindowAct sessionName (w_Name win)] else [])
      in if p_Actions p \<noteq> [] then
           (case convertActions ctx sessionName (p_Actions p) pol disallowed of
              Inl e \<Rightarrow> Inl (Wrap ''window pane[] actions'' e)
            | Inr (acts, usedUnsafe) \<Rightarrow>
                Inr (first @ defaultPaneActs sessionName (w_Name win) acts @ focus, usedUnsafe))
         else Inr (first @ focus, False))"

fun convertPanesFrom ::
  "world \<Rightarrow> Context \<Rightarrow> string \<Rightarrow> Window \<Rightarrow> string \<Rightarrow> spec_Policy \<Rightarrow> boolmap option \<Rightarrow> nat
     \<Rightarrow> Pane list \<Rightarrow> error + (Action list \<times> bool)" where
  "convertPanesFrom w ctx sessionName win winRoot pol disallowed i [] = Inr ([], False)"
| "convertPanesFrom w ctx sessionName win winRoot pol disallowed i (p # ps) =
     (case convertPane w ctx sessionName win winRoot pol disallowed i p of
        Inl e \<Rightarrow> Inl e
      | Inr (acts, u) \<Rightarrow>
          (case convertPanesFrom w ctx sessionName win winRoot pol disallowed (Suc i) ps of
             Inl e \<Rightarrow> Inl e
           | Inr (out, unsafeUsed) \<Rightarrow> Inr (acts @ out, u \<or> unsafeUsed)))"

text \<open>The body of the window loop of \<open>convertWindows\<close>.\<close>

definition convertWindow ::
  "world \<Rightarrow> Context \<Rightarrow> string \<Rightarrow> string \<Rightarrow> spec_Policy \<Rightarrow> boolmap option \<Rightarrow> Window
     \<Rightarrow> error + (Action list \<times> bool)" where
  "convertWindow w ctx sessionName sessionRoot pol disallowed win =
     (if TrimSpace (w_Name win) = [] then Inl (Err ''windows[]: missing name'')
      else
        (let winRoot = expandUser w (subst w ctx
                         (if TrimSpace (w_Root win) = [] then sessionRoot else TrimSpace (w_Root win)));
             head = [Action0\<lparr>act_Kind := ActionNewWindow, act_Session := sessionName,
                             act_Name := w_Name win, act_Cwd := winRoot\<rparr>,
                     selectWindowAct sessionName (w_Name win)];
             fp = TrimSpace (ToLower (w_FocusPane win));
             tail = (if TrimSpace (w_Layout win) \<noteq> []
                     then [Action0\<lparr>act_Kind := ActionSelectLayout, act_Session := sessionName,
                                   act_Window := w_Name win, act_Layout := w_Layout win\<rparr>] else [])
                  @ (if w_Focus win then [selectWindowAct sessionName (w_Name win)] else [])
                  @ (if fp \<noteq> [] \<and> fp \<noteq> ''active''
                     then [Action0\<lparr>act_Kind := ActionSelectPane, act_Session := sessionName,
                                   act_Window := w_Name win, act_Pane := fp\<rparr>] else [])
         in case (if w_Actions win \<noteq> []
                  then (case convertActions ctx sessionName (w_Actions win) pol disallowed of
                          Inl e \<Rightarrow> Inl (Wrap ''window actions'' e)
                        | Inr (acts, u) \<Rightarrow> Inr (defaultWindowActs sessionName (w_Name win) acts, u))
                  else Inr ([], False)) of
              Inl e \<Rightarrow> Inl e
            | Inr (wacts, u1) \<Rightarrow>
                (case (if w_PanePlan win \<noteq> []
                       then convertPanePlan w ctx sessionName win winRoot pol disallowed
                       else convertPanesFrom w ctx sessionName win winRoot pol disallowed 0 (w_Panes win)) of
                   Inl e \<Rightarrow> Inl e
                 | Inr (pacts, u2) \<Rightarrow> Inr (head @ wacts @ pacts @ tail, u1 \<or> u2))))"

fun convertWindowsLoop ::
  "world \<Rightarrow> Context \<Rightarrow> string \<Rightarrow> string \<Rightarrow> spec_Policy \<Rightarrow> boolmap option \<Rightarrow> Window list
     \<Rightarrow> error + (Action list \<times> bool)" where
  "convertWindowsLoop w ctx sessionName sessionRoot pol disallowed [] = Inr ([], False)"
| "convertWindowsLoop w ctx sessionName sessionRoot pol disallowed (win # wins) =
     (case convertWindow w ctx sessionName sessionRoot pol disallowed win of
        Inl e \<Rightarrow> Inl e
      | Inr (acts, u) \<Rightarrow>
          (case convertWindowsLoop w ctx sessionName sessionRoot pol disallowed wins of
             Inl e \<Rightarrow> Inl e
           | Inr (out, unsafeUsed) \<Rightarrow> Inr (acts @ out, u \<or> unsafeUsed)))"

definition convertWindows ::
  "world \<Rightarrow> Context \<Rightarrow> string \<Rightarrow> string \<Rightarrow> Window list \<Rightarrow> spec_Policy \<Rightarrow> boolmap option
     \<Rightarrow> error + (Action list \<times> bool)" where
  "convertWindows w ctx sessionName sessionRoot windows pol disallowed =
     (if windows = [] then Inl (Err ''no windows in spec'')
      else
        (case convertWindowsLoop w ctx sessionName sessionRoot pol disallowed windows of
           Inl e \<Rightarrow> Inl e
         | Inr (out, unsafeUsed) \<Rightarrow>
             Inr (out, unsafeUsed \<or> containsKind out ActionTmux \<or> containsKind out ActionShell)))"

text \<open>The session name \<open>BuildFromSpec\<close> decides on, before and after it sanitizes it.\<close>

definition chosenSessionName :: "spec_Spec \<Rightarrow> BuildOptions \<Rightarrow> string \<Rightarrow> string" where
  "chosenSessionName s opt projectRoot =
     (if TrimSpace (opt_SessionName opt) \<noteq> [] then TrimSpace (opt_SessionName opt)
      else if TrimSpace (s_Name (sp_Session s)) \<noteq> [] then TrimSpace (s_Name (sp_Session s))
      else DeriveSessionName (TrimSpace (s_Prefix (sp_Session s))) projectRoot)"

definition setOptionAct :: "string \<Rightarrow> int \<Rightarrow> Action" where
  "setOptionAct option v =
     Action0\<lparr>act_Kind := ActionSetOption, act_Global := True, act_Option := option, act_Value := itoa v\<rparr>"

text \<open>
  \<open>BuildFromSpec\<close>, block by block: the project root and name, the session name, the
  session's working directory, the policy, the substitution context, the actions emitted
  before the conversion, the choice of the representation, and the conversion itself.
\<close>

definition buildProjectRoot :: "world \<Rightarrow> BuildOptions \<Rightarrow> string" where
  "buildProjectRoot w opt = expandUser w (TrimSpace (opt_ProjectRoot opt))"

definition buildProjectName :: "world \<Rightarrow> BuildOptions \<Rightarrow> string" where
  "buildProjectName w opt =
     (if TrimSpace (opt_ProjectName opt) = [] then Base (TrimRight (buildProjectRoot w opt) ''/'')
      else TrimSpace (opt_ProjectName opt))"

definition buildSessionName :: "world \<Rightarrow> spec_Spec \<Rightarrow> BuildOptions \<Rightarrow> string" where
  "buildSessionName w s opt = sanitizeSessionName (chosenSessionName s opt (buildProjectRoot w opt))"

definition buildRoot :: "world \<Rightarrow> spec_Spec \<Rightarrow> BuildOptions \<Rightarrow> string" where
  "buildRoot w s opt =
     (if TrimSpace (s_Root (sp_Session s)) = [] then buildProjectRoot w opt
      else expandUser w (TrimSpace (s_Root (sp_Session s))))"

definition buildAllowed :: "BuildOptions \<Rightarrow> boolmap option" where
  "buildAllowed opt =
     (if mapLen0 (opt_AllowedTmuxCommands opt) then AllowedTmuxCommands DefaultPolicy
      else opt_AllowedTmuxCommands opt)"

definition buildDisallowed :: "BuildOptions \<Rightarrow> boolmap option" where
  "buildDisallowed opt =
     (if opt_DisallowTmuxCommands opt = None then DisallowTmuxCommands DefaultPolicy
      else opt_DisallowTmuxCommands opt)"

definition buildPolicy :: "BuildOptions \<Rightarrow> spec_Policy" where
  "buildPolicy opt =
     spec_DefaultPolicy\<lparr>pol_AllowShell := opt_AllowShell opt,
       pol_AllowTmuxPassthrough := opt_AllowTmuxPassthrough opt,
       pol_AllowedTmuxCommands := buildAllowed opt\<rparr>"

definition buildContext :: "world \<Rightarrow> spec_Spec \<Rightarrow> BuildOptions \<Rightarrow> Context" where
  "buildContext w s opt =
     \<lparr> ProjectName = buildProjectName w opt, ProjectPath = buildProjectRoot w opt,
       SessionName = buildSessionName w s opt, WorkingDir = buildRoot w s opt,
       Env = cloneStringMap (sp_Env s), TmuxSocket = [] \<rparr>"

definition buildPrelude :: "world \<Rightarrow> spec_Spec \<Rightarrow> BuildOptions \<Rightarrow> Action list" where
  "buildPrelude w s opt =
     (if opt_IncludeEnsureSession opt
      then [Action0\<lparr>act_Kind := ActionEnsureSession, act_Session := buildSessionName w s opt,
                    act_Cwd := buildRoot w s opt\<rparr>]
      else [])
     @ (case s_BaseIndex (sp_Session s) of None \<Rightarrow> [] | Some v \<Rightarrow> [setOptionAct ''base-index'' v])
     @ (case s_PaneBaseIndex (sp_Session s) of None \<Rightarrow> [] | Some v \<Rightarrow> [setOptionAct ''pane-base-index'' v])"

definition useActions :: "spec_Spec \<Rightarrow> BuildOptions \<Rightarrow> bool" where
  "useActions s opt \<longleftrightarrow> sp_Actions s \<noteq> [] \<and> \<not> (opt_PreferWindows opt \<and> sp_Windows s \<noteq> [])"

definition focusWindowActs :: "world \<Rightarrow> spec_Spec \<Rightarrow> BuildOptions \<Rightarrow> Action list" where
  "focusWindowActs w s opt =
     (let fw = TrimSpace (ToLower (s_FocusWindow (sp_Session s))) in
      if fw \<noteq> [] \<and> fw \<noteq> ''active''
      then [Action0\<lparr>act_Kind := ActionSelectWindow, act_Session := buildSessionName w s opt,
                    act_Window := TrimSpace (s_FocusWindow (sp_Session s))\<rparr>]
      else [])"

definition buildBody :: "world \<Rightarrow> spec_Spec \<Rightarrow> BuildOptions \<Rightarrow> error + (Action list \<times> bool)" where
  "buildBody w s opt =
     (if useActions s opt
      then convertActions (buildContext w s opt) (buildSessionName w s opt) (sp_Actions s)
             (buildPolicy opt) (buildDisallowed opt)
      else (case convertWindows w (buildContext w s opt) (buildSessionName w s opt) (buildRoot w s opt)
                   (sp_Windows s) (buildPolicy opt) (buildDisallowed opt) of
              Inl e \<Rightarrow> Inl e
            | Inr (acts, u) \<Rightarrow> Inr (acts @ focusWindowActs w s opt, u)))"

definition BuildFromSpec :: "world \<Rightarrow> spec_Spec \<Rightarrow> BuildOptions \<Rightarrow> error + (Context \<times> Spec \<times> bool)" where
  "BuildFromSpec w s0 opt =
     (case Validate s0 of
        Inl e \<Rightarrow> Inl e
      | Inr s \<Rightarrow>
          if TrimSpace (opt_ProjectRoot opt) = [] then Inl (Err ''BuildOptions.ProjectRoot is required'')
          else if buildSessionName w s opt = [] then Inl (Err ''resolved session name is empty'')
          else
            (case ValidatePolicy s (buildPolicy opt) of
               Some e \<Rightarrow> Inl e
             | None \<Rightarrow>
                 (case buildBody w s opt of
                    Inl e \<Rightarrow> Inl e
                  | Inr (acts, unsafeRequired) \<Rightarrow>
                      Inr (buildContext w s opt,
                           \<lparr> tpl_Version = sp_Version s, tpl_ID = [],
                             tpl_Name = firstNonEmpty (sp_Name s) (buildProjectName w opt),
                             tpl_Actions = buildPrelude w s opt @ acts, tpl_Unsafe = unsafeRequired \<rparr>,
                           unsafeRequired))))"

definition FromSpec :: "world \<Rightarrow> Context \<Rightarrow> spec_Spec \<Rightarrow> bool \<Rightarrow> bool \<Rightarrow> bool \<Rightarrow> error + Spec" where
  "FromSpec w ctx s allowShell allowTmuxPassthrough includeEnsureSession =
     (let projectPath = TrimSpace (ProjectPath ctx) in
      if projectPath = [] then Inl (Err ''context: missing ProjectPath'')
      else
        (let projectName = (if TrimSpace (ProjectName ctx) = [] then Base (TrimRight projectPath ''/'')
                            else TrimSpace (ProjectName ctx));
             sessionName = (if TrimSpace (SessionName ctx) \<noteq> [] then TrimSpace (SessionName ctx)
                            else if TrimSpace (s_Name (sp_Session s)) \<noteq> [] then s_Name (sp_Session s)
                            else DeriveSessionName (TrimSpace (s_Prefix (sp_Session s))) projectPath);
             opt = \<lparr> opt_ProjectRoot = projectPath, opt_ProjectName = projectName,
                     opt_SessionName = sessionName, opt_PreferWindows = True,
                     opt_IncludeEnsureSession = includeEnsureSession,
                     opt_AllowShell = allowShell, opt_AllowTmuxPassthrough = allowTmuxPassthrough,
                     opt_AllowedTmuxCommands = None, opt_DisallowTmuxCommands = None \<rparr>
         in case BuildFromSpec w s opt of
              Inl e \<Rightarrow> Inl e
            | Inr (_, tpl, _) \<Rightarrow> Inr tpl))"

section \<open>The executor\<close>

text \<open>
  A \<open>Runner\<close> is an interface: its two methods are arbitrary functions on a state of the
  runner's own. The execution state adds what the executor can observe of the process:
  the monotonic clock in milliseconds (\<open>time.Now\<close> reads it, \<open>time.Sleep\<close> and the time a
  runner call takes advance it) and, for the properties about the calls a recording runner
  sees, the argument vector of every \<open>Run\<close> and \<open>RunOutput\<close> call in order. The regular
  expression library is a parameter: whether a pattern compiles, and whether it matches.
\<close>

record 'r Runner =
  Run :: "string list \<Rightarrow> 'r \<Rightarrow> error option \<times> 'r"
  RunOutput :: "string list \<Rightarrow> 'r \<Rightarrow> (string \<times> error option) \<times> 'r"
  elapsed :: "'r \<Rightarrow> nat"

record 'r Engine =
  eng_Policy :: Policy
  eng_Runner :: "'r Runner option"
  eng_Clock :: "unit \<Rightarrow> nat"

record 'r exec_state =
  calls :: "string list list"
  clock :: nat
  rstate :: 'r

record regexp_lib =
  reCompiles :: "string \<Rightarrow> bool"
  reMatchString :: "string \<Rightarrow> string \<Rightarrow> bool"

definition callRun :: "'r Runner \<Rightarrow> string list \<Rightarrow> 'r exec_state \<Rightarrow> error option \<times> 'r exec_state" where
  "callRun r args st =
     (case Run r args (rstate st) of
        (err, rs) \<Rightarrow> (err, \<lparr> calls = calls st @ [args], clock = clock st + elapsed r rs, rstate = rs \<rparr>))"

definition callRunOutput ::
  "'r Runner \<Rightarrow> string list \<Rightarrow> 'r exec_state \<Rightarrow> (string \<times> error option) \<times> 'r exec_state" where
  "callRunOutput r args st =
     (case RunOutput r args (rstate st) of
        (res, rs) \<Rightarrow> (res, \<lparr> calls = calls st @ [args], clock = clock st + elapsed r rs, rstate = rs \<rparr>))"

definition sleep :: "nat \<Rightarrow> 'r exec_state \<Rightarrow> 'r exec_state" where
  "sleep ms st = st\<lparr>clock := clock st + ms\<rparr>"

fun digitsVal :: "string \<Rightarrow> nat \<Rightarrow> nat" where
  "digitsVal [] acc = acc"
| "digitsVal (c # cs) acc = digitsVal cs (acc * 10 + ((of_char c :: nat) - 48))"

text \<open>\<open>strconv.Atoi\<close>: an optional sign and decimal digits, within 64 bits.\<close>

definition Atoi :: "string \<Rightarrow> int option" where
  "Atoi s =
     (let neg = (s \<noteq> [] \<and> hd s = CHR ''-'');
          ds = (if s \<noteq> [] \<and> (hd s = CHR ''-'' \<or> hd s = CHR ''+'') then tl s else s)
      in if ds = [] \<or> \<not> list_all isDigit ds then None
         else
           (let v = (if neg then - int (digitsVal ds 0) else int (digitsVal ds 0)) in
            if v < - (2 ^ 63) \<or> v > 2 ^ 63 - 1 then None else Some v))"

text \<open>The closure \<open>parseInt\<close> of \<open>execWaitForPrompt\<close>.\<close>

definition parseInt :: "string \<Rightarrow> int \<Rightarrow> int" where
  "parseInt s def =
     (if TrimSpace s = [] then def else (case Atoi (TrimSpace s) of None \<Rightarrow> def | Some n \<Rightarrow> n))"

text \<open>The closure \<open>capture\<close>: the call, and the normalization of its output.\<close>

definition captureArgs :: "string \<Rightarrow> int \<Rightarrow> string list" where
  "captureArgs target maxLines = [''capture-pane'', ''-p'', ''-t'', target, ''-S'', ''-'' @ itoa maxLines]"

definition normalizeCapture :: "string \<Rightarrow> string" where
  "normalizeCapture out = TrimRight (ReplaceAll (ReplaceCRLF out) (CHR 0x0D) [CHR 0x0A]) [CHR 0x0A]"

text \<open>The closure \<open>lastNonEmptyLine\<close>.\<close>

definition lastNonEmptyLine :: "string \<Rightarrow> string" where
  "lastNonEmptyLine s =
     (case filter (\<lambda>ln. ln \<noteq> []) (map TrimSpace (rev (Split s (CHR 0x0A)))) of
        [] \<Rightarrow> []
      | ln # _ \<Rightarrow> ln)"

text \<open>
  \<open>time.Duration ms * time.Millisecond\<close>: a count of nanoseconds in 64 bits, so the product
  wraps. The clock of the model counts milliseconds; a span of \<open>ns\<close> nanoseconds is over,
  on a clock reading whole milliseconds, after \<open>wholeMS ns\<close> of them, none when \<open>ns \<le> 0\<close>.
\<close>

definition durationNS :: "int \<Rightarrow> int" where
  "durationNS ms = sint (word_of_int (ms * 1000000) :: 64 word)"

definition wholeMS :: "int \<Rightarrow> nat" where
  "wholeMS ns = nat ((ns + 999999) div 1000000)"

text \<open>
  The polling loop of \<open>execWaitForPrompt\<close>. Every path that goes round again sleeps
  \<open>pollEvery\<close> = 100 ms, so the clock reaches the deadline.
\<close>

function waitLoop ::
  "regexp_lib \<Rightarrow> 'r Runner \<Rightarrow> string \<Rightarrow> string \<Rightarrow> int \<Rightarrow> nat \<Rightarrow> nat \<Rightarrow> nat \<Rightarrow> nat \<Rightarrow> string \<Rightarrow> nat
     \<Rightarrow> 'r exec_state \<Rightarrow> error option \<times> 'r exec_state" where
  "waitLoop re r target promptRe maxLines timeoutMS minQuietMS settleMS deadline lastSnap lastChange st =
     (if \<not> clock st < deadline
      then (Some (Err ''wait_for_prompt: timed out waiting for readiness''), st)
      else
        (case callRunOutput r (captureArgs target maxLines) st of
           ((out, Some e), st1) \<Rightarrow>
             waitLoop re r target promptRe maxLines timeoutMS minQuietMS settleMS deadline lastSnap
               lastChange (sleep 100 st1)
         | ((out, None), st1) \<Rightarrow>
             (let snap = normalizeCapture out;
                  lastSnap' = (if snap \<noteq> lastSnap then snap else lastSnap);
                  lastChange' = (if snap \<noteq> lastSnap then clock st1 else lastChange)
              in if clock st1 - lastChange' < minQuietMS
                 then waitLoop re r target promptRe maxLines timeoutMS minQuietMS settleMS deadline
                        lastSnap' lastChange' (sleep 100 st1)
                 else if lastNonEmptyLine snap = []
                 then waitLoop re r target promptRe maxLines timeoutMS minQuietMS settleMS deadline
                        lastSnap' lastChange' (sleep 100 st1)
                 else if reMatchString re promptRe (lastNonEmptyLine snap)
                 then (None, if settleMS > 0 then sleep settleMS st1 else st1)
                 else waitLoop re r target promptRe maxLines timeoutMS minQuietMS settleMS deadline
                        lastSnap' lastChange' (sleep 100 st1))))"
  by pat_completeness auto
termination
proof (relation "measure (\<lambda>(re, r, target, promptRe, maxLines, timeoutMS, minQuietMS, settleMS, deadline,
          lastSnap, lastChange, st). deadline - clock st)", goal_cases)
  case 1
  show ?case by simp
next
  case (2 re r target promptRe maxLines timeoutMS minQuietMS settleMS deadline lastSnap lastChange st x1 st1 out e y)
  then show ?case
    by (auto simp: callRunOutput_def sleep_def split: prod.splits)
next
  case (3 re r target promptRe maxLines timeoutMS minQuietMS settleMS deadline lastSnap lastChange st x1 st1 out e)
  then show ?case
    by (auto simp: callRunOutput_def sleep_def split: prod.splits)
next
  case (4 re r target promptRe maxLines timeoutMS minQuietMS settleMS deadline lastSnap lastChange st x1 st1 out e)
  then show ?case
    by (auto simp: callRunOutput_def sleep_def split: prod.splits)
next
  case (5 re r target promptRe maxLines timeoutMS minQuietMS settleMS deadline lastSnap lastChange st x1 st1 out e)
  then show ?case
    by (auto simp: callRunOutput_def sleep_def split: prod.splits)
qed

declare waitLoop.simps [simp del]

definition execWaitForPrompt ::
  "regexp_lib \<Rightarrow> 'r Engine \<Rightarrow> Command \<Rightarrow> 'r exec_state \<Rightarrow> error option \<times> 'r exec_state" where
  "execWaitForPrompt re e c st =
     (case eng_Runner e of
        None \<Rightarrow> (Some (Err ''wait_for_prompt: missing runner''), st)
      | Some r \<Rightarrow>
          if length (Args c) < 6 then (Some (Err ''wait_for_prompt: invalid sentinel args''), st)
          else if TrimSpace (Args c ! 1) = [] then (Some (Err ''wait_for_prompt: empty target''), st)
          else
            (let target = TrimSpace (Args c ! 1);
                 timeoutMS = parseInt (Args c ! 2) 15000;
                 minQuietMS = parseInt (Args c ! 3) 500;
                 settleMS = parseInt (Args c ! 4) 250;
                 maxLines = parseInt (Args c ! 5) 200;
                 promptRe0 = (if length (Args c) \<ge> 7 then TrimSpace (Args c ! 6) else []);
                 promptRe = (if promptRe0 = [] then ''(?m)(^.*[#>$] ?$)'' else promptRe0)
             in if \<not> reCompiles re promptRe then (Some (Err ''wait_for_prompt: invalid prompt_regex''), st)
                else
                  (let timeoutMS' = (if timeoutMS \<le> 0 then 15000 else timeoutMS);
                       minQuietMS' = (if minQuietMS < 0 then 0 else minQuietMS);
                       settleMS' = (if settleMS < 0 then 0 else settleMS);
                       maxLines' = (if maxLines \<le> 0 then 200 else maxLines)
                   in waitLoop re r target promptRe maxLines' (nat timeoutMS')
                        (wholeMS (durationNS minQuietMS')) (wholeMS (durationNS settleMS'))
                        (clock st + wholeMS (durationNS timeoutMS')) [] (clock st) st)))"

definition execSshManagerConnect :: "'r Engine \<Rightarrow> Command \<Rightarrow> 'r exec_state \<Rightarrow> error option \<times> 'r exec_state" where
  "execSshManagerConnect e c st =
     (case eng_Runner e of
        None \<Rightarrow> (Some (Err ''ssh_manager_connect: missing runner''), st)
      | Some r \<Rightarrow>
          if length (Args c) < 7 then (Some (Err ''ssh_manager_connect: invalid sentinel args''), st)
          else
            (let target = TrimSpace (Args c ! 1);
                 host = TrimSpace (Args c ! 2);
                 user = TrimSpace (Args c ! 3);
                 portStr = TrimSpace (Args c ! 4);
                 loginMode0 = TrimSpace (ToLower (Args c ! 5));
                 loginMode = (if loginMode0 = [] then ''askpass'' else loginMode0)
             in if target = [] then (Some (Err ''ssh_manager_connect: empty target''), st)
                else if host = [] then (Some (Err ''ssh_manager_connect: empty host''), st)
                else if loginMode \<noteq> ''askpass'' \<and> loginMode \<noteq> ''manual'' \<and> loginMode \<noteq> ''key''
                then (Some (Err ''ssh_manager_connect: unsupported login_mode''), st)
                else
                  (let port = (if portStr \<noteq> [] then (case Atoi portStr of Some n \<Rightarrow> n | None \<Rightarrow> 0) else 0)
                   in if loginMode = ''askpass'' then
                        callRun r [''send-keys'', ''-t'', target,
                                   shellJoin ([''tmux-ssh-manager'', ''__connect'', ''--host'', host]
                                              @ (if user \<noteq> [] then [''--user'', user] else [])),
                                   ''C-m''] st
                      else
                        callRun r [''send-keys'', ''-t'', target,
                                   shellJoin ([''ssh''] @ (if port > 0 then [''-p'', itoa port] else [])
                                              @ [if user \<noteq> [] then user @ ''@'' @ host else host]),
                                   ''C-m''] st)))"

text \<open>The command loop of \<open>Execute\<close>.\<close>

fun executeCommands ::
  "regexp_lib \<Rightarrow> 'r Engine \<Rightarrow> 'r Runner \<Rightarrow> Command list \<Rightarrow> 'r exec_state \<Rightarrow> error option \<times> 'r exec_state" where
  "executeCommands re e r [] st = (None, st)"
| "executeCommands re e r (c # cs) st =
     (if Args c \<noteq> [] \<and> hd (Args c) = ''__wait_for_prompt__'' then
        (case execWaitForPrompt re e c st of
           (Some err, st1) \<Rightarrow> (Some err, st1)
         | (None, st1) \<Rightarrow> executeCommands re e r cs st1)
      else if Args c \<noteq> [] \<and> hd (Args c) = ''__ssh_manager_connect__'' then
        (case execSshManagerConnect e c st of
           (Some err, st1) \<Rightarrow> (Some err, st1)
         | (None, st1) \<Rightarrow> executeCommands re e r cs st1)
      else
        (case callRun r (Args c) st of
           (Some err, st1) \<Rightarrow> (Some err, st1)
         | (None, st1) \<Rightarrow> executeCommands re e r cs st1))"

definition Execute ::
  "regexp_lib \<Rightarrow> 'r Engine \<Rightarrow> Compiled \<Rightarrow> bool \<Rightarrow> 'r exec_state
     \<Rightarrow> (string list \<times> error option) \<times> 'r exec_state" where
  "Execute re e compiled dryRun st =
     (let lines = DryRunLines compiled in
      if dryRun then ((lines, None), st)
      else (case eng_Runner e of
              None \<Rightarrow> ((lines, Some (Err ''engine: Runner is nil'')), st)
            | Some r \<Rightarrow>
                (case executeCommands re e r (Commands compiled) st of
                   (err, st1) \<Rightarrow> ((lines, err), st1))))"

section \<open>Observations used in the statements\<close>

text \<open>The sets a policy's two maps stand for.\<close>

definition allowedSet :: "Policy \<Rightarrow> string set" where
  "allowedSet p = (case AllowedTmuxCommands p of None \<Rightarrow> {} | Some m \<Rightarrow> trueKeys m)"

definition disallowedSet :: "Policy \<Rightarrow> string set" where
  "disallowedSet p = (case DisallowTmuxCommands p of None \<Rightarrow> {} | Some m \<Rightarrow> trueKeys m)"

subsection \<open>Substitution, in the words of the specification\<close>

text \<open>
  An identifier is \<open>[A-Za-z_][A-Za-z0-9_]*\<close>. The value of a key is the first non-empty
  one among the built-in, the context's \<open>Env\<close> and the process environment, else the
  default. \<open>substSpec\<close> is the contract of \<open>subst\<close>: a string is rewritten from the left;
  where \<open>${KEY}\<close> or \<open>${KEY:-default}\<close> starts (the default running to the first closing
  brace, within one line) the value of the key stands for it, and any other byte stays.
\<close>

definition isIdent :: "string \<Rightarrow> bool" where
  "isIdent k \<longleftrightarrow> k \<noteq> [] \<and> isIdentStart (hd k) \<and> list_all isIdentChar (tl k)"

definition builtin :: "Context \<Rightarrow> string \<Rightarrow> string" where
  "builtin ctx key =
     (if key = ''PROJECT_NAME'' then ProjectName ctx
      else if key = ''PROJECT_PATH'' then ProjectPath ctx
      else if key = ''SESSION_NAME'' then SessionName ctx
      else if key = ''TMUX_SOCK'' then TmuxSocket ctx
      else [])"

definition envValue :: "Context \<Rightarrow> string \<Rightarrow> string" where
  "envValue ctx key =
     (case Env ctx of
        None \<Rightarrow> []
      | Some m \<Rightarrow> (case map_of m key of None \<Rightarrow> [] | Some v \<Rightarrow> v))"

definition firstAvailable :: "string list \<Rightarrow> string \<Rightarrow> string" where
  "firstAvailable vs d = (case filter (\<lambda>v. v \<noteq> []) vs of [] \<Rightarrow> d | v # _ \<Rightarrow> v)"

definition specValue :: "world \<Rightarrow> Context \<Rightarrow> string \<Rightarrow> string \<Rightarrow> string" where
  "specValue w ctx key d = firstAvailable [builtin ctx key, envValue ctx key, Getenv w key] d"

definition startsVar :: "string \<Rightarrow> bool" where
  "startsVar s \<longleftrightarrow>
     (\<exists>k d rest. isIdent k \<and> list_all isDefaultChar d
        \<and> (s = ''${'' @ k @ ''}'' @ rest \<or> s = ''${'' @ k @ '':-'' @ d @ ''}'' @ rest))"

inductive substSpec :: "world \<Rightarrow> Context \<Rightarrow> string \<Rightarrow> string \<Rightarrow> bool" for w ctx where
  empty: "substSpec w ctx [] []"
| var: "isIdent k \<Longrightarrow> substSpec w ctx rest r
    \<Longrightarrow> substSpec w ctx (''${'' @ k @ ''}'' @ rest) (specValue w ctx k [] @ r)"
| var_default: "isIdent k \<Longrightarrow> list_all isDefaultChar d \<Longrightarrow> substSpec w ctx rest r
    \<Longrightarrow> substSpec w ctx (''${'' @ k @ '':-'' @ d @ ''}'' @ rest) (specValue w ctx k d @ r)"
| other: "\<not> startsVar (c # s) \<Longrightarrow> substSpec w ctx s r \<Longrightarrow> substSpec w ctx (c # s) (c # r)"

subsection \<open>Fixtures\<close>

definition ctxDemo :: Context where
  "ctxDemo = \<lparr> ProjectName = ''demo'', ProjectPath = ''/tmp/demo'', SessionName = ''demo'',
                WorkingDir = ''/tmp/demo'', Env = Some [(''K'', []), (''EDITOR'', ''vi'')], TmuxSocket = [] \<rparr>"

definition worldK :: world where
  "worldK = \<lparr> environ = [(''K'', ''v''), (''EDITOR'', ''nano''), (''HOME'', ''/home/u'')], getwd = Some ''/work'' \<rparr>"

definition worldEmpty :: world where
  "worldEmpty = \<lparr> environ = [(''K'', [])], getwd = None \<rparr>"

definition Target0 :: Target where
  "Target0 = \<lparr> t_Session = [], t_Window = [], t_Pane = [] \<rparr>"

definition spec_Action0 :: spec_Action where
  "spec_Action0 =
     \<lparr> a_Type = [], a_Target = Target0, a_Tmux = None, a_Run = None, a_SendKeys = None,
       a_Shell = None, a_Sleep = None, a_Watch = None, a_WaitForPrompt = None,
       a_SshManagerConnect = None, a_IgnoreError = False, a_Comment = [] \<rparr>"

definition Session0 :: Session where
  "Session0 = \<lparr> s_Name = [], s_Prefix = [], s_Root = [], s_Attach = None, s_SwitchClient = None,
                 s_BaseIndex = None, s_PaneBaseIndex = None, s_FocusWindow = [] \<rparr>"

definition Window0 :: Window where
  "Window0 = \<lparr> w_Name = [], w_Root = [], w_Layout = [], w_Focus = False, w_FocusPane = [],
                w_Panes = [], w_PanePlan = [], w_Actions = [] \<rparr>"

definition spec_Spec0 :: spec_Spec where
  "spec_Spec0 = \<lparr> sp_Version = 0, sp_Name = [], sp_Description = [], sp_Session = Session0,
                   sp_Env = None, sp_Windows = [], sp_Actions = [], sp_Meta = None \<rparr>"

text \<open>The pane-plan fixture of the specification, section 8.\<close>

definition runAction :: "string \<Rightarrow> string list \<Rightarrow> spec_Action" where
  "runAction prog args =
     spec_Action0\<lparr>a_Type := ''run'', a_Run := Some \<lparr>run_Program = prog, run_Args = args, run_Enter = None\<rparr>\<rparr>"

definition planPane :: "string \<Rightarrow> bool \<Rightarrow> spec_Action list \<Rightarrow> PanePlanStep" where
  "planPane name focus acts =
     \<lparr> st_Pane = Some \<lparr>pp_Name = name, pp_Root = [], pp_Focus = focus, pp_Actions = acts, pp_Command = []\<rparr>,
       st_Split = None \<rparr>"

definition planSplit :: "string \<Rightarrow> string \<Rightarrow> PanePlanStep" where
  "planSplit dir sz = \<lparr> st_Pane = None, st_Split = Some \<lparr>ps_Direction = dir, ps_Size = sz\<rparr> \<rparr>"

definition specPanePlan :: spec_Spec where
  "specPanePlan =
     spec_Spec0\<lparr>sp_Version := 1,
       sp_Windows := [Window0\<lparr>w_Name := ''editor'', w_Root := ''/tmp/demo'',
          w_PanePlan := [planPane ''nvim'' True [runAction ''nvim'' [''.'']],
                         planSplit ''h'' ''50%'',
                         planPane ''shell'' False [runAction ''bash'' [''-l'']]]\<rparr>]\<rparr>"

definition ctxPlan :: Context where
  "ctxPlan = \<lparr> ProjectName = [], ProjectPath = ''/tmp/demo'', SessionName = ''demo'',
                WorkingDir = [], Env = None, TmuxSocket = [] \<rparr>"

text \<open>The pipeline as its callers run it: \<open>FromSpec\<close>, then \<open>Compile\<close> with the same context.\<close>

definition compileSpec :: "world \<Rightarrow> Policy \<Rightarrow> Context \<Rightarrow> spec_Spec \<Rightarrow> bool \<Rightarrow> error + Compiled" where
  "compileSpec w pol ctx s includeEnsureSession =
     (case FromSpec w ctx s (AllowShell pol) (AllowTmuxPassthrough pol) includeEnsureSession of
        Inl e \<Rightarrow> Inl e
      | Inr tpl \<Rightarrow> Compile w pol ctx tpl)"

text \<open>The bytes of a command's arguments, and a one-command plan.\<close>

definition argBytes :: "Command \<Rightarrow> int" where
  "argBytes c = sum_list (map (\<lambda>a. int (length a)) (Args c))"

definition tplSelect :: Spec where
  "tplSelect = \<lparr> tpl_Version = 1, tpl_ID = [], tpl_Name = ''demo'',
                  tpl_Actions = [Action0\<lparr>act_Kind := ActionSelectWindow, act_Window := ''w''\<rparr>],
                  tpl_Unsafe = False \<rparr>"

definition cmdSelect :: Command where
  "cmdSelect = \<lparr> Args = [''select-window'', ''-t'', ''demo:w''], Explanation = ''select window demo:w'',
                  Unsafe = False \<rparr>"

subsection \<open>Policy validation\<close>

text \<open>
  The allowlist \<open>ValidatePolicy\<close> consults (the default one when the policy's is \<open>nil\<close>),
  where an action of a spec can sit (in the spec's own list, in a window's list, in the list
  of one of a window's \<open>panes\<close>; or in a pane of a window's \<open>pane_plan\<close>), and two
  fixtures: a raw \<open>run-shell\<close> passthrough action, and a pane with the shorthand
  \<open>npm test\<close> after normalization.
\<close>

definition specAllowed :: "spec_Policy \<Rightarrow> string \<Rightarrow> bool" where
  "specAllowed pol name =
     nilGet (if pol_AllowedTmuxCommands pol = None then pol_AllowedTmuxCommands spec_DefaultPolicy
             else pol_AllowedTmuxCommands pol) name"

definition tmuxAction :: "string \<Rightarrow> string list \<Rightarrow> spec_Action" where
  "tmuxAction name args =
     spec_Action0\<lparr>a_Type := ''tmux'', a_Tmux := Some \<lparr>tmux_Name = name, tmux_Args = args\<rparr>\<rparr>"

definition specRunShell :: spec_Spec where
  "specRunShell = spec_Spec0\<lparr>sp_Version := 1, sp_Actions := [tmuxAction ''run-shell'' [''touch /tmp/x'']]\<rparr>"

definition inLists :: "spec_Spec \<Rightarrow> spec_Action \<Rightarrow> bool" where
  "inLists s a \<longleftrightarrow>
     a \<in> set (sp_Actions s)
     \<or> (\<exists>w \<in> set (sp_Windows s). a \<in> set (w_Actions w) \<or> (\<exists>p \<in> set (w_Panes w). a \<in> set (p_Actions p)))"

definition inPanePlan :: "spec_Spec \<Rightarrow> spec_Action \<Rightarrow> bool" where
  "inPanePlan s a \<longleftrightarrow>
     (\<exists>w \<in> set (sp_Windows s). \<exists>step \<in> set (w_PanePlan w).
        \<exists>p. st_Pane step = Some p \<and> a \<in> set (pp_Actions p))"

definition specPaneShell :: spec_Spec where
  "specPaneShell =
     spec_Spec0\<lparr>sp_Version := 1,
       sp_Windows := [Window0\<lparr>w_Name := ''dev'',
          w_Panes := [\<lparr>p_Name = ''tests'', p_Root = [], p_Focus = False,
                       p_Actions = [shorthandAction ''npm test''], p_Command = ''npm test''\<rparr>]\<rparr>]\<rparr>"

subsection \<open>Session names\<close>

text \<open>Build options for the project \<open>/tmp/my.app\<close>, with nothing else set.\<close>

definition optDemo :: BuildOptions where
  "optDemo = \<lparr> opt_ProjectRoot = ''/tmp/my.app'', opt_ProjectName = [], opt_SessionName = [],
                opt_PreferWindows = True, opt_IncludeEnsureSession = False, opt_AllowShell = False,
                opt_AllowTmuxPassthrough = False, opt_AllowedTmuxCommands = None,
                opt_DisallowTmuxCommands = None \<rparr>"

text \<open>The session name of a successful build.\<close>

definition builtSessionName :: "error + (Context \<times> Spec \<times> bool) \<Rightarrow> string option" where
  "builtSessionName r = (case r of Inl e \<Rightarrow> None | Inr (ctx, tpl, u) \<Rightarrow> Some (SessionName ctx))"


subsection \<open>Executor observations\<close>

text \<open>
  A sentinel argument vector, one whose first argument begins with two underscores, and
  the calls a run adds to the record. A runner that does nothing, one whose pane always
  shows a prompt, and two regular-expression libraries (nothing matches, everything does).
\<close>

definition isSentinel :: "string list \<Rightarrow> bool" where
  "isSentinel args \<longleftrightarrow>
     args \<noteq> [] \<and> (hd args = ''__wait_for_prompt__'' \<or> hd args = ''__ssh_manager_connect__'')"

definition dunder :: "string list \<Rightarrow> bool" where
  "dunder args \<longleftrightarrow> args \<noteq> [] \<and> HasPrefix (hd args) ''__''"

definition newCalls :: "'r exec_state \<Rightarrow> 'r exec_state \<Rightarrow> string list list" where
  "newCalls st st' = drop (length (calls st)) (calls st')"

definition NoopRunner :: "unit Runner" where
  "NoopRunner = \<lparr> Run = (\<lambda>args rs. (None, rs)), RunOutput = (\<lambda>args rs. (([], None), rs)),
                   elapsed = (\<lambda>rs. 0) \<rparr>"

definition engNoop :: "Policy \<Rightarrow> unit Engine" where
  "engNoop pol = \<lparr> eng_Policy = pol, eng_Runner = Some NoopRunner, eng_Clock = (\<lambda>u. 0) \<rparr>"

definition reNever :: regexp_lib where
  "reNever = \<lparr> reCompiles = (\<lambda>p. True), reMatchString = (\<lambda>p s. False) \<rparr>"

definition st0 :: "unit exec_state" where
  "st0 = \<lparr> calls = [], clock = 0, rstate = () \<rparr>"

definition polDunder :: Policy where
  "polDunder = DefaultPolicy\<lparr>AllowTmuxPassthrough := True, AllowedTmuxCommands := Some [(''__x'', True)]\<rparr>"

definition tplDunder :: Spec where
  "tplDunder = \<lparr> tpl_Version = 1, tpl_ID = [], tpl_Name = ''demo'',
                  tpl_Actions = [Action0\<lparr>act_Kind := ActionTmux, act_TmuxArgs := [''__x'']\<rparr>],
                  tpl_Unsafe = True \<rparr>"

definition compiledDunder :: Compiled where
  "compiledDunder = \<lparr> Commands = [\<lparr>Args = [''__x''], Explanation = ''unsafe tmux passthrough'', Unsafe = True\<rparr>],
                       UnsafeUsed = True, Warnings = [] \<rparr>"

text \<open>Calls only accumulate, and every new one satisfies Q.\<close>

definition extends :: "(string list \<Rightarrow> bool) \<Rightarrow> 'r exec_state \<Rightarrow> 'r exec_state \<Rightarrow> bool" where
  "extends Q st st' \<longleftrightarrow> (\<exists>new. calls st' = calls st @ new \<and> list_all Q new)"

text \<open>
  A policy whose passthrough allowlist (the default one when it is empty) names no
  subcommand beginning with two underscores; a command that is a sentinel or does not
  begin with two underscores.
\<close>

definition noDunderAllowed :: "Policy \<Rightarrow> bool" where
  "noDunderAllowed pol \<longleftrightarrow>
     list_all (\<lambda>kv. \<not> HasPrefix (fst kv) ''__'') (orDefaultAllowed (AllowedTmuxCommands pol))"

definition plainCommand :: "Command \<Rightarrow> bool" where
  "plainCommand c \<longleftrightarrow> isSentinel (Args c) \<or> \<not> dunder (Args c)"

definition promptRunner :: "unit Runner" where
  "promptRunner = \<lparr> Run = (\<lambda>args rs. (None, rs)), RunOutput = (\<lambda>args rs. ((''banner'' @ [CHR 0x0A] @ ''$ '', None), rs)),
                     elapsed = (\<lambda>rs. 0) \<rparr>"

definition engPrompt :: "unit Engine" where
  "engPrompt = \<lparr> eng_Policy = DefaultPolicy, eng_Runner = Some promptRunner, eng_Clock = (\<lambda>u. 0) \<rparr>"

definition reAlways :: regexp_lib where
  "reAlways = \<lparr> reCompiles = (\<lambda>p. True), reMatchString = (\<lambda>p s. True) \<rparr>"

definition tplWait :: Spec where
  "tplWait = \<lparr> tpl_Version = 1, tpl_ID = [], tpl_Name = ''demo'',
                tpl_Actions = [Action0\<lparr>act_Kind := ActionSelectWindow, act_Window := ''w''\<rparr>,
                               Action0\<lparr>act_Kind := ActionWaitForPrompt, act_Window := ''w'', act_TimeoutMS := 1000\<rparr>,
                               Action0\<lparr>act_Kind := ActionSshManagerConnect, act_Window := ''w'',
                                       act_Host := ''db1'', act_LoginMode := ''key''\<rparr>],
                tpl_Unsafe = False \<rparr>"

definition compiledWait :: Compiled where
  "compiledWait =
     \<lparr> Commands =
         [cmd [''select-window'', ''-t'', ''demo:w''] ''select window demo:w'',
          cmd [''__wait_for_prompt__'', ''demo:w'', ''1000'', ''500'', ''250'', ''200'', []]
              ''wait for prompt (best-effort) in demo:w'',
          cmd [''__ssh_manager_connect__'', ''demo:w'', ''db1'', [], ''0'', ''key'', ''0'']
              ''ssh_manager_connect db1 in demo:w''],
       UnsafeUsed = False, Warnings = [] \<rparr>"

subsection \<open>The policy gate of Stage A\<close>

text \<open>
  A shell action, a spec with one action, a spec with a window and a spec-level passthrough
  action beside it, and a spec whose shell action sits in a pane of a \<open>pane_plan\<close>.
\<close>

definition shellAction :: "string \<Rightarrow> spec_Action" where
  "shellAction c = spec_Action0\<lparr>a_Type := ''shell'', a_Shell := Some \<lparr>sh_Cmd = c, sh_Shell = []\<rparr>\<rparr>"

definition specOne :: "spec_Action \<Rightarrow> spec_Spec" where
  "specOne a = spec_Spec0\<lparr>sp_Version := 1, sp_Actions := [a]\<rparr>"

definition specBoth :: spec_Spec where
  "specBoth = spec_Spec0\<lparr>sp_Version := 1,
      sp_Windows := [Window0\<lparr>w_Name := ''editor''\<rparr>],
      sp_Actions := [tmuxAction ''new-window'' [''-d'']]\<rparr>"

definition specPlanShell :: spec_Spec where
  "specPlanShell = spec_Spec0\<lparr>sp_Version := 1,
      sp_Windows := [Window0\<lparr>w_Name := ''editor'',
         w_PanePlan := [planPane ''sh'' False [shellAction ''make'']]\<rparr>],
      sp_Actions := [runAction ''ls'' []]\<rparr>"

text \<open>Whether a result is a value rather than an error.\<close>

definition succeeds :: "'e + 'a \<Rightarrow> bool" where
  "succeeds r \<longleftrightarrow> (case r of Inl e \<Rightarrow> False | Inr x \<Rightarrow> True)"

text \<open>
  The actions \<open>BuildFromSpec\<close> converts: the spec-level list when it uses the actions, else
  for each window its own list and the lists of its \<open>pane_plan\<close> panes or, without a plan,
  of its \<open>panes\<close>.
\<close>

definition stepActions :: "PanePlanStep \<Rightarrow> spec_Action list" where
  "stepActions step = (case st_Pane step of Some p \<Rightarrow> pp_Actions p | None \<Rightarrow> [])"

definition windowUsed :: "Window \<Rightarrow> spec_Action list" where
  "windowUsed win =
     w_Actions win
     @ (if w_PanePlan win \<noteq> [] then concat (map stepActions (w_PanePlan win))
        else concat (map p_Actions (w_Panes win)))"

definition usedActions :: "spec_Spec \<Rightarrow> BuildOptions \<Rightarrow> spec_Action list" where
  "usedActions s opt =
     (if useActions s opt then sp_Actions s else concat (map windowUsed (sp_Windows s)))"

text \<open>
  The policy on one action, under the options' effective allowlist and denylist: the gate of
  the conversion, and the weaker rule of \<open>ValidatePolicy\<close>.
\<close>

definition gated :: "BuildOptions \<Rightarrow> spec_Action \<Rightarrow> bool" where
  "gated opt a \<longleftrightarrow>
     (if a_Type a = ''shell'' then opt_AllowShell opt
      else if a_Type a = ''tmux'' then
        (case a_Tmux a of
           None \<Rightarrow> False
         | Some t \<Rightarrow> opt_AllowTmuxPassthrough opt
                     \<and> nilGet (buildAllowed opt) (TrimSpace (tmux_Name t))
                     \<and> \<not> nilGet (buildDisallowed opt) (TrimSpace (tmux_Name t)))
      else True)"

definition prechecked :: "BuildOptions \<Rightarrow> spec_Action \<Rightarrow> bool" where
  "prechecked opt a \<longleftrightarrow>
     (if a_Type a = ''shell'' then opt_AllowShell opt
      else if a_Type a = ''tmux'' then
        (case a_Tmux a of
           None \<Rightarrow> False
         | Some t \<Rightarrow> opt_AllowTmuxPassthrough opt
                     \<or> nilGet (buildAllowed opt) (TrimSpace (tmux_Name t)))
      else True)"

text \<open>Options that allow shell actions, passthrough, and passthrough under two narrower policies.\<close>

definition optShell :: BuildOptions where
  "optShell = optDemo\<lparr>opt_AllowShell := True\<rparr>"

definition optTmux :: BuildOptions where
  "optTmux = optDemo\<lparr>opt_AllowTmuxPassthrough := True\<rparr>"

definition optDenied :: BuildOptions where
  "optDenied = optDemo\<lparr>opt_AllowTmuxPassthrough := True,
                       opt_DisallowTmuxCommands := Some [(''new-window'', True)]\<rparr>"

definition optNarrow :: BuildOptions where
  "optNarrow = optDemo\<lparr>opt_AllowTmuxPassthrough := True,
                       opt_AllowedTmuxCommands := Some [(''send-keys'', True)]\<rparr>"

section \<open>Theorems\<close>

subsection \<open>Strings\<close>

lemma spaceRunes_nonempty: "[] \<notin> set spaceRunes" "[] \<notin> set (map rev spaceRunes)"
  by (simp_all add: spaceRunes_def)

lemma leadLen_0_iff:
  assumes "[] \<notin> set ps"
  shows "leadLen ps s = 0 \<longleftrightarrow> (\<forall>p \<in> set ps. take (length p) s \<noteq> p)"
proof -
  let ?f = "filter (\<lambda>p. take (length p) s = p) ps"
  show ?thesis
  proof (cases ?f)
    case Nil
    then have "\<forall>p \<in> set ps. take (length p) s \<noteq> p"
      by (simp add: filter_empty_conv)
    with Nil show ?thesis by (simp add: leadLen_def)
  next
    case (Cons p qs)
    then have "p \<in> set ?f" by simp
    then have m: "p \<in> set ps" "take (length p) s = p" by simp_all
    with assms have "p \<noteq> []" by auto
    with Cons m show ?thesis by (auto simp: leadLen_def)
  qed
qed

lemma leadLen_match:
  assumes "0 < leadLen ps s"
  shows "\<exists>p \<in> set ps. length p = leadLen ps s \<and> take (leadLen ps s) s = p"
proof -
  let ?f = "filter (\<lambda>p. take (length p) s = p) ps"
  from assms obtain p qs where c: "?f = p # qs"
    by (cases ?f) (auto simp: leadLen_def)
  then have "p \<in> set ?f" by simp
  then have m: "p \<in> set ps" "take (length p) s = p" by simp_all
  from c have "leadLen ps s = length p" by (simp add: leadLen_def)
  with m show ?thesis by auto
qed

lemma leadLen_Nil: "leadLen ps [] = 0"
proof (cases "0 < leadLen ps []")
  case True
  from leadLen_match[OF True] show ?thesis by auto
next
  case False
  then show ?thesis by simp
qed

lemma stripLeading_unfold:
  "stripLeading ps s = (if leadLen ps s = 0 then s else stripLeading ps (drop (leadLen ps s) s))"
  by (cases s) (simp_all add: leadLen_Nil drop_Cons')

lemma stripLeading_id: "leadLen ps s = 0 \<Longrightarrow> stripLeading ps s = s"
  by (subst stripLeading_unfold) simp

lemma stripLeading_fix: "leadLen ps (stripLeading ps s) = 0"
  by (induction ps s rule: stripLeading.induct) (simp_all add: leadLen_Nil)

lemma stripLeading_suffix: "\<exists>pre. s = pre @ stripLeading ps s"
proof (induction ps s rule: stripLeading.induct)
  case (1 ps)
  show ?case by simp
next
  case (2 ps c s)
  show ?case
  proof (cases "leadLen ps (c # s) = 0")
    case True
    then show ?thesis by simp
  next
    case False
    from 2[OF False] obtain pre where
      p: "drop (leadLen ps (c # s) - 1) s = pre @ stripLeading ps (drop (leadLen ps (c # s) - 1) s)"
      by blast
    have "c # s = (c # take (leadLen ps (c # s) - 1) s) @ drop (leadLen ps (c # s) - 1) s"
      by simp
    also have "\<dots> = ((c # take (leadLen ps (c # s) - 1) s) @ pre) @ stripLeading ps (c # s)"
      using p False by simp
    finally show ?thesis by blast
  qed
qed

lemma leadLen_prefix:
  assumes "[] \<notin> set ps" and "leadLen ps (r @ t) = 0"
  shows "leadLen ps r = 0"
proof -
  have "take (length p) r \<noteq> p" if "p \<in> set ps" for p
  proof
    assume e: "take (length p) r = p"
    then have "length (take (length p) r) = length p" by simp
    then have "length p \<le> length r" by simp
    then have "take (length p) (r @ t) = take (length p) r" by simp
    with e have "take (length p) (r @ t) = p" by simp
    with assms that show False by (simp add: leadLen_0_iff)
  qed
  with assms(1) show ?thesis by (simp add: leadLen_0_iff)
qed

lemma TrimSpace_idem: "TrimSpace (TrimSpace s) = TrimSpace s"
proof -
  let ?P = spaceRunes and ?Q = "map rev spaceRunes"
  let ?L = "stripLeading ?P s"
  let ?M = "stripLeading ?Q (rev ?L)"
  from stripLeading_suffix[of "rev ?L" ?Q] obtain pre where "rev ?L = pre @ ?M" by blast
  then have "rev (rev ?L) = rev (pre @ ?M)" by (rule arg_cong)
  then have l: "?L = rev ?M @ rev pre" by (simp only: rev_rev_ident rev_append)
  have "leadLen ?P ?L = 0" by (rule stripLeading_fix)
  then have "leadLen ?P (rev ?M @ rev pre) = 0" using l by simp
  then have "leadLen ?P (rev ?M) = 0" by (rule leadLen_prefix[OF spaceRunes_nonempty(1)])
  then have 1: "stripLeading ?P (rev ?M) = rev ?M" by (rule stripLeading_id)
  have 2: "stripLeading ?Q ?M = ?M" by (rule stripLeading_id) (rule stripLeading_fix)
  have "TrimSpace (rev ?M) = rev ?M"
    unfolding TrimSpace_def 1 rev_rev_ident 2 by (rule refl)
  then show ?thesis by (simp add: TrimSpace_def)
qed

lemma TrimSpace_Nil: "TrimSpace [] = []"
  by (simp add: TrimSpace_def)

lemma stripLeading_keep2:
  assumes "\<forall>p \<in> set ps. u \<notin> set p"
  shows "\<exists>zs. stripLeading ps (xs @ [u, u]) = zs @ [u, u]"
proof (induction "length xs" arbitrary: xs rule: less_induct)
  case less
  let ?s = "xs @ [u, u]"
  show ?case
  proof (cases "leadLen ps ?s = 0")
    case True
    then have "stripLeading ps ?s = ?s" by (rule stripLeading_id)
    then show ?thesis by blast
  next
    case False
    then have pos: "0 < leadLen ps ?s" by simp
    from leadLen_match[OF pos] obtain p where
      p: "p \<in> set ps" "length p = leadLen ps ?s" "take (leadLen ps ?s) ?s = p" by blast
    have le: "leadLen ps ?s \<le> length xs"
    proof (rule ccontr)
      assume "\<not> leadLen ps ?s \<le> length xs"
      then have "length xs < leadLen ps ?s" by simp
      then have "u \<in> set (take (leadLen ps ?s) ?s)"
        by (cases "leadLen ps ?s - length xs") (auto simp: take_Cons')
      with p assms show False by auto
    qed
    then have d: "drop (leadLen ps ?s) ?s = drop (leadLen ps ?s) xs @ [u, u]" by simp
    have "length (drop (leadLen ps ?s) xs) < length xs" using pos le by simp
    from less[OF this] obtain zs where
      "stripLeading ps (drop (leadLen ps ?s) xs @ [u, u]) = zs @ [u, u]" by blast
    moreover have "stripLeading ps ?s = stripLeading ps (drop (leadLen ps ?s) ?s)"
      using False by (subst stripLeading_unfold) simp
    ultimately show ?thesis using d by auto
  qed
qed

lemma leadLen_underscore: "leadLen spaceRunes (CHR ''_'' # s) = 0"
proof -
  have "take (length p) (CHR ''_'' # s) \<noteq> p" if "p \<in> set spaceRunes" for p
    using that by (auto simp: spaceRunes_def)
  then show ?thesis by (simp add: leadLen_0_iff[OF spaceRunes_nonempty(1)])
qed

lemma TrimSpace_dunder: "\<exists>r'. TrimSpace (CHR ''_'' # CHR ''_'' # r) = CHR ''_'' # CHR ''_'' # r'"
proof -
  have 1: "stripLeading spaceRunes (CHR ''_'' # CHR ''_'' # r) = CHR ''_'' # CHR ''_'' # r"
    by (rule stripLeading_id) (rule leadLen_underscore)
  have "\<forall>p \<in> set (map rev spaceRunes). CHR ''_'' \<notin> set p"
    by (simp add: spaceRunes_def)
  from stripLeading_keep2[OF this, of "rev r"] obtain zs where
    "stripLeading (map rev spaceRunes) (rev r @ [CHR ''_'', CHR ''_'']) = zs @ [CHR ''_'', CHR ''_'']"
    by blast
  then have "TrimSpace (CHR ''_'' # CHR ''_'' # r) = CHR ''_'' # CHR ''_'' # rev zs"
    unfolding TrimSpace_def 1 by simp
  then show ?thesis by blast
qed

lemma fieldsFrom_first:
  "cur \<noteq> [] \<Longrightarrow> \<exists>more rest. fieldsFrom k cur s = (rev cur @ more) # rest"
proof (induction s arbitrary: k cur)
  case Nil
  then show ?case by simp
next
  case (Cons c s)
  show ?case
  proof (cases "0 < k")
    case True
    with Cons.IH[OF Cons.prems, of "k - 1"] show ?thesis by simp
  next
    case k0: False
    show ?thesis
    proof (cases "0 < leadLen spaceRunes (c # s)")
      case True
      with k0 Cons.prems show ?thesis by simp
    next
      case False
      have "c # cur \<noteq> []" by simp
      from Cons.IH[OF this, of 0] obtain more rest where
        "fieldsFrom 0 (c # cur) s = (rev (c # cur) @ more) # rest" by blast
      with k0 False show ?thesis by (auto intro: exI[of _ "c # more"])
    qed
  qed
qed

lemma Fields_dunder:
  assumes "HasPrefix x ''__''"
  shows "\<exists>sub rest. Fields (TrimPrefix (TrimSpace x) ''tmux '') = sub # rest \<and> HasPrefix sub ''__''"
proof -
  from assms obtain r where x: "x = CHR ''_'' # CHR ''_'' # r"
    by (cases x; cases "tl x") (auto simp: HasPrefix_def)
  from TrimSpace_dunder[of r] obtain r' where t: "TrimSpace x = CHR ''_'' # CHR ''_'' # r'"
    unfolding x by blast
  have tp: "TrimPrefix (TrimSpace x) ''tmux '' = CHR ''_'' # CHR ''_'' # r'"
    unfolding t by (simp add: TrimPrefix_def HasPrefix_def)
  have "Fields (CHR ''_'' # CHR ''_'' # r') = fieldsFrom 0 [CHR ''_'', CHR ''_''] r'"
    by (simp add: Fields_def leadLen_underscore)
  moreover from fieldsFrom_first[of "[CHR ''_'', CHR ''_'']" 0 r'] obtain more rest where
    "fieldsFrom 0 [CHR ''_'', CHR ''_''] r' = (rev [CHR ''_'', CHR ''_''] @ more) # rest" by blast
  ultimately have "Fields (CHR ''_'' # CHR ''_'' # r') = (CHR ''_'' # CHR ''_'' # more) # rest"
    by simp
  then show ?thesis unfolding tp by (simp add: HasPrefix_def)
qed


subsection \<open>Maps\<close>

lemma mapGet_Cons: "mapGet ((c, b) # m) k = (if k = c then b else mapGet m k)"
  by (simp add: mapGet_def)

lemma mapGet_Nil: "mapGet [] k = False"
  by (simp add: mapGet_def)

lemma trueKeys_all_true: "trueKeys (map (\<lambda>c. (c, True)) cs) = set cs"
  by (induction cs) (auto simp: trueKeys_def mapGet_Cons mapGet_Nil)

subsection \<open>C2: the default policy of the engine\<close>

text \<open>
  C2, as stated: the allowlist of \<open>DefaultPolicy\<close> is the 29-element set of the specification
  and its denylist contains the 11 listed subcommands. The code's lists are shorter:
  \<open>set-hook\<close> (among others) is not allowed, so the statement is false.
\<close>

theorem DefaultPolicy_sets_counterexample:
  "\<not> (allowedSet DefaultPolicy =
        {''new-session'', ''kill-session'', ''rename-session'', ''switch-client'', ''select-session'',
         ''attach-session'', ''new-window'', ''kill-window'', ''rename-window'', ''select-window'',
         ''move-window'', ''swap-window'', ''split-window'', ''kill-pane'', ''select-pane'',
         ''swap-pane'', ''resize-pane'', ''break-pane'', ''join-pane'', ''select-layout'',
         ''send-keys'', ''set-buffer'', ''display-message'', ''set-option'', ''set-window-option'',
         ''list-windows'', ''list-panes'', ''list-sessions'', ''set-hook''}
      \<and> {''run-shell'', ''if-shell'', ''pipe-pane'', ''respawn-pane'', ''respawn-window'',
          ''source-file'', ''source'', ''display-popup'', ''load-buffer'', ''save-buffer'',
          ''capture-pane''} \<subseteq> disallowedSet DefaultPolicy)"
proof
  assume a: "allowedSet DefaultPolicy =
        {''new-session'', ''kill-session'', ''rename-session'', ''switch-client'', ''select-session'',
         ''attach-session'', ''new-window'', ''kill-window'', ''rename-window'', ''select-window'',
         ''move-window'', ''swap-window'', ''split-window'', ''kill-pane'', ''select-pane'',
         ''swap-pane'', ''resize-pane'', ''break-pane'', ''join-pane'', ''select-layout'',
         ''send-keys'', ''set-buffer'', ''display-message'', ''set-option'', ''set-window-option'',
         ''list-windows'', ''list-panes'', ''list-sessions'', ''set-hook''}
      \<and> {''run-shell'', ''if-shell'', ''pipe-pane'', ''respawn-pane'', ''respawn-window'',
          ''source-file'', ''source'', ''display-popup'', ''load-buffer'', ''save-buffer'',
          ''capture-pane''} \<subseteq> disallowedSet DefaultPolicy"
  have n: "''set-hook'' \<notin> allowedSet DefaultPolicy"
    by (simp add: allowedSet_def DefaultPolicy_def defaultAllowedTmuxCommands_def trueKeys_def mapGet_def)
  from a have "''set-hook'' \<in> allowedSet DefaultPolicy"
    by (simp only: conjunct1 insert_iff refl simp_thms)
  with n show False by simp
qed

text \<open>
  C2, amended: the allowlist of \<open>DefaultPolicy\<close> is exactly the 22 subcommands below, and
  its denylist is exactly \<open>run-shell\<close>, \<open>if-shell\<close>, \<open>pipe-pane\<close> and \<open>respawn-pane\<close>.
\<close>

theorem DefaultPolicy_sets:
  "allowedSet DefaultPolicy =
     {''new-session'', ''kill-session'', ''rename-session'', ''switch-client'', ''select-session'',
      ''new-window'', ''kill-window'', ''rename-window'', ''select-window'', ''move-window'',
      ''swap-window'', ''list-windows'', ''list-sessions'',
      ''split-window'', ''kill-pane'', ''select-pane'', ''resize-pane'', ''select-layout'',
      ''send-keys'', ''display-message'', ''set-option'', ''set-buffer''}
   \<and> disallowedSet DefaultPolicy = {''run-shell'', ''if-shell'', ''pipe-pane'', ''respawn-pane''}"
proof
  show "allowedSet DefaultPolicy =
     {''new-session'', ''kill-session'', ''rename-session'', ''switch-client'', ''select-session'',
      ''new-window'', ''kill-window'', ''rename-window'', ''select-window'', ''move-window'',
      ''swap-window'', ''list-windows'', ''list-sessions'',
      ''split-window'', ''kill-pane'', ''select-pane'', ''resize-pane'', ''select-layout'',
      ''send-keys'', ''display-message'', ''set-option'', ''set-buffer''}"
    unfolding allowedSet_def DefaultPolicy_def defaultAllowedTmuxCommands_def
    by (simp only: Policy.simps option.case trueKeys_all_true) auto
  have "trueKeys [(''run-shell'', True), (''if-shell'', True), (''pipe-pane'', True), (''respawn-pane'', True)]
        = trueKeys (map (\<lambda>c. (c, True)) [''run-shell'', ''if-shell'', ''pipe-pane'', ''respawn-pane''])"
    by simp
  then show "disallowedSet DefaultPolicy = {''run-shell'', ''if-shell'', ''pipe-pane'', ''respawn-pane''}"
    unfolding disallowedSet_def DefaultPolicy_def
    by (simp only: Policy.simps option.case trueKeys_all_true) auto
qed

subsection \<open>C4: the contract of substitution\<close>

lemma substLookup_specValue: "substLookup w ctx key d = specValue w ctx key d"
proof -
  have tail: "(case (case Env ctx of None \<Rightarrow> None | Some m \<Rightarrow> map_of m key) of
           Some v \<Rightarrow> if v \<noteq> [] then v else if Getenv w key \<noteq> [] then Getenv w key else d
         | None \<Rightarrow> if Getenv w key \<noteq> [] then Getenv w key else d)
        = firstAvailable [envValue ctx key, Getenv w key] d"
    by (simp add: firstAvailable_def envValue_def split: option.splits)
  have fa: "\<And>b vs. firstAvailable (b # vs) d = (if b \<noteq> [] then b else firstAvailable vs d)"
    by (simp add: firstAvailable_def)
  consider (pn) "key = ''PROJECT_NAME''" | (pp) "key = ''PROJECT_PATH''" | (sn) "key = ''SESSION_NAME''"
    | (ts) "key = ''TMUX_SOCK''"
    | (other) "key \<noteq> ''PROJECT_NAME''" "key \<noteq> ''PROJECT_PATH''" "key \<noteq> ''SESSION_NAME''"
        "key \<noteq> ''TMUX_SOCK''"
    by blast
  then show ?thesis
  proof cases
    case pn
    then show ?thesis
      unfolding substLookup_def specValue_def tail by (simp add: fa builtin_def)
  next
    case pp
    then show ?thesis
      unfolding substLookup_def specValue_def tail by (simp add: fa builtin_def)
  next
    case sn
    then show ?thesis
      unfolding substLookup_def specValue_def tail by (simp add: fa builtin_def)
  next
    case ts
    then show ?thesis
      unfolding substLookup_def specValue_def tail by (simp add: fa builtin_def)
  next
    case other
    then show ?thesis
      unfolding substLookup_def specValue_def tail by (simp add: fa builtin_def)
  qed
qed

lemma expandVars_Nil: "expandVars [] f = []"
  by (simp add: expandVars.simps)

lemma expandVars_match:
  "reVarMatch s = Some (k, d, rest) \<Longrightarrow> expandVars s f = f k d @ expandVars rest f"
  by (subst expandVars.simps) (auto simp: reVarMatch_def split: list.splits)

lemma expandVars_nomatch:
  "reVarMatch (c # cs) = None \<Longrightarrow> expandVars (c # cs) f = c # expandVars cs f"
  by (subst expandVars.simps) simp

lemma isIdentChar_not_brace: "isIdentChar c \<Longrightarrow> c \<noteq> CHR ''}'' \<and> c \<noteq> CHR '':''"
  by (auto simp: isIdentChar_def isUpper_def isLower_def isDigit_def)

lemma takeWhile_ident_app:
  "list_all isIdentChar t \<Longrightarrow> \<not> isIdentChar x \<Longrightarrow> takeWhile isIdentChar (t @ x # r) = t"
  by (induction t) auto

lemma dropWhile_ident_app:
  "list_all isIdentChar t \<Longrightarrow> \<not> isIdentChar x \<Longrightarrow> dropWhile isIdentChar (t @ x # r) = x # r"
  by (induction t) auto

lemma takeWhile_default_app:
  "list_all isDefaultChar d \<Longrightarrow> takeWhile isDefaultChar (d @ CHR ''}'' # r) = d"
  by (induction d) (auto simp: isDefaultChar_def)

lemma dropWhile_default_app:
  "list_all isDefaultChar d \<Longrightarrow> dropWhile isDefaultChar (d @ CHR ''}'' # r) = CHR ''}'' # r"
  by (induction d) (auto simp: isDefaultChar_def)

lemma reVarMatch_var:
  assumes "isIdent k"
  shows "reVarMatch (''${'' @ k @ ''}'' @ rest) = Some (k, [], rest)"
proof -
  from assms obtain k0 t where k: "k = k0 # t" and s: "isIdentStart k0" and t: "list_all isIdentChar t"
    by (cases k) (auto simp: isIdent_def)
  have nb: "\<not> isIdentChar CHR ''}''" using isIdentChar_not_brace by blast
  show ?thesis
    using s t nb
    by (simp add: k reVarMatch_def reVarTail_def takeWhile_ident_app dropWhile_ident_app)
qed

lemma reVarMatch_var_default:
  assumes "isIdent k" and "list_all isDefaultChar d"
  shows "reVarMatch (''${'' @ k @ '':-'' @ d @ ''}'' @ rest) = Some (k, d, rest)"
proof -
  from assms obtain k0 t where k: "k = k0 # t" and s: "isIdentStart k0" and t: "list_all isIdentChar t"
    by (cases k) (auto simp: isIdent_def)
  have nb: "\<not> isIdentChar CHR '':''" using isIdentChar_not_brace by blast
  show ?thesis
    using s t nb assms(2)
    by (simp add: k reVarMatch_def reVarTail_def reVarDefault_def takeWhile_ident_app
          dropWhile_ident_app takeWhile_default_app dropWhile_default_app)
qed

lemma reVarDefault_sound:
  assumes "reVarDefault key r = Some (k, d, rest)"
  shows "k = key \<and> list_all isDefaultChar d \<and> r = d @ ''}'' @ rest"
proof -
  from assms obtain z where dw: "dropWhile isDefaultChar r = z # rest" and z: "z = CHR ''}''"
    and d: "d = takeWhile isDefaultChar r" and k: "k = key"
    by (auto simp: reVarDefault_def split: list.splits if_splits)
  have "r = takeWhile isDefaultChar r @ dropWhile isDefaultChar r" by simp
  with dw z d have "r = d @ ''}'' @ rest" by simp
  moreover have "list_all isDefaultChar d"
    unfolding d by (simp add: list_all_iff) (meson set_takeWhileD)
  ultimately show ?thesis using k by simp
qed

lemma reVarTail_sound:
  assumes "reVarTail key r = Some (k, d, rest)"
  shows "k = key \<and> list_all isDefaultChar d \<and> (r = ''}'' @ rest \<and> d = [] \<or> r = '':-'' @ d @ ''}'' @ rest)"
  using assms
  by (auto simp: reVarTail_def split: list.splits if_splits dest!: reVarDefault_sound)

lemma reVarMatch_sound:
  assumes "reVarMatch s = Some (k, d, rest)"
  shows "isIdent k \<and> list_all isDefaultChar d
         \<and> (s = ''${'' @ k @ ''}'' @ rest \<and> d = [] \<or> s = ''${'' @ k @ '':-'' @ d @ ''}'' @ rest)"
proof -
  from assms obtain k0 r where s: "s = CHR ''$'' # CHR ''{'' # k0 # r" and st: "isIdentStart k0"
    and t: "reVarTail (k0 # takeWhile isIdentChar r) (dropWhile isIdentChar r) = Some (k, d, rest)"
    by (auto simp: reVarMatch_def split: list.splits if_splits)
  from reVarTail_sound[OF t] have k: "k = k0 # takeWhile isIdentChar r"
    and d: "list_all isDefaultChar d"
    and r: "dropWhile isIdentChar r = ''}'' @ rest \<and> d = [] \<or> dropWhile isIdentChar r = '':-'' @ d @ ''}'' @ rest"
    by auto
  have id: "isIdent k"
    unfolding k isIdent_def using st by (simp add: list_all_iff) (meson set_takeWhileD)
  have split: "r = takeWhile isIdentChar r @ dropWhile isIdentChar r" by simp
  from r show ?thesis
  proof
    assume a: "dropWhile isIdentChar r = ''}'' @ rest \<and> d = []"
    with split have "r = takeWhile isIdentChar r @ ''}'' @ rest" by simp
    then have "s = ''${'' @ k @ ''}'' @ rest" unfolding s k by simp
    with a id d show ?thesis by simp
  next
    assume a: "dropWhile isIdentChar r = '':-'' @ d @ ''}'' @ rest"
    with split have "r = takeWhile isIdentChar r @ '':-'' @ d @ ''}'' @ rest" by simp
    then have "s = ''${'' @ k @ '':-'' @ d @ ''}'' @ rest" unfolding s k by simp
    with id d show ?thesis by simp
  qed
qed

lemma reVarMatch_None_iff: "reVarMatch s = None \<longleftrightarrow> \<not> startsVar s"
proof
  assume n: "reVarMatch s = None"
  show "\<not> startsVar s"
  proof
    assume "startsVar s"
    then obtain k d rest where "isIdent k" "list_all isDefaultChar d"
      "s = ''${'' @ k @ ''}'' @ rest \<or> s = ''${'' @ k @ '':-'' @ d @ ''}'' @ rest"
      unfolding startsVar_def by blast
    then have "reVarMatch s \<noteq> None"
      using reVarMatch_var[of k rest] reVarMatch_var_default[of k d rest] by auto
    with n show False by simp
  qed
next
  assume n: "\<not> startsVar s"
  show "reVarMatch s = None"
  proof (cases "reVarMatch s")
    case None then show ?thesis .
  next
    case (Some m)
    obtain k d rest where m: "m = (k, d, rest)" by (cases m)
    from reVarMatch_sound[OF Some[unfolded m]] have "startsVar s"
      unfolding startsVar_def by blast
    with n show ?thesis by simp
  qed
qed

lemma substSpec_subst: "substSpec w ctx s (subst w ctx s)"
proof (induction s rule: length_induct)
  case (1 s)
  show ?case
  proof (cases s)
    case Nil
    then show ?thesis by (simp add: subst_def expandVars_Nil substSpec.empty)
  next
    case (Cons c cs)
    show ?thesis
    proof (cases "reVarMatch s")
      case None
      then have "\<not> startsVar (c # cs)" using reVarMatch_None_iff Cons by simp
      moreover have "substSpec w ctx cs (subst w ctx cs)" using 1 Cons by simp
      ultimately have "substSpec w ctx (c # cs) (c # subst w ctx cs)" by (rule substSpec.other)
      moreover have "subst w ctx s = c # subst w ctx cs"
        using None Cons by (simp add: subst_def expandVars_nomatch)
      ultimately show ?thesis using Cons by simp
    next
      case (Some m)
      obtain k d rest where m: "m = (k, d, rest)" by (cases m)
      note snd = reVarMatch_sound[OF Some[unfolded m]]
      have len: "length rest < length s" using Some m reVarMatch_shorter by blast
      then have ih: "substSpec w ctx rest (subst w ctx rest)" using 1 by simp
      have eq: "subst w ctx s = specValue w ctx k d @ subst w ctx rest"
        using Some m by (simp add: subst_def expandVars_match substLookup_specValue)
      from snd have "s = ''${'' @ k @ ''}'' @ rest \<and> d = [] \<or> s = ''${'' @ k @ '':-'' @ d @ ''}'' @ rest"
        by simp
      then show ?thesis
      proof
        assume a: "s = ''${'' @ k @ ''}'' @ rest \<and> d = []"
        have "substSpec w ctx (''${'' @ k @ ''}'' @ rest) (specValue w ctx k [] @ subst w ctx rest)"
          using snd ih by (intro substSpec.var) simp_all
        with a eq show ?thesis by simp
      next
        assume a: "s = ''${'' @ k @ '':-'' @ d @ ''}'' @ rest"
        have "substSpec w ctx (''${'' @ k @ '':-'' @ d @ ''}'' @ rest) (specValue w ctx k d @ subst w ctx rest)"
          using snd ih by (intro substSpec.var_default) simp_all
        with a eq show ?thesis by simp
      qed
    qed
  qed
qed

lemma subst_var:
  "isIdent k \<Longrightarrow> subst w ctx (''${'' @ k @ ''}'' @ rest) = specValue w ctx k [] @ subst w ctx rest"
  unfolding subst_def substLookup_specValue[symmetric]
  by (rule expandVars_match[OF reVarMatch_var])

lemma subst_var_default:
  "isIdent k \<Longrightarrow> list_all isDefaultChar d
   \<Longrightarrow> subst w ctx (''${'' @ k @ '':-'' @ d @ ''}'' @ rest) = specValue w ctx k d @ subst w ctx rest"
  unfolding subst_def substLookup_specValue[symmetric]
  by (rule expandVars_match[OF reVarMatch_var_default])

lemma subst_other:
  "\<not> startsVar (c # s) \<Longrightarrow> subst w ctx (c # s) = c # subst w ctx s"
  unfolding subst_def
  by (rule expandVars_nomatch) (simp add: reVarMatch_None_iff)

lemma substSpec_unique: "substSpec w ctx s r \<Longrightarrow> r = subst w ctx s"
proof (induction rule: substSpec.induct)
  case empty
  then show ?case by (simp add: subst_def expandVars_Nil)
next
  case (var k rest r)
  then show ?case by (simp only: subst_var)
next
  case (var_default k d rest r)
  then show ?case by (simp only: subst_var_default)
next
  case (other c s r)
  then show ?case by (simp add: subst_other)
qed

text \<open>
  C4: \<open>subst\<close> is the function the contract \<open>substSpec\<close> describes: every occurrence of
  \<open>${KEY}\<close> or \<open>${KEY:-default}\<close>, found from the left, is replaced by the first available
  value (built-in, then \<open>Env\<close>, then the process environment, then the default, the empty
  string when there is none), and every other byte is unchanged.
\<close>

theorem subst_contract: "substSpec w ctx s r \<longleftrightarrow> r = subst w ctx s"
  using substSpec_subst substSpec_unique by blast


lemmas subst_eval = subst_def expandVars.simps reVarMatch_def reVarTail_def reVarDefault_def
  substLookup_def isIdentStart_def isIdentChar_def isDefaultChar_def isUpper_def isLower_def isDigit_def
  Getenv_def

theorem subst_contract_witness:
  "substSpec worldK ctxDemo ''x/${PROJECT_NAME}/y-${K}-${EDITOR}-${K:-d}-${Z:-a b}-${Z}$''
     ''x/demo/y-v-vi-v-a b-$''"
  using subst_contract[of worldK ctxDemo
      "''x/${PROJECT_NAME}/y-${K}-${EDITOR}-${K:-d}-${Z:-a b}-${Z}$''" "''x/demo/y-v-vi-v-a b-$''"]
  by (simp add: subst_eval ctxDemo_def worldK_def)

subsection \<open>C10: an empty value counts as unset\<close>

text \<open>
  C10: for a key \<open>K\<close> whose \<open>Env\<close> entry is missing or present but empty, the entry has no
  effect on \<open>${K}\<close>; when no built-in is bound to \<open>K\<close> either, an empty process value makes
  \<open>${K}\<close> the empty string and \<open>${K:-d}\<close> the default \<open>d\<close>, and a non-empty process
  value is the result whether or not the empty \<open>Env\<close> entry is there.
\<close>

theorem empty_value_is_unset:
  assumes "isIdent K" and "envValue ctx K = []"
  shows "subst w ctx (''${'' @ K @ ''}'') = subst w (ctx\<lparr>Env := None\<rparr>) (''${'' @ K @ ''}'')
       \<and> (builtin ctx K = [] \<longrightarrow>
            (Getenv w K = [] \<longrightarrow>
               subst w ctx (''${'' @ K @ ''}'') = []
               \<and> (list_all isDefaultChar d \<longrightarrow> subst w ctx (''${'' @ K @ '':-'' @ d @ ''}'') = d))
          \<and> (Getenv w K \<noteq> [] \<longrightarrow>
               subst w ctx (''${'' @ K @ ''}'') = Getenv w K
               \<and> (list_all isDefaultChar d \<longrightarrow> subst w ctx (''${'' @ K @ '':-'' @ d @ ''}'') = Getenv w K)))"
proof -
  have e: "subst w ctx [] = []" for ctx
    by (simp add: subst_def expandVars_Nil)
  have v: "subst w c (''${'' @ K @ ''}'') = specValue w c K []" for c
    using subst_var[OF assms(1), of w c "[]"] by (simp add: e)
  have vd: "list_all isDefaultChar d \<Longrightarrow> subst w ctx (''${'' @ K @ '':-'' @ d @ ''}'') = specValue w ctx K d"
    using subst_var_default[OF assms(1), of d w ctx "[]"] by (simp add: e)
  have n: "envValue (ctx\<lparr>Env := None\<rparr>) K = []" "builtin (ctx\<lparr>Env := None\<rparr>) K = builtin ctx K"
    by (simp_all add: envValue_def builtin_def)
  have s1: "specValue w ctx K [] = specValue w (ctx\<lparr>Env := None\<rparr>) K []"
    using assms(2) n by (simp add: specValue_def)
  have s2: "builtin ctx K = [] \<Longrightarrow> specValue w ctx K x = (if Getenv w K = [] then x else Getenv w K)" for x
    using assms(2) by (simp add: specValue_def firstAvailable_def)
  have c1: "subst w ctx (''${'' @ K @ ''}'') = subst w (ctx\<lparr>Env := None\<rparr>) (''${'' @ K @ ''}'')"
    by (simp only: v s1)
  have c2: "builtin ctx K = [] \<Longrightarrow> subst w ctx (''${'' @ K @ ''}'') = (if Getenv w K = [] then [] else Getenv w K)"
    by (simp only: v s2)
  have c3: "builtin ctx K = [] \<Longrightarrow> list_all isDefaultChar d
      \<Longrightarrow> subst w ctx (''${'' @ K @ '':-'' @ d @ ''}'') = (if Getenv w K = [] then d else Getenv w K)"
    by (simp only: vd s2)
  show ?thesis
  proof (intro conjI impI)
    show "subst w ctx (''${'' @ K @ ''}'') = subst w (ctx\<lparr>Env := None\<rparr>) (''${'' @ K @ ''}'')"
      by (rule c1)
  qed (use c2 c3 in auto)
qed

theorem empty_value_is_unset_witness:
  "isIdent ''K'' \<and> envValue ctxDemo ''K'' = [] \<and> map_of (the (Env ctxDemo)) ''K'' = Some []
   \<and> Getenv worldK ''K'' = ''v'' \<and> subst worldK ctxDemo ''${K}'' = ''v''
   \<and> subst worldK ctxDemo ''${K:-d}'' = ''v''
   \<and> Getenv worldEmpty ''K'' = [] \<and> subst worldEmpty ctxDemo ''${K}'' = []
   \<and> subst worldEmpty ctxDemo ''${K:-d}'' = ''d''"
proof -
  have i: "isIdent ''K''"
    by (simp add: isIdent_def isIdentStart_def isUpper_def)
  have v: "envValue ctxDemo ''K'' = []" "map_of (the (Env ctxDemo)) ''K'' = Some []"
    by (simp_all add: envValue_def ctxDemo_def)
  have b: "builtin ctxDemo ''K'' = []"
    by (simp add: builtin_def)
  have d: "list_all isDefaultChar ''d''"
    by (simp add: isDefaultChar_def)
  have g: "Getenv worldK ''K'' = ''v''" "Getenv worldEmpty ''K'' = []"
    by (simp_all add: Getenv_def worldK_def worldEmpty_def)
  from empty_value_is_unset[OF i v(1), of worldK "''d''", THEN conjunct2] b d g
  have k: "subst worldK ctxDemo ''${K}'' = ''v''" "subst worldK ctxDemo ''${K:-d}'' = ''v''"
    by simp_all
  from empty_value_is_unset[OF i v(1), of worldEmpty "''d''", THEN conjunct2] b d g
  have e: "subst worldEmpty ctxDemo ''${K}'' = []" "subst worldEmpty ctxDemo ''${K:-d}'' = ''d''"
    by simp_all
  show ?thesis
    using i v g k e by simp
qed

subsection \<open>C6: the pane-plan fixture\<close>

text \<open>
  C6: with session \<open>demo\<close> and project path \<open>/tmp/demo\<close>, the pane-plan fixture compiles,
  in any process environment, to exactly the six argument vectors below, in this order.
\<close>

theorem pane_plan_fixture:
  "map_sum id (map Args \<circ> Commands) (compileSpec w DefaultPolicy ctxPlan specPanePlan False)
   = Inr [[''new-window'', ''-t'', ''demo'', ''-n'', ''editor'', ''-c'', ''/tmp/demo''],
      [''select-window'', ''-t'', ''demo:editor''],
      [''send-keys'', ''-t'', ''demo:editor'', ''nvim .'', ''C-m''],
      [''select-window'', ''-t'', ''demo:editor''],
      [''split-window'', ''-h'', ''-t'', ''demo:editor'', ''-c'', ''/tmp/demo'', ''-p'', ''50''],
      [''send-keys'', ''-t'', ''demo:editor'', ''bash -l'', ''C-m'']]"
  by code_simp


subsection \<open>C8: the size guard\<close>

lemma emit_select:
  "compileActions w pol (compileContext w ctxPlan) (tpl_Actions tplSelect) Compiled0
   = Inr \<lparr> Commands = [cmdSelect], UnsafeUsed = False, Warnings = [] \<rparr>"
  by code_simp

text \<open>
  C8, as stated: \<open>Compile\<close> fails exactly when the bytes of some command's arguments exceed
  \<open>MaxCommandLen\<close>. The command \<open>select-window -t demo:w\<close> has 21 bytes of arguments, the
  limit is 22, and \<open>Compile\<close> fails: the loop adds one for each argument.
\<close>

theorem Compile_size_guard_counterexample:
  "compileActions worldK (DefaultPolicy\<lparr>MaxCommandLen := 22\<rparr>) (compileContext worldK ctxPlan)
       (tpl_Actions tplSelect) Compiled0
     = Inr \<lparr> Commands = [cmdSelect], UnsafeUsed = False, Warnings = [] \<rparr>
   \<and> argBytes cmdSelect = 21
   \<and> Compile worldK (DefaultPolicy\<lparr>MaxCommandLen := 22\<rparr>) ctxPlan tplSelect
       = Inl (Err ''compiled command[] too long'')"
  by code_simp

text \<open>
  C8, amended: once emission has succeeded, \<open>Compile\<close> fails if and only if for some
  emitted command the sum over its arguments of (bytes + 1) exceeds \<open>MaxCommandLen\<close> (4096
  when the policy's value is not positive); otherwise it returns the emitted plan.
\<close>

theorem Compile_size_guard:
  assumes "SessionName ctx \<noteq> []" and "ProjectPath ctx \<noteq> []" and "tpl_Actions spec \<noteq> []"
    and "int (length (tpl_Actions spec)) \<le> (if MaxActions pol \<le> 0 then 200 else MaxActions pol)"
    and "compileActions w pol (compileContext w ctx) (tpl_Actions spec) Compiled0 = Inr out"
  shows "Compile w pol ctx spec =
           (if \<exists>c \<in> set (Commands out).
                 sum_list (map (\<lambda>a. int (length a) + 1) (Args c))
                   > (if MaxCommandLen pol \<le> 0 then 4096 else MaxCommandLen pol)
            then Inl (Err ''compiled command[] too long'')
            else Inr out)"
  using assms
  by (simp add: Compile_def effMaxActions_def effMaxCommandLen_def cmdTotal_def list_ex_iff)

theorem Compile_size_guard_witness:
  "Compile worldK DefaultPolicy ctxPlan tplSelect
     = Inr \<lparr> Commands = [cmdSelect], UnsafeUsed = False, Warnings = [] \<rparr>
   \<and> Compile worldK (DefaultPolicy\<lparr>MaxCommandLen := 23\<rparr>) ctxPlan tplSelect
     = Inl (Err ''compiled command[] too long'')
   \<and> Compile worldK (DefaultPolicy\<lparr>MaxCommandLen := 24\<rparr>) ctxPlan tplSelect
     = Inr \<lparr> Commands = [cmdSelect], UnsafeUsed = False, Warnings = [] \<rparr>"
proof -
  have pre: "SessionName ctxPlan \<noteq> []" "ProjectPath ctxPlan \<noteq> []" "tpl_Actions tplSelect \<noteq> []"
    by (simp_all add: ctxPlan_def tplSelect_def)
  have n: "int (length (tpl_Actions tplSelect)) \<le> (if MaxActions (DefaultPolicy\<lparr>MaxCommandLen := m\<rparr>) \<le> 0
             then 200 else MaxActions (DefaultPolicy\<lparr>MaxCommandLen := m\<rparr>))" for m
    by (simp add: tplSelect_def DefaultPolicy_def)
  have n0: "int (length (tpl_Actions tplSelect)) \<le> (if MaxActions DefaultPolicy \<le> 0
             then 200 else MaxActions DefaultPolicy)"
    by (simp add: tplSelect_def DefaultPolicy_def)
  have t: "sum_list (map (\<lambda>a. int (length a) + 1) (Args cmdSelect)) = 24"
    by (simp add: cmdSelect_def)
  show ?thesis
    using Compile_size_guard[OF pre n0 emit_select, of worldK]
      Compile_size_guard[OF pre n emit_select, of worldK 23]
      Compile_size_guard[OF pre n emit_select, of worldK 24] t
    by (simp add: DefaultPolicy_def)
qed

subsection \<open>C3: what ValidatePolicy rejects\<close>

lemma firstErr_None_iff: "firstErr f xs = None \<longleftrightarrow> (\<forall>x \<in> set xs. f x = None)"
  by (induction xs) (auto split: option.splits)

lemma opt_case_None_iff:
  "(case x of None \<Rightarrow> y | Some e \<Rightarrow> Some (g e)) = None \<longleftrightarrow> x = None \<and> y = None"
  by (cases x) auto

lemma policyCheckWindow_None_iff:
  "policyCheckWindow pol w = None \<longleftrightarrow>
     (\<forall>a \<in> set (w_Actions w). policyCheck pol a = None)
     \<and> (\<forall>p \<in> set (w_Panes w). \<forall>a \<in> set (p_Actions p). policyCheck pol a = None)"
  unfolding policyCheckWindow_def opt_case_None_iff firstErr_None_iff by blast

lemma ValidatePolicy_None_iff:
  "ValidatePolicy s pol = None \<longleftrightarrow>
     (\<forall>a \<in> set (sp_Actions s).
        policyCheck (if pol_AllowedTmuxCommands pol = None
                     then pol\<lparr>pol_AllowedTmuxCommands := pol_AllowedTmuxCommands spec_DefaultPolicy\<rparr>
                     else pol) a = None)
     \<and> (\<forall>w \<in> set (sp_Windows s).
          policyCheckWindow (if pol_AllowedTmuxCommands pol = None
                     then pol\<lparr>pol_AllowedTmuxCommands := pol_AllowedTmuxCommands spec_DefaultPolicy\<rparr>
                     else pol) w = None)"
proof -
  have h: "(case x of None \<Rightarrow> y | Some e \<Rightarrow> Some e) = None \<longleftrightarrow> x = None \<and> y = None"
    for x y :: "error option"
    by (cases x) auto
  show ?thesis
    by (simp add: ValidatePolicy_def Let_def h firstErr_None_iff)
qed

lemma policyCheck_None_iff:
  "policyCheck (if pol_AllowedTmuxCommands pol = None
                then pol\<lparr>pol_AllowedTmuxCommands := pol_AllowedTmuxCommands spec_DefaultPolicy\<rparr>
                else pol) a = None
   \<longleftrightarrow> (a_Type a = ''shell'' \<longrightarrow> pol_AllowShell pol)
     \<and> (a_Type a = ''tmux'' \<longrightarrow> (\<exists>t. a_Tmux a = Some t \<and> TrimSpace (tmux_Name t) \<noteq> []
           \<and> (pol_AllowTmuxPassthrough pol \<or> specAllowed pol (TrimSpace (tmux_Name t)))))"
  by (auto simp: policyCheck_def specAllowed_def split: if_splits option.splits)

text \<open>
  C3, as stated, ends with: \<open>ValidatePolicy\<close> also rejects a passthrough action whose
  subcommand is in the denylist. \<open>run-shell\<close> is in the engine's default denylist, and
  \<open>ValidatePolicy\<close> accepts a spec that runs it when passthrough is enabled: the policy it
  takes has no denylist.
\<close>

theorem ValidatePolicy_denylist_counterexample:
  "''run-shell'' \<in> disallowedSet DefaultPolicy
   \<and> ValidatePolicy specRunShell (spec_DefaultPolicy\<lparr>pol_AllowTmuxPassthrough := True\<rparr>) = None"
proof -
  have "''run-shell'' \<in> disallowedSet DefaultPolicy"
    by (simp add: disallowedSet_def DefaultPolicy_def trueKeys_def mapGet_def)
  moreover have "ValidatePolicy specRunShell (spec_DefaultPolicy\<lparr>pol_AllowTmuxPassthrough := True\<rparr>) = None"
    by code_simp
  ultimately show ?thesis by (rule conjI)
qed

text \<open>
  C3, amended: for every spec, \<open>ValidatePolicy\<close> rejects a shell action when \<open>AllowShell\<close>
  is off, and a passthrough action whose subcommand is not in the allowlist when passthrough
  is off, wherever the action sits in the spec's list, in a window's list or in the list of
  one of a window's \<open>panes\<close>. It checks no denylist: a spec is accepted as soon as every
  action in it, at any place, the panes of a \<open>pane_plan\<close> included, has \<open>AllowShell\<close> if it
  is a shell action and, if it is a passthrough action, a named subcommand that is in the
  allowlist or passthrough enabled. What \<open>ValidatePolicy\<close> does with a forbidden action that
  sits only in a \<open>pane_plan\<close> is not part of this statement.
\<close>

theorem ValidatePolicy_gate:
  "(inLists s a \<and> a_Type a = ''shell'' \<and> \<not> pol_AllowShell pol
      \<longrightarrow> ValidatePolicy s pol \<noteq> None)
   \<and> (inLists s a \<and> a_Type a = ''tmux'' \<and> \<not> pol_AllowTmuxPassthrough pol
        \<and> (\<forall>t. a_Tmux a = Some t \<longrightarrow> \<not> specAllowed pol (TrimSpace (tmux_Name t)))
      \<longrightarrow> ValidatePolicy s pol \<noteq> None)
   \<and> ((\<forall>b. inLists s b \<or> inPanePlan s b \<longrightarrow>
          (a_Type b = ''shell'' \<longrightarrow> pol_AllowShell pol)
          \<and> (a_Type b = ''tmux'' \<longrightarrow>
               (\<exists>t. a_Tmux b = Some t \<and> TrimSpace (tmux_Name t) \<noteq> []
                  \<and> (pol_AllowTmuxPassthrough pol \<or> specAllowed pol (TrimSpace (tmux_Name t))))))
      \<longrightarrow> ValidatePolicy s pol = None)"
proof -
  have iff: "ValidatePolicy s pol = None \<longleftrightarrow>
     (\<forall>b. inLists s b \<longrightarrow>
        (a_Type b = ''shell'' \<longrightarrow> pol_AllowShell pol)
        \<and> (a_Type b = ''tmux'' \<longrightarrow>
             (\<exists>t. a_Tmux b = Some t \<and> TrimSpace (tmux_Name t) \<noteq> []
                \<and> (pol_AllowTmuxPassthrough pol \<or> specAllowed pol (TrimSpace (tmux_Name t))))))"
    unfolding ValidatePolicy_None_iff policyCheckWindow_None_iff policyCheck_None_iff inLists_def
    by blast
  have 1: "ValidatePolicy s pol \<noteq> None"
    if "inLists s a" "a_Type a = ''shell''" "\<not> pol_AllowShell pol"
    using that iff by blast
  have 2: "ValidatePolicy s pol \<noteq> None"
    if "inLists s a" "a_Type a = ''tmux''" "\<not> pol_AllowTmuxPassthrough pol"
       "\<forall>t. a_Tmux a = Some t \<longrightarrow> \<not> specAllowed pol (TrimSpace (tmux_Name t))"
    using that iff by blast
  have 3: "ValidatePolicy s pol = None"
    if "\<forall>b. inLists s b \<or> inPanePlan s b \<longrightarrow>
          (a_Type b = ''shell'' \<longrightarrow> pol_AllowShell pol)
          \<and> (a_Type b = ''tmux'' \<longrightarrow>
               (\<exists>t. a_Tmux b = Some t \<and> TrimSpace (tmux_Name t) \<noteq> []
                  \<and> (pol_AllowTmuxPassthrough pol \<or> specAllowed pol (TrimSpace (tmux_Name t)))))"
    using that iff by blast
  from 1 2 3 show ?thesis by blast
qed

theorem ValidatePolicy_gate_witness:
  "inLists specPaneShell (shorthandAction ''npm test'')
   \<and> a_Type (shorthandAction ''npm test'') = ''shell''
   \<and> \<not> pol_AllowShell spec_DefaultPolicy
   \<and> ValidatePolicy specPaneShell spec_DefaultPolicy \<noteq> None
   \<and> inLists specRunShell (tmuxAction ''run-shell'' [''touch /tmp/x''])
   \<and> \<not> specAllowed spec_DefaultPolicy (TrimSpace ''run-shell'')
   \<and> ValidatePolicy specRunShell spec_DefaultPolicy \<noteq> None
   \<and> inPanePlan specPanePlan (runAction ''nvim'' [''.''])
   \<and> ValidatePolicy specPanePlan spec_DefaultPolicy = None"
proof -
  let ?sh = "shorthandAction ''npm test''" and ?tm = "tmuxAction ''run-shell'' [''touch /tmp/x'']"
  have w: "inLists specPaneShell ?sh"
    by (simp add: inLists_def specPaneShell_def spec_Spec0_def Window0_def)
  have t: "a_Type ?sh = ''shell''"
    by (simp add: shorthandAction_def)
  have p: "\<not> pol_AllowShell spec_DefaultPolicy" "\<not> pol_AllowTmuxPassthrough spec_DefaultPolicy"
    by (simp_all add: spec_DefaultPolicy_def)
  have 1: "ValidatePolicy specPaneShell spec_DefaultPolicy \<noteq> None"
    using ValidatePolicy_gate[of specPaneShell ?sh spec_DefaultPolicy] w t p by blast
  have w2: "inLists specRunShell ?tm"
    by (simp add: inLists_def specRunShell_def spec_Spec0_def)
  have t2: "a_Type ?tm = ''tmux''"
    "a_Tmux ?tm = Some \<lparr>tmux_Name = ''run-shell'', tmux_Args = [''touch /tmp/x'']\<rparr>"
    by (simp_all add: tmuxAction_def)
  have n2: "\<not> specAllowed spec_DefaultPolicy (TrimSpace ''run-shell'')"
    by code_simp
  have 2: "ValidatePolicy specRunShell spec_DefaultPolicy \<noteq> None"
    using ValidatePolicy_gate[of specRunShell ?tm spec_DefaultPolicy] w2 t2 p n2 by simp
  have w3: "inPanePlan specPanePlan (runAction ''nvim'' [''.''])"
    by (simp add: inPanePlan_def specPanePlan_def spec_Spec0_def Window0_def planPane_def)
  have a3: "a_Type b = ''run''" if "inLists specPanePlan b \<or> inPanePlan specPanePlan b" for b
    using that
    by (auto simp: inLists_def inPanePlan_def specPanePlan_def spec_Spec0_def Window0_def
          planPane_def planSplit_def runAction_def)
  have 3: "ValidatePolicy specPanePlan spec_DefaultPolicy = None"
    using ValidatePolicy_gate[of specPanePlan _ spec_DefaultPolicy] a3 by fastforce
  from w t p 1 w2 n2 2 w3 3 show ?thesis by blast
qed

subsection \<open>C5: the session name of Stage A\<close>

text \<open>
  C5: the compiled session name is \<open>BuildOptions.SessionName\<close> (the context's
  \<open>SessionName\<close>, through \<open>FromSpec\<close>) when that is not empty; the field is documented as
  the session name the executor intends to target, and the command-line entry point creates
  the session under that name before it applies the spec. \<open>BuildFromSpec\<close> passes the name
  it resolved through \<open>sanitizeSessionName\<close>: for the name \<open>my-app\<close> the compiled session
  name is \<open>my_app\<close>, and every command of the plan compiled for the context's session
  \<open>my-app\<close> targets \<open>my_app\<close>.
\<close>

theorem session_name_rewritten:
  "builtSessionName (BuildFromSpec worldK specPanePlan (optDemo\<lparr>opt_SessionName := ''my-app''\<rparr>))
     = Some ''my_app''
   \<and> map_sum id (map Args \<circ> Commands)
        (compileSpec worldK DefaultPolicy (ctxPlan\<lparr>SessionName := ''my-app''\<rparr>) specPanePlan False)
     = Inr [[''new-window'', ''-t'', ''my_app'', ''-n'', ''editor'', ''-c'', ''/tmp/demo''],
            [''select-window'', ''-t'', ''my_app:editor''],
            [''send-keys'', ''-t'', ''my_app:editor'', ''nvim .'', ''C-m''],
            [''select-window'', ''-t'', ''my_app:editor''],
            [''split-window'', ''-h'', ''-t'', ''my_app:editor'', ''-c'', ''/tmp/demo'', ''-p'', ''50''],
            [''send-keys'', ''-t'', ''my_app:editor'', ''bash -l'', ''C-m'']]"
  by code_simp

subsection \<open>C7: sentinels never reach the runner\<close>

text \<open>
  C7, as stated, ends with: for every compiled plan, a recording runner sees no call whose
  first argument begins with \<open>__\<close>. Under a policy that allows the passthrough
  subcommand \<open>__x\<close>, \<open>Compile\<close> emits the command \<open>__x\<close> and \<open>Execute\<close> forwards it: only
  the two sentinels are held back.
\<close>

theorem sentinel_opacity_counterexample:
  "Compile worldK polDunder ctxPlan tplDunder = Inr compiledDunder
   \<and> calls (snd (Execute reNever (engNoop polDunder) compiledDunder False st0)) = [[''__x'']]"
  by code_simp

lemma extends_refl: "extends Q st st"
  by (simp add: extends_def)

lemma extends_trans: "extends Q a b \<Longrightarrow> extends Q b c \<Longrightarrow> extends Q a c"
  by (auto simp: extends_def)

lemma extends_sleep: "extends Q st (sleep n st)"
  by (simp add: extends_def sleep_def)

lemma extends_callRun: "Q args \<Longrightarrow> callRun r args st = (e, st') \<Longrightarrow> extends Q st st'"
  by (auto simp: extends_def callRun_def split: prod.splits)

lemma extends_callRunOutput: "Q args \<Longrightarrow> callRunOutput r args st = (e, st') \<Longrightarrow> extends Q st st'"
  by (auto simp: extends_def callRunOutput_def split: prod.splits)

lemma callRunOutput_clock: "callRunOutput r args st = (res, st1) \<Longrightarrow> clock st \<le> clock st1"
  by (auto simp: callRunOutput_def split: prod.splits)

lemma waitLoop_unfold:
  assumes "clock st < deadline"
    and "callRunOutput r (captureArgs target maxLines) st = ((out, oe), st1)"
  shows "(\<exists>ls lc. waitLoop re r target promptRe maxLines timeoutMS minQuietMS settleMS deadline lastSnap
                      lastChange st
                  = waitLoop re r target promptRe maxLines timeoutMS minQuietMS settleMS deadline ls lc
                      (sleep 100 st1))
         \<or> waitLoop re r target promptRe maxLines timeoutMS minQuietMS settleMS deadline lastSnap
              lastChange st
            = (None, if settleMS > 0 then sleep settleMS st1 else st1)"
proof (cases oe)
  case (Some err)
  have "waitLoop re r target promptRe maxLines timeoutMS minQuietMS settleMS deadline lastSnap lastChange st
        = waitLoop re r target promptRe maxLines timeoutMS minQuietMS settleMS deadline lastSnap lastChange
            (sleep 100 st1)"
    using assms Some by (subst waitLoop.simps) simp
  then show ?thesis by blast
next
  case None
  let ?snap = "normalizeCapture out"
  let ?ls = "if ?snap \<noteq> lastSnap then ?snap else lastSnap"
  let ?lc = "if ?snap \<noteq> lastSnap then clock st1 else lastChange"
  have w: "waitLoop re r target promptRe maxLines timeoutMS minQuietMS settleMS deadline lastSnap
             lastChange st
           = (if clock st1 - ?lc < minQuietMS \<or> lastNonEmptyLine ?snap = []
                 \<or> \<not> reMatchString re promptRe (lastNonEmptyLine ?snap)
              then waitLoop re r target promptRe maxLines timeoutMS minQuietMS settleMS deadline
                    ?ls ?lc (sleep 100 st1)
              else (None, if settleMS > 0 then sleep settleMS st1 else st1))"
    using assms None by (subst waitLoop.simps) (simp add: Let_def)
  show ?thesis
  proof (cases "clock st1 - ?lc < minQuietMS \<or> lastNonEmptyLine ?snap = []
                 \<or> \<not> reMatchString re promptRe (lastNonEmptyLine ?snap)")
    case True
    with w have "waitLoop re r target promptRe maxLines timeoutMS minQuietMS settleMS deadline lastSnap
             lastChange st = waitLoop re r target promptRe maxLines timeoutMS minQuietMS settleMS deadline
                    ?ls ?lc (sleep 100 st1)"
      by (simp only: if_True)
    then show ?thesis by blast
  next
    case False
    with w have "waitLoop re r target promptRe maxLines timeoutMS minQuietMS settleMS deadline lastSnap
             lastChange st = (None, if settleMS > 0 then sleep settleMS st1 else st1)"
      by (simp only: if_False)
    then show ?thesis by blast
  qed
qed

lemma extends_waitLoop:
  assumes "\<And>t m. Q (captureArgs t m)"
  shows "waitLoop re r target promptRe maxLines timeoutMS minQuietMS settleMS deadline lastSnap lastChange st
           = (e, st') \<Longrightarrow> extends Q st st'"
proof (induction "deadline - clock st" arbitrary: st lastSnap lastChange e st' rule: less_induct)
  case less
  show ?case
  proof (cases "clock st < deadline")
    case False
    with less.prems show ?thesis
      by (subst (asm) waitLoop.simps) (simp add: extends_refl)
  next
    case True
    obtain out oe st1 where c: "callRunOutput r (captureArgs target maxLines) st = ((out, oe), st1)"
      by (metis prod.exhaust)
    have x1: "extends Q st st1"
      using assms c by (rule extends_callRunOutput)
    have x2: "extends Q st (sleep 100 st1)"
      using x1 extends_sleep by (rule extends_trans)
    have "clock st \<le> clock st1" using c by (rule callRunOutput_clock)
    with True have dec: "deadline - clock (sleep 100 st1) < deadline - clock st"
      by (simp add: sleep_def)
    from waitLoop_unfold[OF True c, of re promptRe timeoutMS minQuietMS settleMS lastSnap lastChange]
    show ?thesis
    proof
      assume "\<exists>ls lc. waitLoop re r target promptRe maxLines timeoutMS minQuietMS settleMS deadline lastSnap
                      lastChange st
                  = waitLoop re r target promptRe maxLines timeoutMS minQuietMS settleMS deadline ls lc
                      (sleep 100 st1)"
      then obtain ls lc where "waitLoop re r target promptRe maxLines timeoutMS minQuietMS settleMS deadline
           ls lc (sleep 100 st1) = (e, st')"
        using less.prems by auto
      then have "extends Q (sleep 100 st1) st'"
        by (rule less.hyps[OF dec])
      with x2 show ?thesis by (rule extends_trans)
    next
      assume "waitLoop re r target promptRe maxLines timeoutMS minQuietMS settleMS deadline lastSnap
              lastChange st
            = (None, if settleMS > 0 then sleep settleMS st1 else st1)"
      with less.prems have "st' = (if settleMS > 0 then sleep settleMS st1 else st1)" by simp
      then have "extends Q st1 st'"
        by (simp add: extends_sleep extends_refl)
      with x1 show ?thesis by (rule extends_trans)
    qed
  qed
qed

lemma extends_execWaitForPrompt:
  assumes "\<And>t m. Q (captureArgs t m)"
  shows "execWaitForPrompt re e c st = (err, st') \<Longrightarrow> extends Q st st'"
  unfolding execWaitForPrompt_def Let_def
  by (auto split: option.splits if_splits simp: extends_refl intro: extends_waitLoop[where Q=Q, OF assms])

lemma extends_execSshManagerConnect:
  assumes "\<And>xs. Q (''send-keys'' # xs)"
  shows "execSshManagerConnect e c st = (err, st') \<Longrightarrow> extends Q st st'"
  unfolding execSshManagerConnect_def Let_def
  by (auto split: option.splits if_splits simp: extends_refl intro: extends_callRun[where Q=Q, OF assms])

lemma extends_executeCommands:
  assumes "\<And>t m. Q (captureArgs t m)" and "\<And>xs. Q (''send-keys'' # xs)"
  shows "\<forall>c \<in> set cs. \<not> isSentinel (Args c) \<longrightarrow> Q (Args c)
         \<Longrightarrow> executeCommands re e r cs st = (err, st') \<Longrightarrow> extends Q st st'"
proof (induction cs arbitrary: st)
  case Nil
  then show ?case by (simp add: extends_refl)
next
  case (Cons c cs)
  from Cons.prems(1) have rest: "\<forall>c \<in> set cs. \<not> isSentinel (Args c) \<longrightarrow> Q (Args c)" by simp
  show ?case
  proof (cases "Args c \<noteq> [] \<and> hd (Args c) = ''__wait_for_prompt__''")
    case True
    obtain e1 st1 where x: "execWaitForPrompt re e c st = (e1, st1)" by (metis prod.exhaust)
    have a: "extends Q st st1" using x by (rule extends_execWaitForPrompt[where Q=Q, OF assms(1)])
    show ?thesis
    proof (cases e1)
      case None
      with Cons.prems(2) True x have "executeCommands re e r cs st1 = (err, st')" by simp
      then have "extends Q st1 st'" by (rule Cons.IH[OF rest])
      with a show ?thesis by (rule extends_trans)
    next
      case (Some z)
      with Cons.prems(2) True x have "st' = st1" by simp
      with a show ?thesis by simp
    qed
  next
    case nw: False
    show ?thesis
    proof (cases "Args c \<noteq> [] \<and> hd (Args c) = ''__ssh_manager_connect__''")
      case True
      obtain e1 st1 where x: "execSshManagerConnect e c st = (e1, st1)" by (metis prod.exhaust)
      have a: "extends Q st st1" using x by (rule extends_execSshManagerConnect[where Q=Q, OF assms(2)])
      show ?thesis
      proof (cases e1)
        case None
        with Cons.prems(2) nw True x have "executeCommands re e r cs st1 = (err, st')" by simp
        then have "extends Q st1 st'" by (rule Cons.IH[OF rest])
        with a show ?thesis by (rule extends_trans)
      next
        case (Some z)
        with Cons.prems(2) nw True x have "st' = st1" by simp
        with a show ?thesis by simp
      qed
    next
      case ns: False
      from nw ns have "\<not> isSentinel (Args c)" by (auto simp: isSentinel_def)
      with Cons.prems(1) have q: "Q (Args c)" by simp
      obtain e1 st1 where x: "callRun r (Args c) st = (e1, st1)" by (metis prod.exhaust)
      have a: "extends Q st st1" using q x by (rule extends_callRun)
      show ?thesis
      proof (cases e1)
        case None
        with Cons.prems(2) nw ns x have "executeCommands re e r cs st1 = (err, st')" by simp
        then have "extends Q st1 st'" by (rule Cons.IH[OF rest])
        with a show ?thesis by (rule extends_trans)
      next
        case (Some z)
        with Cons.prems(2) nw ns x have "st' = st1" by simp
        with a show ?thesis by simp
      qed
    qed
  qed
qed

lemma extends_Execute:
  assumes "\<And>t m. Q (captureArgs t m)" and "\<And>xs. Q (''send-keys'' # xs)"
    and "\<forall>c \<in> set (Commands compiled). \<not> isSentinel (Args c) \<longrightarrow> Q (Args c)"
    and "Execute re e compiled dryRun st = (res, st')"
  shows "extends Q st st'"
proof (cases "dryRun \<or> eng_Runner e = None")
  case True
  with assms(4) have "st' = st" by (auto simp: Execute_def Let_def split: if_splits)
  then show ?thesis by (simp add: extends_refl)
next
  case False
  then obtain r where r: "eng_Runner e = Some r" by auto
  obtain err st1 where x: "executeCommands re e r (Commands compiled) st = (err, st1)"
    by (metis prod.exhaust)
  with assms(4) False r have "st' = st1" by (simp add: Execute_def Let_def)
  with extends_executeCommands[where Q=Q, OF assms(1,2,3) x] show ?thesis by simp
qed

lemma extends_newCalls: "extends Q st st' \<Longrightarrow> calls st' = calls st @ newCalls st st' \<and> list_all Q (newCalls st st')"
  by (auto simp: extends_def newCalls_def)


lemma mapGet_key: "mapGet m k \<Longrightarrow> k \<in> fst ` set m"
  by (auto simp: mapGet_def split: option.splits dest!: map_of_SomeD intro: rev_image_eqI)

lemma compileTmux_plain:
  assumes "noDunderAllowed pol" and "compileTmux w pol ctx a = Inr (cmds, u, ws)"
  shows "list_all plainCommand cmds"
proof -
  let ?args = "map (subst w ctx) (act_TmuxArgs a)"
  from assms(2) have ne: "act_TmuxArgs a \<noteq> []"
    by (auto simp: compileTmux_def split: if_splits)
  from assms(2) obtain sub rest where f: "Fields (TrimPrefix (TrimSpace (hd ?args)) ''tmux '') = sub # rest"
    and al: "mapGet (orDefaultAllowed (AllowedTmuxCommands pol)) sub"
    and cm: "cmds = [\<lparr> Args = ?args, Explanation = ''unsafe tmux passthrough'', Unsafe = True \<rparr>]"
    by (auto simp: compileTmux_def Let_def split: if_splits list.splits)
  have "\<not> HasPrefix sub ''__''"
    using assms(1) mapGet_key[OF al] by (auto simp: noDunderAllowed_def list_all_iff)
  with f have "\<not> HasPrefix (hd ?args) ''__''"
    using Fields_dunder[of "hd ?args"] by auto
  then show ?thesis
    by (simp add: cm plainCommand_def dunder_def)
qed

lemma hd_withCommand: "hd (withCommand w ctx a (x # xs)) = x"
  by (simp add: withCommand_def)

lemma withCommand_ne: "withCommand w ctx a (x # xs) \<noteq> []"
  by (simp add: withCommand_def)

lemmas plain_simps = plainCommand_def dunder_def isSentinel_def HasPrefix_def cmd_def
  hd_withCommand withCommand_ne

lemma compileAction_plain:
  assumes "noDunderAllowed pol" and "compileAction w pol ctx a = Inr (cmds, u, ws)"
  shows "list_all plainCommand cmds"
proof -
  let ?session = "if TrimSpace (act_Session a) = [] then SessionName ctx else TrimSpace (act_Session a)"
  let ?cwd = "if TrimSpace (act_Cwd a) = [] then WorkingDir ctx
              else expandUser w (subst w ctx (TrimSpace (act_Cwd a)))"
  have 1: "compileEnsureSession ?session ?cwd = Inr (cmds, u, ws) \<Longrightarrow> list_all plainCommand cmds"
    by (auto simp: compileEnsureSession_def plain_simps)
  have 2: "compileNewWindow w ctx a ?session ?cwd = Inr (cmds, u, ws) \<Longrightarrow> list_all plainCommand cmds"
    by (auto simp: compileNewWindow_def Let_def plain_simps split: if_splits)
  have 3: "compileSplitWindow w ctx a ?session ?cwd = Inr (cmds, u, ws) \<Longrightarrow> list_all plainCommand cmds"
    by (auto simp: compileSplitWindow_def Let_def plain_simps split: if_splits)
  have 4: "compileRenameWindow a ?session = Inr (cmds, u, ws) \<Longrightarrow> list_all plainCommand cmds"
    by (auto simp: compileRenameWindow_def Let_def plain_simps split: if_splits)
  have 5: "compileSelectWindow a ?session = Inr (cmds, u, ws) \<Longrightarrow> list_all plainCommand cmds"
    by (auto simp: compileSelectWindow_def Let_def plain_simps split: if_splits)
  have 6: "compileSelectPane a ?session = Inr (cmds, u, ws) \<Longrightarrow> list_all plainCommand cmds"
    by (auto simp: compileSelectPane_def Let_def plain_simps split: if_splits)
  have 7: "compileSelectLayout a ?session = Inr (cmds, u, ws) \<Longrightarrow> list_all plainCommand cmds"
    by (auto simp: compileSelectLayout_def Let_def plain_simps split: if_splits)
  have 8: "compileSendKeys w ctx a ?session = Inr (cmds, u, ws) \<Longrightarrow> list_all plainCommand cmds"
    by (auto simp: compileSendKeys_def Let_def plain_simps split: if_splits)
  have 9: "compileWaitForPrompt a ?session = Inr (cmds, u, ws) \<Longrightarrow> list_all plainCommand cmds"
    by (auto simp: compileWaitForPrompt_def Let_def plain_simps split: if_splits)
  have 10: "compileSshManagerConnect a ?session = Inr (cmds, u, ws) \<Longrightarrow> list_all plainCommand cmds"
    by (auto simp: compileSshManagerConnect_def Let_def plain_simps split: if_splits)
  have 11: "compileSetOption w ctx a ?session = Inr (cmds, u, ws) \<Longrightarrow> list_all plainCommand cmds"
    by (auto simp: compileSetOption_def Let_def plain_simps split: if_splits)
  have 12: "compileDisplay w ctx a = Inr (cmds, u, ws) \<Longrightarrow> list_all plainCommand cmds"
    by (auto simp: compileDisplay_def Let_def plain_simps split: if_splits)
  have 13: "compileShell w pol ctx a ?session ?cwd = Inr (cmds, u, ws) \<Longrightarrow> list_all plainCommand cmds"
    by (auto simp: compileShell_def Let_def plain_simps split: if_splits)
  have 14: "compileTmux w pol ctx a = Inr (cmds, u, ws) \<Longrightarrow> list_all plainCommand cmds"
    by (rule compileTmux_plain[OF assms(1)])
  from assms(2) show ?thesis
    unfolding compileAction_def Let_def
    using 1 2 3 4 5 6 7 8 9 10 11 12 13 14
    by (simp split: if_splits)
qed

lemma compileActions_plain:
  assumes "noDunderAllowed pol"
  shows "list_all plainCommand (Commands out) \<Longrightarrow> compileActions w pol ctx as out = Inr res
         \<Longrightarrow> list_all plainCommand (Commands res)"
proof (induction as arbitrary: out)
  case Nil
  then show ?case by simp
next
  case (Cons a as)
  from Cons.prems(2) obtain cmds u ws where c: "compileAction w pol ctx a = Inr (cmds, u, ws)"
    and r: "compileActions w pol ctx as
              \<lparr> Commands = Commands out @ cmds, UnsafeUsed = (UnsafeUsed out \<or> u),
                Warnings = Warnings out @ ws \<rparr> = Inr res"
    by (auto split: sum.splits prod.splits)
  have "list_all plainCommand cmds" using assms c by (rule compileAction_plain)
  with Cons.prems(1) have "list_all plainCommand (Commands \<lparr> Commands = Commands out @ cmds,
      UnsafeUsed = (UnsafeUsed out \<or> u), Warnings = Warnings out @ ws \<rparr>)"
    by simp
  then show ?case using r by (rule Cons.IH)
qed

lemma Compile_plain:
  assumes "noDunderAllowed pol" and "Compile w pol ctx spec = Inr compiled"
  shows "list_all plainCommand (Commands compiled)"
proof -
  from assms(2) have "compileActions w pol (compileContext w ctx) (tpl_Actions spec) Compiled0 = Inr compiled"
    by (auto simp: Compile_def split: if_splits sum.splits)
  moreover have "list_all plainCommand (Commands Compiled0)" by (simp add: Compiled0_def)
  ultimately show ?thesis using compileActions_plain[OF assms(1)] by blast
qed

text \<open>
  C7, amended: whatever the plan, the runner and the clock, \<open>Execute\<close> only adds calls
  to the record, and none of them has \<open>__wait_for_prompt__\<close> or
  \<open>__ssh_manager_connect__\<close> as its first argument; and when the plan was compiled under a
  policy whose allowlist names no subcommand beginning with \<open>__\<close> (the default allowlist
  is one), no call's first argument begins with \<open>__\<close>.
\<close>

theorem sentinel_opacity:
  assumes "Execute re e compiled dryRun st = (res, st')"
  shows "calls st' = calls st @ newCalls st st'
       \<and> list_all (\<lambda>args. \<not> isSentinel args) (newCalls st st')
       \<and> (noDunderAllowed pol \<and> Compile w pol ctx spec = Inr compiled
            \<longrightarrow> list_all (\<lambda>args. \<not> dunder args) (newCalls st st'))"
proof -
  have a: "extends (\<lambda>args. \<not> isSentinel args) st st'"
  proof (rule extends_Execute[where Q="\<lambda>args. \<not> isSentinel args", OF _ _ _ assms])
    show "\<not> isSentinel (captureArgs t m)" for t m
      by (simp add: isSentinel_def captureArgs_def)
    show "\<not> isSentinel (''send-keys'' # xs)" for xs
      by (simp add: isSentinel_def)
    show "\<forall>c \<in> set (Commands compiled). \<not> isSentinel (Args c) \<longrightarrow> \<not> isSentinel (Args c)"
      by simp
  qed
  have b: "extends (\<lambda>args. \<not> dunder args) st st'"
    if n: "noDunderAllowed pol" and c: "Compile w pol ctx spec = Inr compiled"
  proof (rule extends_Execute[where Q="\<lambda>args. \<not> dunder args", OF _ _ _ assms])
    show "\<not> dunder (captureArgs t m)" for t m
      by (simp add: dunder_def captureArgs_def HasPrefix_def)
    show "\<not> dunder (''send-keys'' # xs)" for xs
      by (simp add: dunder_def HasPrefix_def)
    show "\<forall>c \<in> set (Commands compiled). \<not> isSentinel (Args c) \<longrightarrow> \<not> dunder (Args c)"
      using Compile_plain[OF n c] by (auto simp: list_all_iff plainCommand_def)
  qed
  show ?thesis
    using extends_newCalls[OF a] b extends_newCalls by blast
qed


lemma compiledWait_eq: "Compile worldK DefaultPolicy ctxPlan tplWait = Inr compiledWait"
  by code_simp

lemma DefaultPolicy_noDunder: "noDunderAllowed DefaultPolicy"
  by code_simp

lemma exec_wait:
  "calls (snd (Execute reAlways engPrompt compiledWait False st0))
   = [[''select-window'', ''-t'', ''demo:w''],
      [''capture-pane'', ''-p'', ''-t'', ''demo:w'', ''-S'', ''-200''],
      [''capture-pane'', ''-p'', ''-t'', ''demo:w'', ''-S'', ''-200''],
      [''capture-pane'', ''-p'', ''-t'', ''demo:w'', ''-S'', ''-200''],
      [''capture-pane'', ''-p'', ''-t'', ''demo:w'', ''-S'', ''-200''],
      [''capture-pane'', ''-p'', ''-t'', ''demo:w'', ''-S'', ''-200''],
      [''capture-pane'', ''-p'', ''-t'', ''demo:w'', ''-S'', ''-200''],
      [''send-keys'', ''-t'', ''demo:w'', ''ssh db1'', ''C-m'']]"
  by code_simp

theorem sentinel_opacity_witness:
  "noDunderAllowed DefaultPolicy
   \<and> Compile worldK DefaultPolicy ctxPlan tplWait = Inr compiledWait
   \<and> calls (snd (Execute reAlways engPrompt compiledWait False st0))
       = [[''select-window'', ''-t'', ''demo:w''],
          [''capture-pane'', ''-p'', ''-t'', ''demo:w'', ''-S'', ''-200''],
          [''capture-pane'', ''-p'', ''-t'', ''demo:w'', ''-S'', ''-200''],
          [''capture-pane'', ''-p'', ''-t'', ''demo:w'', ''-S'', ''-200''],
          [''capture-pane'', ''-p'', ''-t'', ''demo:w'', ''-S'', ''-200''],
          [''capture-pane'', ''-p'', ''-t'', ''demo:w'', ''-S'', ''-200''],
          [''capture-pane'', ''-p'', ''-t'', ''demo:w'', ''-S'', ''-200''],
          [''send-keys'', ''-t'', ''demo:w'', ''ssh db1'', ''C-m'']]
   \<and> list_all (\<lambda>args. \<not> isSentinel args) (newCalls st0 (snd (Execute reAlways engPrompt compiledWait False st0)))
   \<and> list_all (\<lambda>args. \<not> dunder args) (newCalls st0 (snd (Execute reAlways engPrompt compiledWait False st0)))"
proof -
  have x: "Execute reAlways engPrompt compiledWait False st0
           = (fst (Execute reAlways engPrompt compiledWait False st0),
              snd (Execute reAlways engPrompt compiledWait False st0))"
    by simp
  from sentinel_opacity[OF x, of DefaultPolicy worldK ctxPlan tplWait]
    DefaultPolicy_noDunder compiledWait_eq exec_wait
  show ?thesis by blast
qed

subsection \<open>C1: the policy gate of Stage A\<close>

lemma succeeds_Inr: "succeeds r \<longleftrightarrow> (\<exists>x. r = Inr x)"
  by (cases r) (simp_all add: succeeds_def)

lemma buildAllowed_Some: "buildAllowed opt \<noteq> None"
  by (simp add: buildAllowed_def mapLen0_def DefaultPolicy_def split: option.splits)

lemma buildPolicy_fields:
  "pol_AllowShell (buildPolicy opt) = opt_AllowShell opt"
  "pol_AllowTmuxPassthrough (buildPolicy opt) = opt_AllowTmuxPassthrough opt"
  "pol_AllowedTmuxCommands (buildPolicy opt) = buildAllowed opt"
  by (simp_all add: buildPolicy_def)

lemma convertSingleAction_shell:
  assumes "a_Type a = ''shell''"
  shows "convertSingleAction ctx sn a pol dis =
     (case a_Shell a of
           None \<Rightarrow> Inl (Err ''missing shell{}'')
         | Some c \<Rightarrow>
             if \<not> pol_AllowShell pol then Inl (Err ''shell actions disabled by policy'')
             else if TrimSpace (sh_Cmd c) = [] then Inl (Err ''shell.cmd empty'')
             else Inr ([(targeted ActionShell (if TrimSpace (t_Session (a_Target a)) = [] then sn
                  else TrimSpace (t_Session (a_Target a))) (a_Target a))\<lparr>act_Shell := TrimSpace (sh_Cmd c)\<rparr>],
                       True))"
  by (simp add: convertSingleAction_def Let_def assms)

lemma convertSingleAction_tmux:
  assumes "a_Type a = ''tmux''"
  shows "convertSingleAction ctx sn a pol dis =
     (case a_Tmux a of
           None \<Rightarrow> Inl (Err ''missing tmux{}'')
         | Some t \<Rightarrow>
             if \<not> pol_AllowTmuxPassthrough pol then Inl (Err ''tmux passthrough disabled by policy'')
             else if TrimSpace (tmux_Name t) = [] then Inl (Err ''tmux.name empty'')
             else if nilGet dis (TrimSpace (tmux_Name t))
             then Inl (Err ''tmux subcommand is disallowed'')
             else if pol_AllowedTmuxCommands pol \<noteq> None
                     \<and> \<not> nilGet (pol_AllowedTmuxCommands pol) (TrimSpace (tmux_Name t))
             then Inl (Err ''tmux subcommand not in allowlist'')
             else Inr ([(targeted ActionTmux (if TrimSpace (t_Session (a_Target a)) = [] then sn
                  else TrimSpace (t_Session (a_Target a))) (a_Target a))
                          \<lparr>act_TmuxArgs := TrimSpace (tmux_Name t) # tmux_Args t\<rparr>], True))"
  by (simp add: convertSingleAction_def Let_def assms)

lemma convertSingleAction_gated:
  assumes "convertSingleAction ctx sn a (buildPolicy opt) (buildDisallowed opt) = Inr r"
  shows "gated opt a"
proof (cases "a_Type a = ''shell''")
  case True
  with assms show ?thesis
    by (simp add: convertSingleAction_shell gated_def buildPolicy_fields
             split: option.splits if_splits)
next
  case ns: False
  show ?thesis
  proof (cases "a_Type a = ''tmux''")
    case True
    with assms ns show ?thesis
      by (simp add: convertSingleAction_tmux gated_def buildPolicy_fields buildAllowed_Some
               split: option.splits if_splits)
  next
    case False
    with ns show ?thesis by (simp add: gated_def)
  qed
qed

lemma convertActions_gated:
  "convertActions ctx sn as (buildPolicy opt) (buildDisallowed opt) = Inr r \<Longrightarrow> list_all (gated opt) as"
proof (induction as arbitrary: r)
  case Nil
  show ?case by simp
next
  case (Cons a as)
  from Cons.prems obtain r1 r2 where
    a: "convertSingleAction ctx sn a (buildPolicy opt) (buildDisallowed opt) = Inr r1"
    and b: "convertActions ctx sn as (buildPolicy opt) (buildDisallowed opt) = Inr r2"
    by (auto split: sum.splits prod.splits)
  from convertSingleAction_gated[OF a] Cons.IH[OF b] show ?case by simp
qed

lemma convertPlanStep_gated:
  assumes "convertPlanStep w ctx sn win root (buildPolicy opt) (buildDisallowed opt) i step = Inr r"
  shows "list_all (gated opt) (stepActions step)"
proof (cases "st_Pane step")
  case None
  then show ?thesis by (simp add: stepActions_def)
next
  case (Some p)
  show ?thesis
  proof (cases "pp_Actions p = []")
    case True
    with Some show ?thesis by (simp add: stepActions_def)
  next
    case False
    with assms Some obtain r1 where
      "convertActions ctx sn (pp_Actions p) (buildPolicy opt) (buildDisallowed opt) = Inr r1"
      by (auto simp: convertPlanStep_def Let_def split: sum.splits)
    from convertActions_gated[OF this] Some show ?thesis by (simp add: stepActions_def)
  qed
qed

lemma convertPlanFrom_gated:
  "convertPlanFrom w ctx sn win root (buildPolicy opt) (buildDisallowed opt) i steps = Inr r
   \<Longrightarrow> list_all (gated opt) (concat (map stepActions steps))"
proof (induction steps arbitrary: i r)
  case Nil
  show ?case by simp
next
  case (Cons step steps)
  from Cons.prems obtain r1 r2 where
    a: "convertPlanStep w ctx sn win root (buildPolicy opt) (buildDisallowed opt) i step = Inr r1"
    and b: "convertPlanFrom w ctx sn win root (buildPolicy opt) (buildDisallowed opt) (Suc i) steps = Inr r2"
    by (auto split: sum.splits prod.splits)
  from convertPlanStep_gated[OF a] Cons.IH[OF b] show ?case by simp
qed

lemma convertPane_gated:
  assumes "convertPane w ctx sn win root (buildPolicy opt) (buildDisallowed opt) i p = Inr r"
  shows "list_all (gated opt) (p_Actions p)"
proof (cases "p_Actions p = []")
  case True
  then show ?thesis by simp
next
  case False
  with assms obtain r1 where
    "convertActions ctx sn (p_Actions p) (buildPolicy opt) (buildDisallowed opt) = Inr r1"
    by (auto simp: convertPane_def Let_def split: sum.splits)
  from convertActions_gated[OF this] show ?thesis .
qed

lemma convertPanesFrom_gated:
  "convertPanesFrom w ctx sn win root (buildPolicy opt) (buildDisallowed opt) i ps = Inr r
   \<Longrightarrow> list_all (gated opt) (concat (map p_Actions ps))"
proof (induction ps arbitrary: i r)
  case Nil
  show ?case by simp
next
  case (Cons p ps)
  from Cons.prems obtain r1 r2 where
    a: "convertPane w ctx sn win root (buildPolicy opt) (buildDisallowed opt) i p = Inr r1"
    and b: "convertPanesFrom w ctx sn win root (buildPolicy opt) (buildDisallowed opt) (Suc i) ps = Inr r2"
    by (auto split: sum.splits prod.splits)
  from convertPane_gated[OF a] Cons.IH[OF b] show ?case by simp
qed

lemma convertWindow_gated:
  assumes "convertWindow w ctx sn root (buildPolicy opt) (buildDisallowed opt) win = Inr r"
  shows "list_all (gated opt) (windowUsed win)"
proof -
  let ?pol = "buildPolicy opt" and ?dis = "buildDisallowed opt"
  let ?wr = "expandUser w (subst w ctx
                         (if TrimSpace (w_Root win) = [] then root else TrimSpace (w_Root win)))"
  from assms have n: "TrimSpace (w_Name win) \<noteq> []"
    by (auto simp: convertWindow_def split: if_splits)
  from assms n obtain r1 r2 where
    a: "(if w_Actions win \<noteq> []
         then (case convertActions ctx sn (w_Actions win) ?pol ?dis of
                 Inl e \<Rightarrow> Inl (Wrap ''window actions'' e)
               | Inr (acts, u) \<Rightarrow> Inr (defaultWindowActs sn (w_Name win) acts, u))
         else Inr ([], False)) = Inr r1"
    and b: "(if w_PanePlan win \<noteq> []
             then convertPanePlan w ctx sn win ?wr ?pol ?dis
             else convertPanesFrom w ctx sn win ?wr ?pol ?dis 0 (w_Panes win)) = Inr r2"
    unfolding convertWindow_def Let_def
    by (simp split: sum.splits prod.splits)
  have 1: "list_all (gated opt) (w_Actions win)"
  proof (cases "w_Actions win = []")
    case True
    then show ?thesis by simp
  next
    case False
    with a obtain r3 where "convertActions ctx sn (w_Actions win) ?pol ?dis = Inr r3"
      by (auto split: sum.splits)
    from convertActions_gated[OF this] show ?thesis .
  qed
  have 2: "list_all (gated opt) (if w_PanePlan win \<noteq> [] then concat (map stepActions (w_PanePlan win))
        else concat (map p_Actions (w_Panes win)))"
  proof (cases "w_PanePlan win = []")
    case True
    with b have "convertPanesFrom w ctx sn win ?wr ?pol ?dis 0 (w_Panes win) = Inr r2" by simp
    from convertPanesFrom_gated[OF this] True show ?thesis by simp
  next
    case False
    with b have "convertPlanFrom w ctx sn win ?wr ?pol ?dis 0 (w_PanePlan win) = Inr r2"
      by (simp add: convertPanePlan_def)
    from convertPlanFrom_gated[OF this] False show ?thesis by simp
  qed
  from 1 2 show ?thesis unfolding windowUsed_def by simp
qed

lemma convertWindowsLoop_gated:
  "convertWindowsLoop w ctx sn root (buildPolicy opt) (buildDisallowed opt) wins = Inr r
   \<Longrightarrow> list_all (gated opt) (concat (map windowUsed wins))"
proof (induction wins arbitrary: r)
  case Nil
  show ?case by simp
next
  case (Cons win wins)
  from Cons.prems obtain r1 r2 where
    a: "convertWindow w ctx sn root (buildPolicy opt) (buildDisallowed opt) win = Inr r1"
    and b: "convertWindowsLoop w ctx sn root (buildPolicy opt) (buildDisallowed opt) wins = Inr r2"
    by (auto split: sum.splits prod.splits)
  from convertWindow_gated[OF a] Cons.IH[OF b] show ?case by simp
qed

lemma buildBody_gated:
  assumes "buildBody w s opt = Inr r"
  shows "list_all (gated opt) (usedActions s opt)"
proof (cases "useActions s opt")
  case True
  with assms have "convertActions (buildContext w s opt) (buildSessionName w s opt) (sp_Actions s)
             (buildPolicy opt) (buildDisallowed opt) = Inr r"
    by (simp add: buildBody_def)
  from convertActions_gated[OF this] True show ?thesis by (simp add: usedActions_def)
next
  case False
  with assms obtain r1 where
    "convertWindowsLoop w (buildContext w s opt) (buildSessionName w s opt) (buildRoot w s opt)
        (buildPolicy opt) (buildDisallowed opt) (sp_Windows s) = Inr r1"
    by (auto simp: buildBody_def convertWindows_def split: sum.splits if_splits)
  from convertWindowsLoop_gated[OF this] False show ?thesis by (simp add: usedActions_def)
qed

lemma BuildFromSpec_Inr:
  assumes "BuildFromSpec w s0 opt = Inr r"
  shows "\<exists>s b. Validate s0 = Inr s \<and> ValidatePolicy s (buildPolicy opt) = None
           \<and> buildBody w s opt = Inr b"
  using assms unfolding BuildFromSpec_def
  by (auto split: sum.splits if_splits option.splits)

lemma ValidatePolicy_prechecked:
  assumes "ValidatePolicy s (buildPolicy opt) = None" and "inLists s a"
  shows "prechecked opt a"
proof -
  have n: "(if pol_AllowedTmuxCommands (buildPolicy opt) = None
            then (buildPolicy opt)\<lparr>pol_AllowedTmuxCommands := pol_AllowedTmuxCommands spec_DefaultPolicy\<rparr>
            else buildPolicy opt) = buildPolicy opt"
    by (simp add: buildPolicy_fields buildAllowed_Some)
  from assms have "policyCheck (buildPolicy opt) a = None"
    unfolding ValidatePolicy_None_iff policyCheckWindow_None_iff n inLists_def by blast
  then show ?thesis
    by (auto simp: policyCheck_def prechecked_def buildPolicy_fields split: if_splits option.splits)
qed

lemma validateAction_shell:
  assumes "validateAction a0 = Inr a" and "a_Type a = ''shell''"
  shows "\<exists>c. a_Shell a = Some c \<and> TrimSpace (sh_Cmd c) \<noteq> []"
  using assms unfolding validateAction_def Let_def
  by (auto simp: TrimSpace_idem split: if_splits option.splits)

lemma validateAction_tmux:
  assumes "validateAction a0 = Inr a" and "a_Type a = ''tmux''"
  shows "\<exists>t. a_Tmux a = Some t \<and> TrimSpace (tmux_Name t) \<noteq> []"
  using assms unfolding validateAction_def Let_def
  by (auto simp: TrimSpace_idem split: if_splits option.splits)

lemma Validate_specOne:
  assumes "validateAction a0 = Inr a"
  shows "Validate (specOne a0) = Inr (specOne a)"
  using assms
  by (simp add: Validate_def specOne_def spec_Spec0_def Session0_def CurrentVersion_def TrimSpace_Nil)

lemma buildSessionName_specOne: "buildSessionName w (specOne a) opt = buildSessionName w (specOne a0) opt"
  by (simp add: buildSessionName_def chosenSessionName_def specOne_def)

lemma BuildFromSpec_specOne:
  assumes v: "validateAction a0 = Inr a"
    and root: "TrimSpace (opt_ProjectRoot opt) \<noteq> []"
    and name: "buildSessionName w (specOne a0) opt \<noteq> []"
  shows "succeeds (BuildFromSpec w (specOne a0) opt) \<longleftrightarrow>
           policyCheck (buildPolicy opt) a = None
           \<and> succeeds (convertSingleAction (buildContext w (specOne a) opt)
                 (buildSessionName w (specOne a) opt) a (buildPolicy opt) (buildDisallowed opt))"
proof -
  have n: "buildSessionName w (specOne a) opt \<noteq> []"
    using name buildSessionName_specOne[of w a opt a0] by simp
  have vp: "ValidatePolicy (specOne a) (buildPolicy opt) = None \<longleftrightarrow> policyCheck (buildPolicy opt) a = None"
    by (simp add: ValidatePolicy_def Let_def buildPolicy_fields buildAllowed_Some specOne_def
          spec_Spec0_def split: option.splits)
  have ua: "useActions (specOne a) opt"
    by (simp add: useActions_def specOne_def spec_Spec0_def)
  have bb: "succeeds (buildBody w (specOne a) opt) \<longleftrightarrow>
            succeeds (convertSingleAction (buildContext w (specOne a) opt)
                 (buildSessionName w (specOne a) opt) a (buildPolicy opt) (buildDisallowed opt))"
    unfolding buildBody_def using ua
    by (simp add: specOne_def spec_Spec0_def succeeds_def split: sum.splits prod.splits)
  have "succeeds (BuildFromSpec w (specOne a0) opt) \<longleftrightarrow>
          ValidatePolicy (specOne a) (buildPolicy opt) = None \<and> succeeds (buildBody w (specOne a) opt)"
    unfolding BuildFromSpec_def Validate_specOne[OF v] using root n
    by (simp add: succeeds_def split: sum.splits prod.splits option.splits)
  with vp bb show ?thesis by simp
qed

lemma one_shell:
  assumes v: "validateAction a0 = Inr a"
    and root: "TrimSpace (opt_ProjectRoot opt) \<noteq> []"
    and name: "buildSessionName w (specOne a0) opt \<noteq> []"
    and t: "a_Type a = ''shell''"
  shows "succeeds (BuildFromSpec w (specOne a0) opt) \<longleftrightarrow> opt_AllowShell opt"
proof -
  from validateAction_shell[OF v t] obtain c where c: "a_Shell a = Some c" "TrimSpace (sh_Cmd c) \<noteq> []"
    by blast
  have 1: "policyCheck (buildPolicy opt) a = None \<longleftrightarrow> opt_AllowShell opt"
    by (simp add: policyCheck_def t buildPolicy_fields)
  have 2: "succeeds (convertSingleAction ctx sn a (buildPolicy opt) (buildDisallowed opt))
           \<longleftrightarrow> opt_AllowShell opt" for ctx sn
    by (simp add: convertSingleAction_shell[OF t] c buildPolicy_fields succeeds_def)
  show ?thesis
    unfolding BuildFromSpec_specOne[OF v root name] 1 2 by simp
qed

lemma one_tmux:
  assumes v: "validateAction a0 = Inr a"
    and root: "TrimSpace (opt_ProjectRoot opt) \<noteq> []"
    and name: "buildSessionName w (specOne a0) opt \<noteq> []"
    and t: "a_Type a = ''tmux''"
  shows "succeeds (BuildFromSpec w (specOne a0) opt) \<longleftrightarrow> gated opt a"
proof -
  from validateAction_tmux[OF v t] obtain x where c: "a_Tmux a = Some x" "TrimSpace (tmux_Name x) \<noteq> []"
    by blast
  have 1: "policyCheck (buildPolicy opt) a = None \<longleftrightarrow>
             opt_AllowTmuxPassthrough opt \<or> nilGet (buildAllowed opt) (TrimSpace (tmux_Name x))"
    using t by (auto simp add: policyCheck_def c buildPolicy_fields)
  have 2: "succeeds (convertSingleAction ctx sn a (buildPolicy opt) (buildDisallowed opt))
           \<longleftrightarrow> gated opt a" for ctx sn
    using t by (auto simp add: convertSingleAction_tmux[OF t] c buildPolicy_fields succeeds_def gated_def
          buildAllowed_Some)
  have 3: "gated opt a \<Longrightarrow> opt_AllowTmuxPassthrough opt"
    using t by (auto simp: gated_def c)
  show ?thesis
    unfolding BuildFromSpec_specOne[OF v root name] 1 2 using 3 by blast
qed

text \<open>
  C1, as stated: a structurally valid spec with a passthrough action \<open>new-window\<close> compiles
  only if passthrough is enabled. A spec may carry windows and spec-level actions, and
  \<open>FromSpec\<close> compiles the windows. The spec below validates, has the passthrough action
  \<open>new-window -d\<close> in its spec-level list, and compiles under the default policy, where
  passthrough is off: \<open>ValidatePolicy\<close> lets a passthrough action through when its
  subcommand is in the allowlist, and the conversion never visits the list.
\<close>

theorem policy_gate_counterexample:
  "validateAction (tmuxAction ''new-window'' [''-d'']) = Inr (tmuxAction ''new-window'' [''-d''])
   \<and> tmuxAction ''new-window'' [''-d''] \<in> set (sp_Actions specBoth)
   \<and> Validate specBoth = Inr specBoth
   \<and> \<not> AllowTmuxPassthrough DefaultPolicy
   \<and> map_sum id (map Args \<circ> Commands) (compileSpec worldK DefaultPolicy ctxDemo specBoth True)
     = Inr [[''new-session'', ''-d'', ''-s'', ''demo'', ''-c'', ''/tmp/demo''],
            [''new-window'', ''-t'', ''demo'', ''-n'', ''editor'', ''-c'', ''/tmp/demo''],
            [''select-window'', ''-t'', ''demo:editor'']]"
proof -
  have 1: "validateAction (tmuxAction ''new-window'' [''-d'']) = Inr (tmuxAction ''new-window'' [''-d''])"
    by code_simp
  have 2: "tmuxAction ''new-window'' [''-d''] \<in> set (sp_Actions specBoth)"
    by (simp add: specBoth_def)
  have 3: "Validate specBoth = Inr specBoth"
    by code_simp
  have 4: "\<not> AllowTmuxPassthrough DefaultPolicy"
    by (simp add: DefaultPolicy_def)
  have 5: "map_sum id (map Args \<circ> Commands) (compileSpec worldK DefaultPolicy ctxDemo specBoth True)
     = Inr [[''new-session'', ''-d'', ''-s'', ''demo'', ''-c'', ''/tmp/demo''],
            [''new-window'', ''-t'', ''demo'', ''-n'', ''editor'', ''-c'', ''/tmp/demo''],
            [''select-window'', ''-t'', ''demo:editor'']]"
    by code_simp
  from 1 2 3 4 5 show ?thesis by blast
qed

lemma FromSpec_Inr:
  assumes "FromSpec w ctx s0 sh tm ensure = Inr tpl"
  shows "\<exists>opt r. BuildFromSpec w s0 opt = Inr r \<and> opt_AllowShell opt = sh
           \<and> opt_AllowTmuxPassthrough opt = tm \<and> opt_PreferWindows opt
           \<and> opt_AllowedTmuxCommands opt = None \<and> opt_DisallowTmuxCommands opt = None"
proof -
  let ?p = "TrimSpace (ProjectPath ctx)"
  let ?opt = "\<lparr> opt_ProjectRoot = ?p,
        opt_ProjectName = (if TrimSpace (ProjectName ctx) = [] then Base (TrimRight ?p ''/'')
                            else TrimSpace (ProjectName ctx)),
        opt_SessionName = (if TrimSpace (SessionName ctx) \<noteq> [] then TrimSpace (SessionName ctx)
                            else if TrimSpace (s_Name (sp_Session s0)) \<noteq> [] then s_Name (sp_Session s0)
                            else DeriveSessionName (TrimSpace (s_Prefix (sp_Session s0))) ?p),
        opt_PreferWindows = True, opt_IncludeEnsureSession = ensure,
        opt_AllowShell = sh, opt_AllowTmuxPassthrough = tm,
        opt_AllowedTmuxCommands = None, opt_DisallowTmuxCommands = None \<rparr>"
  from assms obtain r where "BuildFromSpec w s0 ?opt = Inr r"
    unfolding FromSpec_def Let_def
    by (cases "BuildFromSpec w s0 ?opt") (simp_all split: if_splits)
  then show ?thesis
    by (intro exI[of _ ?opt] exI[of _ r]) simp
qed

text \<open>
  C1, amended: when \<open>BuildFromSpec\<close> (or \<open>FromSpec\<close>, which calls it with windows
  preferred and the default allowlist and denylist) succeeds, the spec validates and, in the
  validated spec, every action of the representation that is converted passes the gate: a
  shell action needs \<open>AllowShell\<close>; a passthrough action needs passthrough enabled, its
  subcommand in the allowlist and not in the denylist. Every action in the spec's list, in a
  window's list or in a list of a window's \<open>panes\<close>, converted or not, passes the rule of
  \<open>ValidatePolicy\<close>: a shell action needs \<open>AllowShell\<close>; a passthrough action needs
  passthrough enabled or its subcommand in the allowlist. And a spec whose only action is a
  structurally valid shell action compiles if and only if \<open>AllowShell\<close> is on; one whose
  only action is a structurally valid passthrough action compiles if and only if passthrough
  is enabled and the subcommand is in the allowlist and not in the denylist (given a project
  root and a session name that is not empty). Actions that sit only in a \<open>pane_plan\<close> that
  is not converted are not part of this statement.
\<close>

theorem policy_gate:
  "(BuildFromSpec w s0 opt = Inr r \<longrightarrow>
      (\<exists>s. Validate s0 = Inr s \<and> list_all (gated opt) (usedActions s opt)
         \<and> (\<forall>b. inLists s b \<longrightarrow> prechecked opt b)))
   \<and> (FromSpec w ctx s0 sh tm ensure = Inr tpl \<longrightarrow>
        (\<exists>s opt'. Validate s0 = Inr s \<and> list_all (gated opt') (usedActions s opt')
           \<and> (\<forall>b. inLists s b \<longrightarrow> prechecked opt' b)
           \<and> opt_AllowShell opt' = sh \<and> opt_AllowTmuxPassthrough opt' = tm \<and> opt_PreferWindows opt'
           \<and> opt_AllowedTmuxCommands opt' = None \<and> opt_DisallowTmuxCommands opt' = None))
   \<and> (validateAction a0 = Inr a \<and> TrimSpace (opt_ProjectRoot opt) \<noteq> []
        \<and> buildSessionName w (specOne a0) opt \<noteq> [] \<longrightarrow>
        (a_Type a = ''shell'' \<longrightarrow>
           (succeeds (BuildFromSpec w (specOne a0) opt) \<longleftrightarrow> opt_AllowShell opt))
        \<and> (a_Type a = ''tmux'' \<longrightarrow>
             (succeeds (BuildFromSpec w (specOne a0) opt) \<longleftrightarrow>
                (\<exists>t. a_Tmux a = Some t \<and> opt_AllowTmuxPassthrough opt
                   \<and> nilGet (buildAllowed opt) (TrimSpace (tmux_Name t))
                   \<and> \<not> nilGet (buildDisallowed opt) (TrimSpace (tmux_Name t))))))"
proof -
  have 1: "\<exists>s. Validate s0 = Inr s \<and> list_all (gated bo) (usedActions s bo)
              \<and> (\<forall>b. inLists s b \<longrightarrow> prechecked bo b)"
    if "BuildFromSpec w s0 bo = Inr x" for bo x
  proof -
    from BuildFromSpec_Inr[OF that] obtain s b where
      s: "Validate s0 = Inr s" and v: "ValidatePolicy s (buildPolicy bo) = None"
      and b: "buildBody w s bo = Inr b" by blast
    from buildBody_gated[OF b] ValidatePolicy_prechecked[OF v] s show ?thesis by blast
  qed
  have 2: "\<exists>s opt'. Validate s0 = Inr s \<and> list_all (gated opt') (usedActions s opt')
           \<and> (\<forall>b. inLists s b \<longrightarrow> prechecked opt' b)
           \<and> opt_AllowShell opt' = sh \<and> opt_AllowTmuxPassthrough opt' = tm \<and> opt_PreferWindows opt'
           \<and> opt_AllowedTmuxCommands opt' = None \<and> opt_DisallowTmuxCommands opt' = None"
    if "FromSpec w ctx s0 sh tm ensure = Inr tpl"
  proof -
    from FromSpec_Inr[OF that] obtain bo x where
      b: "BuildFromSpec w s0 bo = Inr x" and
      f: "opt_AllowShell bo = sh" "opt_AllowTmuxPassthrough bo = tm" "opt_PreferWindows bo"
         "opt_AllowedTmuxCommands bo = None" "opt_DisallowTmuxCommands bo = None"
      by blast
    from 1[OF b] f show ?thesis by blast
  qed
  have g: "gated opt a \<longleftrightarrow> (\<exists>t. a_Tmux a = Some t \<and> opt_AllowTmuxPassthrough opt
                   \<and> nilGet (buildAllowed opt) (TrimSpace (tmux_Name t))
                   \<and> \<not> nilGet (buildDisallowed opt) (TrimSpace (tmux_Name t)))"
    if "a_Type a = ''tmux''"
    using that by (auto simp: gated_def split: option.splits)
  have 3: "succeeds (BuildFromSpec w (specOne a0) opt) \<longleftrightarrow> opt_AllowShell opt"
    if "validateAction a0 = Inr a" "TrimSpace (opt_ProjectRoot opt) \<noteq> []"
       "buildSessionName w (specOne a0) opt \<noteq> []" "a_Type a = ''shell''"
    using that by (rule one_shell)
  have 4: "succeeds (BuildFromSpec w (specOne a0) opt) \<longleftrightarrow>
                (\<exists>t. a_Tmux a = Some t \<and> opt_AllowTmuxPassthrough opt
                   \<and> nilGet (buildAllowed opt) (TrimSpace (tmux_Name t))
                   \<and> \<not> nilGet (buildDisallowed opt) (TrimSpace (tmux_Name t)))"
    if "validateAction a0 = Inr a" "TrimSpace (opt_ProjectRoot opt) \<noteq> []"
       "buildSessionName w (specOne a0) opt \<noteq> []" "a_Type a = ''tmux''"
    using one_tmux[OF that] g[OF that(4)] by simp
  from 1[of opt r] 2 3 4 show ?thesis by blast
qed

theorem policy_gate_witness:
  "succeeds (BuildFromSpec worldK (specOne (shellAction ''make'')) optShell)
   \<and> \<not> succeeds (BuildFromSpec worldK (specOne (shellAction ''make'')) optDemo)
   \<and> succeeds (BuildFromSpec worldK (specOne (tmuxAction ''new-window'' [''-d''])) optTmux)
   \<and> \<not> succeeds (BuildFromSpec worldK (specOne (tmuxAction ''new-window'' [''-d''])) optDemo)
   \<and> \<not> succeeds (BuildFromSpec worldK (specOne (tmuxAction ''new-window'' [''-d''])) optDenied)
   \<and> \<not> succeeds (BuildFromSpec worldK (specOne (tmuxAction ''new-window'' [''-d''])) optNarrow)
   \<and> succeeds (FromSpec worldK ctxDemo specPlanShell True False False)
   \<and> list_all (gated optShell) (usedActions specPlanShell optShell)
   \<and> \<not> succeeds (FromSpec worldK ctxDemo specPlanShell False False False)"
proof -
  let ?sh = "shellAction ''make''" and ?tm = "tmuxAction ''new-window'' [''-d'']"
  have vs: "validateAction ?sh = Inr ?sh" by code_simp
  have vt: "validateAction ?tm = Inr ?tm" by code_simp
  have ts: "a_Type ?sh = ''shell''" by (simp add: shellAction_def)
  have tt: "a_Type ?tm = ''tmux''" by (simp add: tmuxAction_def)
  have at: "a_Tmux ?tm = Some \<lparr>tmux_Name = ''new-window'', tmux_Args = [''-d'']\<rparr>"
    by (simp add: tmuxAction_def)
  have root: "TrimSpace (opt_ProjectRoot optShell) \<noteq> []" "TrimSpace (opt_ProjectRoot optDemo) \<noteq> []"
    "TrimSpace (opt_ProjectRoot optTmux) \<noteq> []" "TrimSpace (opt_ProjectRoot optDenied) \<noteq> []"
    "TrimSpace (opt_ProjectRoot optNarrow) \<noteq> []"
    by code_simp+
  have name: "buildSessionName worldK (specOne ?sh) optShell \<noteq> []"
    "buildSessionName worldK (specOne ?sh) optDemo \<noteq> []"
    "buildSessionName worldK (specOne ?tm) optTmux \<noteq> []"
    "buildSessionName worldK (specOne ?tm) optDemo \<noteq> []"
    "buildSessionName worldK (specOne ?tm) optDenied \<noteq> []"
    "buildSessionName worldK (specOne ?tm) optNarrow \<noteq> []"
    by code_simp+
  have fl: "opt_AllowShell optShell" "\<not> opt_AllowShell optDemo"
    by (simp_all add: optShell_def optDemo_def)
  have g1: "opt_AllowTmuxPassthrough optTmux
            \<and> nilGet (buildAllowed optTmux) (TrimSpace ''new-window'')
            \<and> \<not> nilGet (buildDisallowed optTmux) (TrimSpace ''new-window'')"
    by code_simp
  have g2: "\<not> opt_AllowTmuxPassthrough optDemo" by (simp add: optDemo_def)
  have g3: "nilGet (buildDisallowed optDenied) (TrimSpace ''new-window'')" by code_simp
  have g4: "\<not> nilGet (buildAllowed optNarrow) (TrimSpace ''new-window'')" by code_simp
  have a: "succeeds (BuildFromSpec worldK (specOne ?sh) optShell)"
    using policy_gate[of worldK _ optShell _ _ _ _ _ _ ?sh ?sh] vs root name ts fl by blast
  have b: "\<not> succeeds (BuildFromSpec worldK (specOne ?sh) optDemo)"
    using policy_gate[of worldK _ optDemo _ _ _ _ _ _ ?sh ?sh] vs root name ts fl by blast
  have c: "succeeds (BuildFromSpec worldK (specOne ?tm) optTmux)"
    using policy_gate[of worldK _ optTmux _ _ _ _ _ _ ?tm ?tm] vt root name tt at g1 by simp
  have d: "\<not> succeeds (BuildFromSpec worldK (specOne ?tm) optDemo)"
    using policy_gate[of worldK _ optDemo _ _ _ _ _ _ ?tm ?tm] vt root name tt at g2 by simp
  have e: "\<not> succeeds (BuildFromSpec worldK (specOne ?tm) optDenied)"
    using policy_gate[of worldK _ optDenied _ _ _ _ _ _ ?tm ?tm] vt root name tt at g3 by simp
  have f: "\<not> succeeds (BuildFromSpec worldK (specOne ?tm) optNarrow)"
    using policy_gate[of worldK _ optNarrow _ _ _ _ _ _ ?tm ?tm] vt root name tt at g4 by simp
  have h: "succeeds (FromSpec worldK ctxDemo specPlanShell True False False)" by code_simp
  have v: "Validate specPlanShell = Inr specPlanShell" by code_simp
  have "succeeds (BuildFromSpec worldK specPlanShell optShell)" by code_simp
  then obtain r where "BuildFromSpec worldK specPlanShell optShell = Inr r"
    by (auto simp: succeeds_Inr)
  with policy_gate[of worldK specPlanShell optShell r] v
  have i: "list_all (gated optShell) (usedActions specPlanShell optShell)" by simp
  have j: "\<not> succeeds (FromSpec worldK ctxDemo specPlanShell False False False)"
  proof
    assume "succeeds (FromSpec worldK ctxDemo specPlanShell False False False)"
    then obtain tpl where ft: "FromSpec worldK ctxDemo specPlanShell False False False = Inr tpl"
      by (auto simp: succeeds_Inr)
    note policy_gate[of worldK specPlanShell optDemo _ ctxDemo False False False tpl,
        THEN conjunct2, THEN conjunct1, THEN mp, OF ft]
    with v obtain bo where bo: "list_all (gated bo) (usedActions specPlanShell bo)"
      "opt_AllowShell bo = False" "opt_PreferWindows bo"
      by auto
    have "useActions specPlanShell bo = False"
      using bo(3) by (simp add: useActions_def specPlanShell_def)
    then have "shellAction ''make'' \<in> set (usedActions specPlanShell bo)"
      by (simp add: usedActions_def specPlanShell_def windowUsed_def stepActions_def planPane_def
            Window0_def)
    with bo(1) have "gated bo (shellAction ''make'')" by (simp add: list_all_iff)
    with bo(2) show False by (simp add: gated_def shellAction_def)
  qed
  from a b c d e f h i j show ?thesis by blast
qed

end
